theory Spec2Isabelle
  imports Main "HOL-Library.Word" "HOL-Library.Signed_Division"
begin

unbundle bit_operations_syntax

section \<open>The sunxifbsink overlay sink (src/src/gstsunxifbsink.c)\<close>

text \<open>
  A shallow embedding of the hardware-overlay part of \<^verbatim>\<open>gstsunxifbsink.c\<close>.
  Values of C type \<^verbatim>\<open>int\<close>/\<^verbatim>\<open>gint\<close> are HOL integers (no arithmetic on them
  comes near the 32-bit range: it is \<^verbatim>\<open>/2\<close>, \<^verbatim>\<open>>>2\<close>, \<^verbatim>\<open>&1\<close> and comparisons),
  with C's truncating \<^verbatim>\<open>/\<close> and \<^verbatim>\<open>%\<close> written \<open>sdiv\<close> and \<open>smod\<close>.
  Values of type \<^verbatim>\<open>unsigned int\<close> are \<open>32 word\<close>, \<^verbatim>\<open>unsigned long long\<close> is
  \<open>64 word\<close>; pointers and \<^verbatim>\<open>unsigned long\<close> are \<open>'l word\<close>, the width \<open>'l\<close> of the
  target left open (32 on ILP32, 64 on LP64). C arrays are functions from the index.
  Every call that leaves the file (an ioctl, a libdisp or memory-adapter call) is recorded
  in a list of \<open>hw_call\<close>s, and what the device answers is an input of the model.
\<close>

subsection \<open>GLib and GStreamer constants\<close>

type_synonym gboolean = int
type_synonym GstFlowReturn = int

text \<open>\<^verbatim>\<open>#define FALSE (0)\<close> and \<^verbatim>\<open>#define TRUE (!FALSE)\<close> of glib's gmacros.h.\<close>

definition FALSE :: gboolean where "FALSE = 0"
definition TRUE :: gboolean where "TRUE = 1"

text \<open>\<^verbatim>\<open>GST_FLOW_OK = 0\<close> and \<^verbatim>\<open>GST_FLOW_ERROR = -5\<close> of GStreamer's gstpad.h.\<close>

definition GST_FLOW_OK :: GstFlowReturn where "GST_FLOW_OK = 0"
definition GST_FLOW_ERROR :: GstFlowReturn where "GST_FLOW_ERROR = - 5"

text \<open>The video formats the file names (its pad template and its overlay table).\<close>

datatype GstVideoFormat =
    GST_VIDEO_FORMAT_UNKNOWN
  | GST_VIDEO_FORMAT_RGB | GST_VIDEO_FORMAT_BGR
  | GST_VIDEO_FORMAT_RGBx | GST_VIDEO_FORMAT_BGRx
  | GST_VIDEO_FORMAT_xRGB | GST_VIDEO_FORMAT_xBGR
  | GST_VIDEO_FORMAT_NV12 | GST_VIDEO_FORMAT_NV21
  | GST_VIDEO_FORMAT_YV12 | GST_VIDEO_FORMAT_I420
  | GST_VIDEO_FORMAT_YUY2 | GST_VIDEO_FORMAT_UYVY
  | GST_VIDEO_FORMAT_Y444 | GST_VIDEO_FORMAT_AYUV

definition sunxifbsink_supported_overlay_formats_table :: "GstVideoFormat list" where
  "sunxifbsink_supported_overlay_formats_table =
     [GST_VIDEO_FORMAT_YV12, GST_VIDEO_FORMAT_I420, GST_VIDEO_FORMAT_NV12,
      GST_VIDEO_FORMAT_NV21, GST_VIDEO_FORMAT_AYUV, GST_VIDEO_FORMAT_BGRx,
      GST_VIDEO_FORMAT_YUY2, GST_VIDEO_FORMAT_UYVY, GST_VIDEO_FORMAT_Y444,
      GST_VIDEO_FORMAT_UNKNOWN]"

text \<open>\<^verbatim>\<open>#define ALIGN_32B(x) (((x) + (31)) & ~(31))\<close>, on \<^verbatim>\<open>unsigned int\<close>.\<close>

definition ALIGN_32B :: "32 word \<Rightarrow> 32 word" where
  "ALIGN_32B x = (x + 31) AND NOT 31"

subsection \<open>get_overlay_video_alignment (lines 407-436)\<close>

text \<open>The part of \<^verbatim>\<open>GstVideoInfo\<close> the function reads.\<close>

record GstVideoInfo =
  vi_format :: GstVideoFormat
  vi_width :: int
  vi_height :: int

text \<open>The three out-parameters of the function, \<open>'va\<close> the alignment structure.\<close>

record 'va alignment_out =
  video_alignment :: 'va
  overlay_align :: int
  video_alignment_matches :: gboolean

text \<open>
  \<open>set_from_scanline\<close> stands for the base class's
  \<^verbatim>\<open>gst_framebuffersink_set_overlay_video_alignment_from_scanline_alignment\<close>, which is
  called with scanline alignment 3 and \<^verbatim>\<open>TRUE\<close> and fills \<^verbatim>\<open>*video_alignment\<close> and
  \<^verbatim>\<open>*video_alignment_matches\<close>. On the early return nothing is written.
\<close>

definition gst_sunxifbsink_get_overlay_video_alignment ::
  "(GstVideoInfo \<Rightarrow> int \<Rightarrow> gboolean \<Rightarrow> 'va \<times> gboolean) \<Rightarrow> GstVideoInfo \<Rightarrow>
   'va alignment_out \<Rightarrow> gboolean \<times> 'va alignment_out" where
  "gst_sunxifbsink_get_overlay_video_alignment set_from_scanline video_info out =
     (let format = vi_format video_info in
      if (format = GST_VIDEO_FORMAT_I420 \<or> format = GST_VIDEO_FORMAT_YV12 \<or>
          format = GST_VIDEO_FORMAT_NV12 \<or> format = GST_VIDEO_FORMAT_NV21) \<and>
         vi_width video_info AND 1 \<noteq> 0
      then (FALSE, out)
      else
        (let (va, matches) = set_from_scanline video_info 3 TRUE
         in (TRUE, out\<lparr>overlay_align := 15, video_alignment := va,
                        video_alignment_matches := matches\<rparr>)))"

subsection \<open>The sink instance\<close>

record GstVideoRectangle =
  rect_x :: int
  rect_y :: int
  rect_w :: int
  rect_h :: int

text \<open>
  The fields of \<^verbatim>\<open>GstSunxifbsink\<close> and of its base \<^verbatim>\<open>GstFramebufferSink\<close> that the
  overlay code reads or writes, and the three \<^verbatim>\<open>static\<close> variables of the file:
  the counter \<^verbatim>\<open>m\<close> of \<^verbatim>\<open>show_memory_yuv_planar\<close> (\<open>m_memory\<close>), the counter
  \<^verbatim>\<open>m\<close> of \<^verbatim>\<open>show_overlay_yuv_planar\<close> (\<open>m_overlay\<close>) and
  \<^verbatim>\<open>reset_video_rectangle_flag\<close>. \<open>scale_width_0\<close> is the value of
  \<^verbatim>\<open>GST_VIDEO_FORMAT_INFO_SCALE_WIDTH (finfo, 0, 8)\<close> and \<open>comp_pstride_0\<close> that of
  \<^verbatim>\<open>GST_VIDEO_INFO_COMP_PSTRIDE (&video_info, 0)\<close>; \<open>smem_start\<close> is
  \<^verbatim>\<open>fbdevframebuffersink->fixinfo.smem_start\<close>. The type \<open>'p\<close> of pointers is
  always instantiated with \<open>'l word\<close>.
\<close>

record 'p OmxPrivateBuffer =
  pAddrPhyY :: 'p
  pAddrVirY :: 'p

text \<open>
  A \<^verbatim>\<open>GstMemory\<close>: whether \<^verbatim>\<open>GST_MEMORY_FLAG_PHYSICALLY_CONTIGUOUS\<close> is set, the
  pointer \<^verbatim>\<open>mapinfo.data\<close> that \<^verbatim>\<open>gst_memory_map\<close> gives, and the
  \<^verbatim>\<open>OmxPrivateBuffer\<close> found there.
\<close>

record 'p GstMemory =
  physically_contiguous :: bool
  map_data :: 'p
  map_contents :: "'p OmxPrivateBuffer"

record 'p sunxifbsink =
  fd_disp :: int
  fd_transform :: int
  fd_g2d :: int
  transform_channel :: int
  framebuffer_id :: int
  layer_id :: int
  layer_is_visible :: gboolean
  layer_has_scaler :: gboolean
  overlay_format :: GstVideoFormat
  sBuffer :: "'p OmxPrivateBuffer"
  smem_start :: 'p
  rotate_addr_phy :: "int \<Rightarrow> 'p"
  rotate_angle_property :: int
  max_video_memory_property :: int
  overlay_plane_offset :: "int \<Rightarrow> int"
  overlay_scanline_stride :: "int \<Rightarrow> int"
  scale_width_0 :: int
  comp_pstride_0 :: int
  videosink_width :: int
  videosink_height :: int
  video_rectangle :: GstVideoRectangle
  screen_info_width :: int
  screen_info_height :: int
  m_memory :: int
  m_overlay :: int
  reset_video_rectangle_flag :: bool


subsection \<open>The rotation job and the calls that leave the file\<close>

text \<open>
  \<^verbatim>\<open>tr_mode\<close>, \<^verbatim>\<open>tr_frame\<close> and \<^verbatim>\<open>tr_info\<close> are declared in \<^verbatim>\<open>sunxi_tr.h\<close>. The mode
  is kept as the integer that \<^verbatim>\<open>rt_mode = framebuffersink->rotate_angle_property\<close>
  copies into it; the values of the enumerators are parameters of the model
  (\<open>tr_rot_90\<close>, \<open>tr_rot_180\<close>, \<open>tr_rot_270\<close>) wherever the code compares with them.
\<close>

datatype tr_pixel_format = TR_FORMAT_YUV420_P

record 'p tr_frame =
  fmt :: "tr_pixel_format option"
  laddr :: "int \<Rightarrow> 'p"
  pitch :: "int \<Rightarrow> 32 word"
  height :: "int \<Rightarrow> 32 word"

record tr_rect =
  tr_x :: int
  tr_y :: int
  tr_w :: "32 word"
  tr_h :: "32 word"

record 'p tr_info =
  tr_mode :: int
  src_frame :: "'p tr_frame"
  src_rect :: tr_rect
  dst_frame :: "'p tr_frame"
  dst_rect :: tr_rect

text \<open>
  \<^verbatim>\<open>g2d_blt_h\<close> of \<^verbatim>\<open>g2d_driver_enh.h\<close>: the members the file writes.
\<close>

datatype g2d_fmt_enh = G2D_FORMAT_YUV420_PLANAR | G2D_FORMAT_YUV420UVC_U1V1U0V0

datatype g2d_blt_flags_h =
    G2D_ROT_0 | G2D_ROT_90 | G2D_ROT_180 | G2D_ROT_270 | G2D_ROT_H | G2D_ROT_V
  | G2D_BLT_NONE_H

datatype g2d_color_gmt = G2D_BT709

datatype g2d_alpha_mode_enh = G2D_GLOBAL_ALPHA

record g2d_rect =
  g2d_x :: int
  g2d_y :: int
  g2d_w :: "32 word"
  g2d_h :: "32 word"

record 'p g2d_image_enh =
  bbuff :: int
  use_phy_addr :: int
  color :: int
  g2d_format :: "g2d_fmt_enh option"
  g2d_laddr :: "int \<Rightarrow> 'p"
  g2d_width :: "32 word"
  g2d_height :: "32 word"
  g2d_align :: "int \<Rightarrow> int"
  clip_rect :: g2d_rect
  gamut :: "g2d_color_gmt option"
  bpremul :: int
  g2d_alpha :: int
  g2d_mode :: "g2d_alpha_mode_enh option"

record 'p g2d_blt_h =
  flag_h :: "g2d_blt_flags_h option"
  src_image_h :: "'p g2d_image_enh"
  dst_image_h :: "'p g2d_image_enh"

text \<open>
  A call that leaves the file, with the arguments the claims speak about; \<open>'c\<close> is the
  layer configuration of the build variant.
\<close>

datatype ('p, 'c) hw_call =
    IoctlTrCommit int "'p tr_info"
  | IoctlTrQuery int
  | Usleep nat
  | IoctlG2dBitblt int "'p g2d_blt_h"
  | DispSetLayerConfig int int int 'c
  | DispSetLayerEnable int int int int
  | SunxiMemPalloc "32 word"
  | SunxiMemPfree 'p

subsection \<open>hwRotateVideoPicture (lines 481-525)\<close>

text \<open>
  The answers of the transform device are a list, one for each \<^verbatim>\<open>ioctl\<close> in the order
  the function issues them; the result is \<open>None\<close> when the list ends before the function
  returns (the device has not answered yet). The function jumps (\<^verbatim>\<open>goto setup_tr\<close>), so
  the model follows its control points: at the label \<^verbatim>\<open>setup_tr\<close> (the \<^verbatim>\<open>TR_COMMIT\<close> of
  line 494), at the \<^verbatim>\<open>TR_QUERY\<close> of line 505 (whose result the loop overwrites before
  anything reads it), and at the \<^verbatim>\<open>TR_QUERY\<close> of line 509 inside \<^verbatim>\<open>while(1)\<close>. The
  result is the returned \<^verbatim>\<open>int\<close> and the calls made, in order.
\<close>

datatype tr_point = At_setup_tr | At_first_query | In_while

fun hwRotateVideoPicture_at ::
  "tr_point \<Rightarrow> int \<Rightarrow> 'p tr_info \<Rightarrow> int list \<Rightarrow> (int \<times> ('p, 'c) hw_call list) option" where
  "hwRotateVideoPicture_at pt ch info [] = None"
| "hwRotateVideoPicture_at At_setup_tr ch info (ret # answers) =
     (if ret \<noteq> 0 then Some (- 1, [IoctlTrCommit ch info])
      else map_option (\<lambda>(r, calls). (r, IoctlTrCommit ch info # calls))
             (hwRotateVideoPicture_at At_first_query ch info answers))"
| "hwRotateVideoPicture_at At_first_query ch info (ret # answers) =
     map_option (\<lambda>(r, calls). (r, IoctlTrQuery ch # calls))
       (hwRotateVideoPicture_at In_while ch info answers)"
| "hwRotateVideoPicture_at In_while ch info (ret # answers) =
     (if ret = 1
      then map_option (\<lambda>(r, calls). (r, IoctlTrQuery ch # Usleep (1 * 1000) # calls))
             (hwRotateVideoPicture_at In_while ch info answers)
      else if ret = - 1
      then map_option (\<lambda>(r, calls). (r, IoctlTrQuery ch # calls))
             (hwRotateVideoPicture_at At_setup_tr ch info answers)
      else Some (ret, [IoctlTrQuery ch]))"

definition hwRotateVideoPicture ::
  "'p sunxifbsink \<Rightarrow> 'p tr_info \<Rightarrow> int list \<Rightarrow> (int \<times> ('p, 'c) hw_call list) option" where
  "hwRotateVideoPicture sunxifbsink info answers =
     hwRotateVideoPicture_at At_setup_tr (transform_channel sunxifbsink) info answers"

subsection \<open>The layer (lines 1652-1701)\<close>

text \<open>
  \<open>enable_result\<close> is what \<^verbatim>\<open>DispSetLayerEnable\<close> returns if the function calls it.
\<close>

definition gst_sunxifbsink_show_layer ::
  "'p sunxifbsink \<Rightarrow> int \<Rightarrow> gboolean \<times> 'p sunxifbsink \<times> ('p, 'c) hw_call list" where
  "gst_sunxifbsink_show_layer sunxifbsink enable_result =
     (if layer_is_visible sunxifbsink \<noteq> 0 then (TRUE, sunxifbsink, [])
      else if layer_id sunxifbsink < 0 then (FALSE, sunxifbsink, [])
      else if enable_result \<noteq> 0
      then (FALSE, sunxifbsink,
            [DispSetLayerEnable (fd_disp sunxifbsink) (framebuffer_id sunxifbsink)
               (layer_id sunxifbsink) 1])
      else (TRUE, sunxifbsink\<lparr>layer_is_visible := TRUE\<rparr>,
            [DispSetLayerEnable (fd_disp sunxifbsink) (framebuffer_id sunxifbsink)
               (layer_id sunxifbsink) 1]))"

definition gst_sunxifbsink_hide_layer ::
  "'p sunxifbsink \<Rightarrow> int \<Rightarrow> 'p sunxifbsink \<times> ('p, 'c) hw_call list" where
  "gst_sunxifbsink_hide_layer sunxifbsink disable_result =
     (if layer_is_visible sunxifbsink = 0 then (sunxifbsink, [])
      else if disable_result \<noteq> 0
      then (sunxifbsink,
            [DispSetLayerEnable (fd_disp sunxifbsink) (framebuffer_id sunxifbsink)
               (layer_id sunxifbsink) 0])
      else (sunxifbsink\<lparr>layer_is_visible := FALSE\<rparr>,
            [DispSetLayerEnable (fd_disp sunxifbsink) (framebuffer_id sunxifbsink)
               (layer_id sunxifbsink) 0]))"

definition gst_sunxifbsink_release_layer ::
  "'p sunxifbsink \<Rightarrow> 'p sunxifbsink \<times> ('p, 'c) hw_call list" where
  "gst_sunxifbsink_release_layer sunxifbsink =
     (let (s, calls) =
        (if layer_is_visible sunxifbsink \<noteq> 0
         then (sunxifbsink\<lparr>layer_is_visible := FALSE\<rparr>,
               [DispSetLayerEnable (fd_disp sunxifbsink) (framebuffer_id sunxifbsink)
                  (layer_id sunxifbsink) 0])
         else (sunxifbsink, []))
      in (s\<lparr>layer_id := - 1, layer_has_scaler := 0\<rparr>, calls))"


subsection \<open>What the devices and libraries answer during one frame\<close>

text \<open>
  The values that reach the presenters from outside the file while one frame is shown.
  \<open>phys_addr\<close> is
  \<^verbatim>\<open>SunxiMemGetPhysicAddressCpu\<close>; \<open>ptr_to_ull\<close> is the conversion of a pointer to
  \<^verbatim>\<open>unsigned long long\<close>, which the compiler defines; \<open>actual_width\<close> and
  \<open>actual_height\<close> are what \<^verbatim>\<open>SunxiMemGetActualSize\<close> stores; \<open>palloc_first\<close> and
  \<open>palloc_second\<close> are the results of the first and the second \<^verbatim>\<open>SunxiMemPalloc\<close> (0 is
  \<^verbatim>\<open>NULL\<close>); \<open>tr_answers\<close> are the results of the \<^verbatim>\<open>ioctl\<close>s on the transform device, in
  order; \<open>g2d_bitblt_result\<close>, \<open>set_layer_config_result\<close> and \<open>set_layer_enable_result\<close> are
  the results of \<^verbatim>\<open>ioctl(G2D_CMD_BITBLT_H)\<close>, \<^verbatim>\<open>DispSetLayerConfig\<close> and
  \<^verbatim>\<open>DispSetLayerEnable\<close>; \<open>center_rect src dst\<close> is the rectangle that
  \<^verbatim>\<open>gst_video_sink_center_rect (src, dst, &result, FALSE)\<close> stores.
\<close>

record 'p hw_answers =
  phys_addr :: "'p \<Rightarrow> 'p"
  ptr_to_ull :: "'p \<Rightarrow> 64 word"
  actual_width :: int
  actual_height :: int
  palloc_first :: 'p
  palloc_second :: 'p
  tr_answers :: "int list"
  g2d_bitblt_result :: int
  set_layer_config_result :: int
  set_layer_enable_result :: int
  center_rect :: "GstVideoRectangle \<Rightarrow> GstVideoRectangle \<Rightarrow> GstVideoRectangle"

text \<open>
  The enumerators of \<^verbatim>\<open>tr_mode\<close> that the file compares with; \<^verbatim>\<open>sunxi_tr.h\<close> gives
  them their values.
\<close>

record sunxi_tr_h =
  TR_ROT_90 :: int
  TR_ROT_180 :: int
  TR_ROT_270 :: int

text \<open>
  The plane-0 width in pixels that every presenter computes,
  \<^verbatim>\<open>overlay_scanline_stride[0] / (GST_VIDEO_FORMAT_INFO_SCALE_WIDTH (finfo, 0, 8)
  * GST_VIDEO_INFO_COMP_PSTRIDE (&video_info, 0) / 8)\<close>. A zero divisor stops the
  process (the presenters then do not return: \<open>None\<close>).
\<close>

definition stride_divisor :: "'p sunxifbsink \<Rightarrow> int" where
  "stride_divisor fs = scale_width_0 fs * comp_pstride_0 fs sdiv 8"

definition stride_pixels :: "'p sunxifbsink \<Rightarrow> int" where
  "stride_pixels fs = overlay_scanline_stride fs 0 sdiv stride_divisor fs"

subsection \<open>The layer configuration with \<^verbatim>\<open>__SUNXI_DISPLAY2__\<close>\<close>

text \<open>
  The enumerators the file assigns. A field of an enumeration holds \<open>None\<close> while it
  still has the zero that \<^verbatim>\<open>memset\<close> wrote.
\<close>

datatype disp_pixel_format =
    DISP_FORMAT_ARGB_8888 | DISP_FORMAT_YUV444_P | DISP_FORMAT_YUV422_P
  | DISP_FORMAT_YUV420_P | DISP_FORMAT_YUV420_SP_UVUV | DISP_FORMAT_YUV420_SP_VUVU

datatype disp_color_space = DISP_BT601 | DISP_BT709

datatype disp_layer_mode = LAYER_MODE_BUFFER | DISP_LAYER_WORK_MODE_SCALER

datatype disp_buffer_flags = DISP_BF_NORMAL

datatype disp_scan_flags = DISP_SCAN_PROGRESSIVE

text \<open>
  \<^verbatim>\<open>luapiconfig.layerConfig\<close> of the \<^verbatim>\<open>__SUNXI_DISPLAY2__\<close> build, a field for each
  member the file writes, named by its path (\<open>info_fb_addr\<close> is
  \<^verbatim>\<open>layerConfig.info.fb.addr\<close>).
\<close>

record disp2_layer_config =
  cfg_enable :: gboolean
  cfg_layer_id :: int
  cfg_channel :: int
  info_mode :: "disp_layer_mode option"
  info_zorder :: int
  info_alpha_mode :: int
  info_alpha_value :: int
  info_screen_win_x :: int
  info_screen_win_y :: int
  info_screen_win_width :: int
  info_screen_win_height :: int
  info_fb_addr :: "int \<Rightarrow> 64 word"
  info_fb_size_width :: "int \<Rightarrow> 32 word"
  info_fb_size_height :: "int \<Rightarrow> 32 word"
  info_fb_format :: "disp_pixel_format option"
  info_fb_color_space :: "disp_color_space option"
  info_fb_crop_x :: "64 word"
  info_fb_crop_y :: "64 word"
  info_fb_crop_width :: "64 word"
  info_fb_crop_height :: "64 word"
  info_fb_flags :: "disp_buffer_flags option"
  info_fb_scan :: "disp_scan_flags option"

text \<open>\<^verbatim>\<open>memset(&luapiconfig, 0, sizeof(luapiconfig))\<close>.\<close>

definition disp2_layer_config_zero :: disp2_layer_config where
  "disp2_layer_config_zero =
     \<lparr>cfg_enable = 0, cfg_layer_id = 0, cfg_channel = 0, info_mode = None, info_zorder = 0,
      info_alpha_mode = 0, info_alpha_value = 0, info_screen_win_x = 0,
      info_screen_win_y = 0, info_screen_win_width = 0, info_screen_win_height = 0,
      info_fb_addr = (\<lambda>i. 0), info_fb_size_width = (\<lambda>i. 0),
      info_fb_size_height = (\<lambda>i. 0), info_fb_format = None, info_fb_color_space = None,
      info_fb_crop_x = 0, info_fb_crop_y = 0, info_fb_crop_width = 0,
      info_fb_crop_height = 0, info_fb_flags = None, info_fb_scan = None\<rparr>"

text \<open>\<^verbatim>\<open>memset(&trans_info, 0, sizeof(tr_info))\<close>.\<close>

definition tr_frame_zero :: "'l::len word tr_frame" where
  "tr_frame_zero = \<lparr>fmt = None, laddr = (\<lambda>i. 0), pitch = (\<lambda>i. 0), height = (\<lambda>i. 0)\<rparr>"

definition tr_info_zero :: "'l::len word tr_info" where
  "tr_info_zero =
     \<lparr>tr_mode = 0, src_frame = tr_frame_zero,
      src_rect = \<lparr>tr_x = 0, tr_y = 0, tr_w = 0, tr_h = 0\<rparr>,
      dst_frame = tr_frame_zero,
      dst_rect = \<lparr>tr_x = 0, tr_y = 0, tr_w = 0, tr_h = 0\<rparr>\<rparr>"

subsection \<open>Blocks that the presenters repeat\<close>

text \<open>
  The end of every presenter (lines 951-959, 1334-1340, 1432-1438, 1510-1516):
  \<^verbatim>\<open>if (DispSetLayerConfig(...) < 0) return FALSE;\<close> then
  \<^verbatim>\<open>gst_sunxifbsink_show_layer(sunxifbsink); return GST_FLOW_OK;\<close>. \<open>calls\<close> are the
  calls made so far.
\<close>

definition set_layer_config_and_show ::
  "'p sunxifbsink \<Rightarrow> 'p hw_answers \<Rightarrow> 'c \<Rightarrow> ('p, 'c) hw_call list \<Rightarrow>
   (GstFlowReturn \<times> 'p sunxifbsink \<times> ('p, 'c) hw_call list) option" where
  "set_layer_config_and_show fs ans luapiconfig calls =
     (let commit = DispSetLayerConfig (fd_disp fs) (framebuffer_id fs) (layer_id fs) luapiconfig
      in if set_layer_config_result ans < 0 then Some (FALSE, fs, calls @ [commit])
         else (let (shown, fs', show_calls) =
                     gst_sunxifbsink_show_layer fs (set_layer_enable_result ans)
               in Some (GST_FLOW_OK, fs', calls @ commit # show_calls)))"

text \<open>
  The allocation of the two rotation buffers (lines 643-666, 829-851, 1068-1088), run
  when \<^verbatim>\<open>rotate_addr_phy[0]\<close> and \<^verbatim>\<open>rotate_addr_phy[1]\<close> are both \<^verbatim>\<open>NULL\<close>. \<open>Inl\<close> is
  the early \<^verbatim>\<open>return GST_FLOW_ERROR\<close>. The contents of memory (\<^verbatim>\<open>memset\<close>, the cache
  flush) are not part of the model.
\<close>

definition rotate_buffers_alloc ::
  "'l::len word sunxifbsink \<Rightarrow> 'l word hw_answers \<Rightarrow> 32 word \<Rightarrow> 32 word \<Rightarrow>
   ('l word sunxifbsink \<times> ('l word, 'c) hw_call list) +
   ('l word sunxifbsink \<times> ('l word, 'c) hw_call list)" where
  "rotate_buffers_alloc fs ans width_align height_align =
     (if rotate_addr_phy fs 0 = 0 \<and> rotate_addr_phy fs 1 = 0
      then
        (let buffer_len = width_align * height_align * 3 div 2;
             fs1 = fs\<lparr>rotate_addr_phy := (rotate_addr_phy fs)(0 := palloc_first ans)\<rparr>
         in if palloc_first ans = 0 then Inl (fs1, [SunxiMemPalloc buffer_len])
            else
              (let fs2 = fs1\<lparr>rotate_addr_phy :=
                               (rotate_addr_phy fs1)(1 := palloc_second ans)\<rparr>
               in if palloc_second ans = 0
                  then Inl (fs2, [SunxiMemPalloc buffer_len, SunxiMemPalloc buffer_len,
                                  SunxiMemPfree (palloc_first ans)])
                  else Inr (fs2, [SunxiMemPalloc buffer_len, SunxiMemPalloc buffer_len])))
      else Inr (fs, []))"

text \<open>
  The destination frame and rectangle of the rotation job (lines 686-720 and 871-905),
  from \<^verbatim>\<open>width_align\<close>, \<^verbatim>\<open>height_align\<close> and the counter \<^verbatim>\<open>m\<close> before \<^verbatim>\<open>++m\<close>.
\<close>

definition rotate_dst_frame ::
  "sunxi_tr_h \<Rightarrow> 'l::len word sunxifbsink \<Rightarrow> 'l word hw_answers \<Rightarrow> int \<Rightarrow> 32 word \<Rightarrow>
   32 word \<Rightarrow> 'l word tr_frame" where
  "rotate_dst_frame K fs ans rt_mode width_align height_align =
     (let laddr0 = phys_addr ans (rotate_addr_phy fs ((m_memory fs + 1) smod 2));
          laddr1 = laddr0 + ucast (width_align * height_align);
          laddr2 = laddr0 + ucast (width_align * height_align * 5 div 4)
      in if rt_mode = TR_ROT_180 K
         then \<lparr>fmt = Some TR_FORMAT_YUV420_P,
               laddr = (\<lambda>i. 0)(0 := laddr0, 1 := laddr1, 2 := laddr2),
               pitch = (\<lambda>i. 0)(0 := width_align, 1 := width_align div 2,
                                  2 := width_align div 2),
               height = (\<lambda>i. 0)(0 := height_align, 1 := height_align div 2,
                                   2 := height_align div 2)\<rparr>
         else \<lparr>fmt = Some TR_FORMAT_YUV420_P,
               laddr = (\<lambda>i. 0)(0 := laddr0, 1 := laddr1, 2 := laddr2),
               pitch = (\<lambda>i. 0)(0 := height_align, 1 := height_align div 2,
                                  2 := height_align div 2),
               height = (\<lambda>i. 0)(0 := width_align, 1 := width_align div 2,
                                   2 := width_align div 2)\<rparr>)"

definition rotate_dst_rect :: "sunxi_tr_h \<Rightarrow> int \<Rightarrow> 32 word \<Rightarrow> 32 word \<Rightarrow> tr_rect" where
  "rotate_dst_rect K rt_mode width_align height_align =
     (if rt_mode = TR_ROT_180 K
      then \<lparr>tr_x = 0, tr_y = 0, tr_w = width_align, tr_h = height_align\<rparr>
      else \<lparr>tr_x = 0, tr_y = 0, tr_w = height_align, tr_h = width_align\<rparr>)"

subsection \<open>show_memory_yuv_planar with \<^verbatim>\<open>__SUNXI_DISPLAY2__\<close> (lines 527-767, 951-960)\<close>

text \<open>
  Lines 564-637: the planes of the mapped buffer. The result is the configuration and
  \<^verbatim>\<open>rotate_enable\<close>, which the Y444 branch clears.
\<close>

definition memory_planes_disp2 ::
  "'l::len word sunxifbsink \<Rightarrow> 'l word hw_answers \<Rightarrow> GstVideoFormat \<Rightarrow> 'l word \<Rightarrow> bool \<Rightarrow>
   disp2_layer_config \<times> bool" where
  "memory_planes_disp2 fs ans format phymem_start rotate_enable =
     (let c = disp2_layer_config_zero;
          plane = (\<lambda>i. ptr_to_ull ans (phymem_start + word_of_int (overlay_plane_offset fs i)))
      in if format = GST_VIDEO_FORMAT_Y444
         then (c\<lparr>info_fb_addr := (info_fb_addr c)
                      (0 := ptr_to_ull ans phymem_start, 1 := plane 1, 2 := plane 2),
                  info_fb_size_width := (info_fb_size_width c)
                      (0 := word_of_int (stride_pixels fs), 1 := word_of_int (stride_pixels fs),
                       2 := word_of_int (stride_pixels fs)),
                  info_fb_size_height := (info_fb_size_height c)
                      (0 := word_of_int (videosink_height fs),
                       1 := word_of_int (videosink_height fs),
                       2 := word_of_int (videosink_height fs)),
                  info_fb_format := Some DISP_FORMAT_YUV444_P\<rparr>, False)
         else if format = GST_VIDEO_FORMAT_NV12 \<or> format = GST_VIDEO_FORMAT_NV21
         then (c\<lparr>info_fb_format :=
                      (if format = GST_VIDEO_FORMAT_NV12 then Some DISP_FORMAT_YUV420_SP_UVUV
                       else Some DISP_FORMAT_YUV420_SP_VUVU),
                  info_fb_addr := (info_fb_addr c)
                      (0 := ptr_to_ull ans phymem_start, 1 := plane 1),
                  info_fb_size_width := (info_fb_size_width c)
                      (0 := word_of_int (stride_pixels fs),
                       1 := word_of_int (stride_pixels fs sdiv 2)),
                  info_fb_size_height := (info_fb_size_height c)
                      (1 := word_of_int (videosink_height fs sdiv 2),
                       2 := word_of_int (videosink_height fs sdiv 2))\<rparr>, rotate_enable)
         else if format = GST_VIDEO_FORMAT_I420
         then (c\<lparr>info_fb_format := Some DISP_FORMAT_YUV420_P,
                  info_fb_addr := (info_fb_addr c)
                      (0 := ptr_to_ull ans phymem_start, 1 := plane 1, 2 := plane 2),
                  info_fb_size_width := (info_fb_size_width c)
                      (0 := word_of_int (stride_pixels fs),
                       1 := word_of_int (videosink_width fs sdiv 2),
                       2 := word_of_int (videosink_width fs sdiv 2)),
                  info_fb_size_height := (info_fb_size_height c)
                      (0 := word_of_int (videosink_height fs),
                       1 := word_of_int (videosink_height fs sdiv 2),
                       2 := word_of_int (videosink_height fs sdiv 2))\<rparr>, rotate_enable)
         else (c\<lparr>info_fb_format := Some DISP_FORMAT_YUV420_P,
                  info_fb_addr := (info_fb_addr c)
                      (0 := ptr_to_ull ans phymem_start, 1 := plane 2, 2 := plane 1),
                  info_fb_size_width := (info_fb_size_width c)
                      (0 := word_of_int (stride_pixels fs),
                       1 := word_of_int (videosink_width fs sdiv 2),
                       2 := word_of_int (videosink_width fs sdiv 2)),
                  info_fb_size_height := (info_fb_size_height c)
                      (0 := word_of_int (videosink_height fs),
                       1 := word_of_int (videosink_height fs sdiv 2),
                       2 := word_of_int (videosink_height fs sdiv 2))\<rparr>, rotate_enable))"

text \<open>Lines 668-720: the rotation job; \<open>c\<close> is the configuration of the planes.\<close>

definition memory_trans_info_disp2 ::
  "sunxi_tr_h \<Rightarrow> 'l::len word sunxifbsink \<Rightarrow> 'l word hw_answers \<Rightarrow> int \<Rightarrow> 'l word \<Rightarrow>
   disp2_layer_config \<Rightarrow> 'l word tr_info" where
  "memory_trans_info_disp2 K fs ans rt_mode phymem_start c =
     (let width_align = ALIGN_32B (info_fb_size_width c 0);
          height_align = ALIGN_32B (info_fb_size_height c 0)
      in \<lparr>tr_mode = rt_mode,
          src_frame =
            \<lparr>fmt = Some TR_FORMAT_YUV420_P,
             laddr = (\<lambda>i. 0)(0 := phymem_start, 1 := ucast (info_fb_addr c 1),
                               2 := ucast (info_fb_addr c 2)),
             pitch = (\<lambda>i. 0)(0 := ALIGN_32B (info_fb_size_width c 0),
                               1 := ALIGN_32B (info_fb_size_width c 0) div 2,
                               2 := ALIGN_32B (info_fb_size_width c 0) div 2),
             height = (\<lambda>i. 0)(0 := ALIGN_32B (info_fb_size_height c 0),
                                1 := ALIGN_32B (info_fb_size_height c 1) div 2,
                                2 := ALIGN_32B (info_fb_size_height c 2) div 2)\<rparr>,
          src_rect = \<lparr>tr_x = 0, tr_y = 0, tr_w = word_of_int (actual_width ans),
                       tr_h = word_of_int (actual_height ans)\<rparr>,
          dst_frame = rotate_dst_frame K fs ans rt_mode width_align height_align,
          dst_rect = rotate_dst_rect K rt_mode width_align height_align\<rparr>)"

text \<open>Lines 725-735: the configuration takes the addresses and sizes after the rotation.\<close>

definition memory_rotated_disp2 ::
  "'l::len word sunxifbsink \<Rightarrow> 'l word hw_answers \<Rightarrow> 'l word tr_info \<Rightarrow>
   disp2_layer_config \<Rightarrow> disp2_layer_config" where
  "memory_rotated_disp2 fs ans trans_info c =
     c\<lparr>info_fb_addr := (info_fb_addr c)
           (0 := ptr_to_ull ans (phys_addr ans (rotate_addr_phy fs 0)),
            1 := ucast (laddr (dst_frame trans_info) 1),
            2 := ucast (laddr (dst_frame trans_info) 2)),
       info_fb_size_width := (info_fb_size_width c)
           (0 := pitch (dst_frame trans_info) 0, 1 := pitch (dst_frame trans_info) 1,
            2 := pitch (dst_frame trans_info) 2),
       info_fb_size_height := (info_fb_size_height c)
           (0 := height (dst_frame trans_info) 0, 1 := height (dst_frame trans_info) 1,
            2 := height (dst_frame trans_info) 2)\<rparr>"

text \<open>Lines 737-767: the layer information.\<close>

definition memory_layer_info_disp2 ::
  "sunxi_tr_h \<Rightarrow> 'l::len word sunxifbsink \<Rightarrow> 'l word hw_answers \<Rightarrow> bool \<Rightarrow> 'l word tr_info \<Rightarrow>
   disp2_layer_config \<Rightarrow> disp2_layer_config" where
  "memory_layer_info_disp2 K fs ans rotate_enable trans_info c =
     (let swapped = rotate_enable \<and>
            (tr_mode trans_info = TR_ROT_90 K \<or> tr_mode trans_info = TR_ROT_270 K)
      in c\<lparr>info_mode := Some LAYER_MODE_BUFFER,
           info_zorder := 11,
           info_alpha_mode := 1,
           info_alpha_value := 255,
           info_fb_crop_x := 0,
           info_fb_crop_y := 0,
           info_fb_crop_width :=
             (if swapped then push_bit 32 (word_of_int (actual_height ans))
              else push_bit 32 (word_of_int (actual_width ans))),
           info_fb_crop_height :=
             (if swapped then push_bit 32 (word_of_int (actual_width ans))
              else push_bit 32 (word_of_int (actual_height ans))),
           info_fb_color_space :=
             (if rect_h (video_rectangle fs) < 720 then Some DISP_BT601 else Some DISP_BT709),
           info_screen_win_x := rect_x (video_rectangle fs),
           info_screen_win_y := rect_y (video_rectangle fs),
           info_screen_win_width := rect_w (video_rectangle fs),
           info_screen_win_height := rect_h (video_rectangle fs),
           cfg_enable := TRUE,
           cfg_layer_id := layer_id fs,
           cfg_channel := framebuffer_id fs,
           info_fb_flags := Some DISP_BF_NORMAL,
           info_fb_scan := Some DISP_SCAN_PROGRESSIVE\<rparr>)"

text \<open>
  The whole function. The result of \<^verbatim>\<open>hwRotateVideoPicture\<close> is not read; the function
  does not return while the transform device has not answered.
\<close>

definition gst_sunxifbsink_show_memory_yuv_planar_disp2 ::
  "sunxi_tr_h \<Rightarrow> 'l::len word sunxifbsink \<Rightarrow> 'l word hw_answers \<Rightarrow> GstVideoFormat \<Rightarrow>
   'l word GstMemory \<Rightarrow>
   (GstFlowReturn \<times> 'l word sunxifbsink \<times> ('l word, disp2_layer_config) hw_call list) option"
  where
  "gst_sunxifbsink_show_memory_yuv_planar_disp2 K fs ans format mem =
     (if stride_divisor fs = 0 then None
      else
        (let rt_mode = rotate_angle_property fs;
             phymem_start = phys_addr ans (map_data mem);
             (c, rotate_enable) =
               memory_planes_disp2 fs ans format phymem_start (rotate_angle_property fs > 0)
         in if rotate_enable
            then
              (case rotate_buffers_alloc fs ans (ALIGN_32B (info_fb_size_width c 0))
                      (ALIGN_32B (info_fb_size_height c 0)) of
                 Inl (fs1, calls) \<Rightarrow> Some (GST_FLOW_ERROR, fs1, calls)
               | Inr (fs1, calls) \<Rightarrow>
                   (let trans_info = memory_trans_info_disp2 K fs1 ans rt_mode phymem_start c;
                        fs2 = fs1\<lparr>m_memory := m_memory fs1 + 1\<rparr>
                    in case (if fd_transform fs2 > 0
                             then map_option snd
                                    (hwRotateVideoPicture fs2 trans_info (tr_answers ans))
                             else Some []) of
                         None \<Rightarrow> None
                       | Some tr_calls \<Rightarrow>
                           set_layer_config_and_show fs2 ans
                             (memory_layer_info_disp2 K fs2 ans True trans_info
                                (memory_rotated_disp2 fs2 ans trans_info c))
                             (calls @ tr_calls)))
            else set_layer_config_and_show fs ans
                   (memory_layer_info_disp2 K fs ans False tr_info_zero c) []))"

subsection \<open>The layer configuration without \<^verbatim>\<open>__SUNXI_DISPLAY2__\<close>\<close>

text \<open>
  \<^verbatim>\<open>luapiconfig.layerConfig\<close> of the other build, again a field for each member the
  file writes (\<open>layer_mode\<close> is \<^verbatim>\<open>layerConfig.mode\<close>). The presenters of this build
  start from what \<^verbatim>\<open>DispGetLayerConfig\<close> reads back from the driver and overwrite
  these members only; \<open>other_members\<close> stands for all the members of the structure
  that the file never writes. The addresses are stored through \<^verbatim>\<open>(unsigned int)\<close>.
\<close>

record 'r disp_layer_config =
  fb_addr :: "int \<Rightarrow> 32 word"
  fb_size_width :: "32 word"
  fb_size_height :: "32 word"
  fb_format :: "disp_pixel_format option"
  fb_src_win_x :: int
  fb_src_win_y :: int
  fb_src_win_width :: int
  fb_src_win_height :: int
  fb_pre_multiply :: int
  screen_win_x :: int
  screen_win_y :: int
  screen_win_width :: int
  screen_win_height :: int
  alpha_mode :: int
  alpha_value :: int
  zorder :: int
  layer_mode :: "disp_layer_mode option"
  pipe :: int
  other_members :: 'r

subsection \<open>show_memory_yuv_planar without \<^verbatim>\<open>__SUNXI_DISPLAY2__\<close> (lines 527-562, 769-960)\<close>

text \<open>
  Lines 772-823: the planes; \<open>c\<close> is what \<^verbatim>\<open>DispGetLayerConfig\<close> stored in
  \<^verbatim>\<open>luapiconfig\<close>.
\<close>

definition memory_planes_legacy ::
  "'l::len word sunxifbsink \<Rightarrow> GstVideoFormat \<Rightarrow> 'l word \<Rightarrow> 'r disp_layer_config \<Rightarrow>
   'r disp_layer_config" where
  "memory_planes_legacy fs format phymem_start c =
     (let plane = (\<lambda>i. (ucast phymem_start :: 32 word) + word_of_int (overlay_plane_offset fs i))
      in if format = GST_VIDEO_FORMAT_Y444
         then c\<lparr>fb_addr := (fb_addr c)(0 := ucast phymem_start, 1 := plane 1, 2 := plane 2),
                 fb_size_width := word_of_int (stride_pixels fs),
                 fb_size_height := word_of_int (videosink_height fs),
                 fb_format := Some DISP_FORMAT_YUV444_P\<rparr>
         else if format = GST_VIDEO_FORMAT_NV12 \<or> format = GST_VIDEO_FORMAT_NV21
         then c\<lparr>fb_addr := (fb_addr c)(0 := ucast phymem_start, 1 := plane 1),
                 fb_size_width := word_of_int (stride_pixels fs),
                 fb_size_height := word_of_int (videosink_height fs sdiv 2),
                 fb_format :=
                   (if format = GST_VIDEO_FORMAT_NV12 then Some DISP_FORMAT_YUV420_SP_UVUV
                    else Some DISP_FORMAT_YUV420_SP_VUVU)\<rparr>
         else if format = GST_VIDEO_FORMAT_I420
         then c\<lparr>fb_addr := (fb_addr c)(0 := ucast phymem_start, 1 := plane 1, 2 := plane 2),
                 fb_size_width := word_of_int (stride_pixels fs),
                 fb_size_height := word_of_int (videosink_height fs),
                 fb_format := Some DISP_FORMAT_YUV420_P\<rparr>
         else c\<lparr>fb_addr := (fb_addr c)(0 := ucast phymem_start, 1 := plane 2, 2 := plane 1),
                 fb_size_width := word_of_int (stride_pixels fs),
                 fb_size_height := word_of_int (videosink_height fs),
                 fb_format := Some DISP_FORMAT_YUV420_P\<rparr>)"

text \<open>Lines 853-905: the rotation job.\<close>

definition memory_trans_info_legacy ::
  "sunxi_tr_h \<Rightarrow> 'l::len word sunxifbsink \<Rightarrow> 'l word hw_answers \<Rightarrow> int \<Rightarrow> 'l word \<Rightarrow>
   'r disp_layer_config \<Rightarrow> 'l word tr_info" where
  "memory_trans_info_legacy K fs ans rt_mode phymem_start c =
     (let width_align = ALIGN_32B (fb_size_width c);
          height_align = ALIGN_32B (fb_size_height c)
      in \<lparr>tr_mode = rt_mode,
          src_frame =
            \<lparr>fmt = Some TR_FORMAT_YUV420_P,
             laddr = (\<lambda>i. 0)(0 := ucast (ucast phymem_start :: 32 word),
                               1 := ucast (fb_addr c 1), 2 := ucast (fb_addr c 2)),
             pitch = (\<lambda>i. 0)(0 := ALIGN_32B (fb_size_width c),
                               1 := ALIGN_32B (fb_size_width c) div 2,
                               2 := ALIGN_32B (fb_size_width c) div 2),
             height = (\<lambda>i. 0)(0 := ALIGN_32B (fb_size_height c),
                                1 := ALIGN_32B (fb_size_height c) div 2,
                                2 := ALIGN_32B (fb_size_height c) div 2)\<rparr>,
          src_rect = \<lparr>tr_x = 0, tr_y = 0, tr_w = word_of_int (actual_width ans),
                       tr_h = word_of_int (actual_height ans)\<rparr>,
          dst_frame = rotate_dst_frame K fs ans rt_mode width_align height_align,
          dst_rect = rotate_dst_rect K rt_mode width_align height_align\<rparr>)"

text \<open>Lines 910-916: the configuration after the rotation.\<close>

definition memory_rotated_legacy ::
  "'l::len word sunxifbsink \<Rightarrow> 'l word hw_answers \<Rightarrow> 'l word tr_info \<Rightarrow>
   'r disp_layer_config \<Rightarrow> 'r disp_layer_config" where
  "memory_rotated_legacy fs ans trans_info c =
     c\<lparr>fb_addr := (fb_addr c)
           (0 := ucast (phys_addr ans (rotate_addr_phy fs 0)),
            1 := ucast (laddr (dst_frame trans_info) 1),
            2 := ucast (laddr (dst_frame trans_info) 2)),
       fb_size_width := pitch (dst_frame trans_info) 0,
       fb_size_height := height (dst_frame trans_info) 0\<rparr>"

text \<open>
  Lines 930-947 (and 1314-1331, 1412-1429, 1490-1507, the same text in the other
  presenters of this build): source window, screen window and layer attributes.
\<close>

definition layer_info_legacy ::
  "'p sunxifbsink \<Rightarrow> 'r disp_layer_config \<Rightarrow> 'r disp_layer_config" where
  "layer_info_legacy fs c =
     c\<lparr>fb_src_win_x := 0,
       fb_src_win_y := 0,
       fb_src_win_width := videosink_width fs,
       fb_src_win_height := videosink_height fs,
       screen_win_x := rect_x (video_rectangle fs),
       screen_win_y := rect_y (video_rectangle fs),
       screen_win_width := rect_w (video_rectangle fs),
       screen_win_height := rect_h (video_rectangle fs),
       alpha_mode := 0,
       fb_pre_multiply := 0,
       alpha_value := 255,
       zorder := 3,
       layer_mode := Some DISP_LAYER_WORK_MODE_SCALER,
       pipe := 0\<rparr>"

text \<open>
  The whole function; \<open>readback\<close> is \<^verbatim>\<open>luapiconfig.layerConfig\<close> after
  \<^verbatim>\<open>DispGetLayerConfig\<close>.
\<close>

definition gst_sunxifbsink_show_memory_yuv_planar_legacy ::
  "sunxi_tr_h \<Rightarrow> 'l::len word sunxifbsink \<Rightarrow> 'l word hw_answers \<Rightarrow> 'r disp_layer_config \<Rightarrow>
   GstVideoFormat \<Rightarrow> 'l word GstMemory \<Rightarrow>
   (GstFlowReturn \<times> 'l word sunxifbsink \<times> ('l word, 'r disp_layer_config) hw_call list) option"
  where
  "gst_sunxifbsink_show_memory_yuv_planar_legacy K fs ans readback format mem =
     (if stride_divisor fs = 0 then None
      else
        (let rotate_enable = (rotate_angle_property fs > 0);
             rt_mode = rotate_angle_property fs;
             phymem_start = phys_addr ans (map_data mem);
             c = memory_planes_legacy fs format phymem_start readback
         in if rotate_enable
            then
              (case rotate_buffers_alloc fs ans (ALIGN_32B (fb_size_width c))
                      (ALIGN_32B (fb_size_height c)) of
                 Inl (fs1, calls) \<Rightarrow> Some (GST_FLOW_ERROR, fs1, calls)
               | Inr (fs1, calls) \<Rightarrow>
                   (let trans_info = memory_trans_info_legacy K fs1 ans rt_mode phymem_start c;
                        fs2 = fs1\<lparr>m_memory := m_memory fs1 + 1\<rparr>
                    in case (if fd_transform fs2 > 0
                             then map_option snd
                                    (hwRotateVideoPicture fs2 trans_info (tr_answers ans))
                             else Some []) of
                         None \<Rightarrow> None
                       | Some tr_calls \<Rightarrow>
                           set_layer_config_and_show fs2 ans
                             (layer_info_legacy fs2 (memory_rotated_legacy fs2 ans trans_info c))
                             (calls @ tr_calls)))
            else set_layer_config_and_show fs ans (layer_info_legacy fs c) []))"

subsection \<open>show_overlay_yuv_planar with \<^verbatim>\<open>__SUNXI_DISPLAY2__\<close> (lines 964-1256, 1334-1341)\<close>

text \<open>Lines 986-1061: the planes at \<^verbatim>\<open>framebuffer_offset\<close>.\<close>

definition overlay_planes_disp2 ::
  "'l::len word sunxifbsink \<Rightarrow> 'l word \<Rightarrow> GstVideoFormat \<Rightarrow> disp2_layer_config" where
  "overlay_planes_disp2 fs framebuffer_offset format =
     (let c = disp2_layer_config_zero;
          plane = (\<lambda>i. ucast (framebuffer_offset + word_of_int (overlay_plane_offset fs i))
                        :: 64 word)
      in if format = GST_VIDEO_FORMAT_Y444
         then c\<lparr>info_fb_addr := (info_fb_addr c)
                     (0 := ucast framebuffer_offset, 1 := plane 1, 2 := plane 2),
                 info_fb_size_width := (info_fb_size_width c)
                     (0 := word_of_int (stride_pixels fs), 1 := word_of_int (stride_pixels fs),
                      2 := word_of_int (stride_pixels fs)),
                 info_fb_size_height := (info_fb_size_height c)
                     (0 := word_of_int (videosink_height fs),
                      1 := word_of_int (videosink_height fs),
                      2 := word_of_int (videosink_height fs)),
                 info_fb_format := Some DISP_FORMAT_YUV444_P\<rparr>
         else if format = GST_VIDEO_FORMAT_NV12 \<or> format = GST_VIDEO_FORMAT_NV21
         then c\<lparr>info_fb_format :=
                     (if format = GST_VIDEO_FORMAT_NV12 then Some DISP_FORMAT_YUV420_SP_UVUV
                      else Some DISP_FORMAT_YUV420_SP_VUVU),
                 info_fb_addr := (info_fb_addr c)
                     (0 := ucast framebuffer_offset, 1 := plane 1),
                 info_fb_size_width := (info_fb_size_width c)
                     (0 := word_of_int (stride_pixels fs),
                      1 := word_of_int (stride_pixels fs sdiv 2)),
                 info_fb_size_height := (info_fb_size_height c)
                     (1 := word_of_int (videosink_height fs sdiv 2),
                      2 := word_of_int (videosink_height fs sdiv 2))\<rparr>
         else if format = GST_VIDEO_FORMAT_I420
         then c\<lparr>info_fb_format := Some DISP_FORMAT_YUV420_P,
                 info_fb_addr := (info_fb_addr c)
                     (0 := ucast framebuffer_offset, 1 := plane 1, 2 := plane 2),
                 info_fb_size_width := (info_fb_size_width c)
                     (0 := word_of_int (stride_pixels fs),
                      1 := word_of_int (videosink_width fs sdiv 2),
                      2 := word_of_int (videosink_width fs sdiv 2)),
                 info_fb_size_height := (info_fb_size_height c)
                     (0 := word_of_int (videosink_height fs),
                      1 := word_of_int (videosink_height fs sdiv 2),
                      2 := word_of_int (videosink_height fs sdiv 2))\<rparr>
         else c\<lparr>info_fb_format := Some DISP_FORMAT_YUV420_P,
                 info_fb_addr := (info_fb_addr c)
                     (0 := ucast framebuffer_offset, 1 := plane 2, 2 := plane 1),
                 info_fb_size_width := (info_fb_size_width c)
                     (0 := word_of_int (stride_pixels fs),
                      1 := word_of_int (videosink_width fs sdiv 2),
                      2 := word_of_int (videosink_width fs sdiv 2)),
                 info_fb_size_height := (info_fb_size_height c)
                     (0 := word_of_int (videosink_height fs),
                      1 := word_of_int (videosink_height fs sdiv 2),
                      2 := word_of_int (videosink_height fs sdiv 2))\<rparr>)"

text \<open>\<^verbatim>\<open>memset(&blit, 0, sizeof(g2d_blt_h))\<close>.\<close>

definition g2d_image_zero :: "'l::len word g2d_image_enh" where
  "g2d_image_zero =
     \<lparr>bbuff = 0, use_phy_addr = 0, color = 0, g2d_format = None, g2d_laddr = (\<lambda>i. 0),
      g2d_width = 0, g2d_height = 0, g2d_align = (\<lambda>i. 0),
      clip_rect = \<lparr>g2d_x = 0, g2d_y = 0, g2d_w = 0, g2d_h = 0\<rparr>, gamut = None,
      bpremul = 0, g2d_alpha = 0, g2d_mode = None\<rparr>"

text \<open>Lines 1119-1143: the \<^verbatim>\<open>switch\<close> on \<^verbatim>\<open>nRotateDegree\<close>.\<close>

definition g2d_flag_of_degree :: "int \<Rightarrow> g2d_blt_flags_h" where
  "g2d_flag_of_degree nRotateDegree =
     (if nRotateDegree = 0 then G2D_ROT_0
      else if nRotateDegree = 1 then G2D_ROT_90
      else if nRotateDegree = 2 then G2D_ROT_180
      else if nRotateDegree = 3 then G2D_ROT_270
      else if nRotateDegree = 4 then G2D_ROT_H
      else if nRotateDegree = 6 then G2D_ROT_V
      else G2D_BLT_NONE_H)"

text \<open>
  Lines 1090-1189: the blit descriptor, for YV12 and NV21 (the other formats return
  before it is filled); \<open>c\<close> is the configuration of the planes, \<open>fs\<close> the sink before
  \<^verbatim>\<open>++m\<close>.
\<close>

definition overlay_blit ::
  "'l::len word sunxifbsink \<Rightarrow> 'l word hw_answers \<Rightarrow> GstVideoFormat \<Rightarrow> disp2_layer_config \<Rightarrow>
   'l word g2d_blt_h" where
  "overlay_blit fs ans format c =
     (let width_align = ALIGN_32B (info_fb_size_width c 0);
          height_align = ALIGN_32B (info_fb_size_height c 0);
          laddr0 = phys_addr ans (rotate_addr_phy fs ((m_overlay fs + 1) smod 2));
          flag = g2d_flag_of_degree (rotate_angle_property fs);
          turned = (flag = G2D_ROT_90 \<or> flag = G2D_ROT_270);
          src = g2d_image_zero
            \<lparr>g2d_format := (if format = GST_VIDEO_FORMAT_YV12
                             then Some G2D_FORMAT_YUV420_PLANAR
                             else Some G2D_FORMAT_YUV420UVC_U1V1U0V0),
             g2d_laddr := (\<lambda>i. 0)
               (0 := ucast (info_fb_addr c 0), 1 := ucast (info_fb_addr c 1),
                2 := (if format = GST_VIDEO_FORMAT_YV12 then ucast (info_fb_addr c 2) else 0)),
             bbuff := 1, use_phy_addr := 1, color := 255,
             g2d_width := ALIGN_32B (info_fb_size_width c 0),
             g2d_height := ALIGN_32B (info_fb_size_height c 0),
             g2d_align := (\<lambda>i. 0),
             clip_rect := \<lparr>g2d_x = 0, g2d_y = 0, g2d_w = info_fb_size_width c 0,
                            g2d_h = info_fb_size_height c 0\<rparr>,
             gamut := Some G2D_BT709, bpremul := 0, g2d_alpha := 255,
             g2d_mode := Some G2D_GLOBAL_ALPHA\<rparr>;
          dst = g2d_image_zero
            \<lparr>g2d_format := (if format = GST_VIDEO_FORMAT_YV12
                             then Some G2D_FORMAT_YUV420_PLANAR
                             else Some G2D_FORMAT_YUV420UVC_U1V1U0V0),
             g2d_laddr := (\<lambda>i. 0)
               (0 := laddr0, 1 := laddr0 + ucast (width_align * height_align),
                2 := (if format = GST_VIDEO_FORMAT_YV12
                      then laddr0 + ucast (width_align * height_align * 5 div 4) else 0)),
             bbuff := 1, use_phy_addr := 1, color := 255,
             g2d_align := (\<lambda>i. 0),
             gamut := Some G2D_BT709, bpremul := 0, g2d_alpha := 255,
             g2d_mode := Some G2D_GLOBAL_ALPHA,
             g2d_width := (if turned then height_align else width_align),
             g2d_height := (if turned then width_align else height_align),
             clip_rect :=
               (if turned
                then \<lparr>g2d_x = 0, g2d_y = 0, g2d_w = info_fb_size_height c 0,
                      g2d_h = info_fb_size_width c 0\<rparr>
                else \<lparr>g2d_x = 0, g2d_y = 0, g2d_w = info_fb_size_width c 0,
                      g2d_h = info_fb_size_height c 0\<rparr>)\<rparr>
      in \<lparr>flag_h = Some flag, src_image_h = src, dst_image_h = dst\<rparr>)"

text \<open>Lines 1196-1205: the configuration takes the addresses and sizes of the blit.\<close>

definition overlay_rotated_disp2 ::
  "'l::len word g2d_blt_h \<Rightarrow> disp2_layer_config \<Rightarrow> disp2_layer_config" where
  "overlay_rotated_disp2 blit c =
     c\<lparr>info_fb_addr := (info_fb_addr c)
           (0 := ucast (g2d_laddr (dst_image_h blit) 0),
            1 := ucast (g2d_laddr (dst_image_h blit) 1),
            2 := ucast (g2d_laddr (dst_image_h blit) 2)),
       info_fb_size_width := (info_fb_size_width c)
           (0 := g2d_width (dst_image_h blit), 1 := g2d_width (dst_image_h blit) div 2,
            2 := g2d_width (dst_image_h blit) div 2),
       info_fb_size_height := (info_fb_size_height c)
           (0 := g2d_height (dst_image_h blit), 1 := g2d_height (dst_image_h blit) div 2,
            2 := g2d_height (dst_image_h blit) div 2)\<rparr>"

text \<open>
  Lines 1209-1256: the layer information. \<open>turned\<close> is the condition of line 1218
  (false when \<^verbatim>\<open>__SUNXI_G2D_ROTATE__\<close> is not defined), under which the video rectangle
  is centred once (\<^verbatim>\<open>reset_video_rectangle_flag\<close>); \<open>fs\<close> is the sink after that.
\<close>

definition overlay_recentre ::
  "'l::len word sunxifbsink \<Rightarrow> 'l word hw_answers \<Rightarrow> bool \<Rightarrow> 'l word g2d_blt_h \<Rightarrow>
   'l word sunxifbsink" where
  "overlay_recentre fs ans turned blit =
     (if turned \<and> reset_video_rectangle_flag fs
      then fs\<lparr>video_rectangle :=
                 center_rect ans
                   \<lparr>rect_x = 0, rect_y = 0, rect_w = sint (g2d_width (dst_image_h blit)),
                    rect_h = sint (g2d_height (dst_image_h blit))\<rparr>
                   \<lparr>rect_x = 0, rect_y = 0, rect_w = screen_info_width fs,
                    rect_h = screen_info_height fs\<rparr>,
              reset_video_rectangle_flag := False\<rparr>
      else fs)"

definition overlay_layer_info_disp2 ::
  "'p sunxifbsink \<Rightarrow> bool \<Rightarrow> disp2_layer_config \<Rightarrow> disp2_layer_config" where
  "overlay_layer_info_disp2 fs turned c =
     c\<lparr>info_mode := Some LAYER_MODE_BUFFER,
       info_zorder := 11,
       info_alpha_mode := 1,
       info_alpha_value := 255,
       info_fb_crop_x := 0,
       info_fb_crop_y := 0,
       info_fb_crop_width :=
         (if turned then push_bit 32 (word_of_int (videosink_height fs))
          else push_bit 32 (word_of_int (videosink_width fs))),
       info_fb_crop_height :=
         (if turned then push_bit 32 (word_of_int (videosink_width fs))
          else push_bit 32 (word_of_int (videosink_height fs))),
       info_fb_color_space :=
         (if rect_h (video_rectangle fs) < 720 then Some DISP_BT601 else Some DISP_BT709),
       info_screen_win_x := rect_x (video_rectangle fs),
       info_screen_win_y := rect_y (video_rectangle fs),
       info_screen_win_width := rect_w (video_rectangle fs),
       info_screen_win_height := rect_h (video_rectangle fs),
       cfg_enable := TRUE,
       cfg_layer_id := layer_id fs,
       cfg_channel := framebuffer_id fs,
       info_fb_flags := Some DISP_BF_NORMAL,
       info_fb_scan := Some DISP_SCAN_PROGRESSIVE\<rparr>"

text \<open>
  The whole function; \<open>g2d_rotate\<close> says whether \<^verbatim>\<open>__SUNXI_G2D_ROTATE__\<close> is defined.
\<close>

definition gst_sunxifbsink_show_overlay_yuv_planar_disp2 ::
  "bool \<Rightarrow> 'l::len word sunxifbsink \<Rightarrow> 'l word hw_answers \<Rightarrow> 'l word \<Rightarrow> GstVideoFormat \<Rightarrow>
   (GstFlowReturn \<times> 'l word sunxifbsink \<times> ('l word, disp2_layer_config) hw_call list) option"
  where
  "gst_sunxifbsink_show_overlay_yuv_planar_disp2 g2d_rotate fs ans framebuffer_offset format =
     (if stride_divisor fs = 0 then None
      else
        (let rotate_enable = (rotate_angle_property fs > 0);
             c = overlay_planes_disp2 fs framebuffer_offset format
         in if g2d_rotate \<and> rotate_enable
            then
              (case rotate_buffers_alloc fs ans (ALIGN_32B (info_fb_size_width c 0))
                      (ALIGN_32B (info_fb_size_height c 0)) of
                 Inl (fs1, calls) \<Rightarrow> Some (GST_FLOW_ERROR, fs1, calls)
               | Inr (fs1, calls) \<Rightarrow>
                   if format \<noteq> GST_VIDEO_FORMAT_YV12 \<and> format \<noteq> GST_VIDEO_FORMAT_NV21
                   then Some (GST_FLOW_ERROR, fs1, calls)
                   else
                     (let blit = overlay_blit fs1 ans format c;
                          fs2 = fs1\<lparr>m_overlay := m_overlay fs1 + 1\<rparr>;
                          calls2 = calls @ [IoctlG2dBitblt (fd_g2d fs2) blit]
                      in if g2d_bitblt_result ans < 0 then Some (GST_FLOW_ERROR, fs2, calls2)
                         else
                           (let turned = (flag_h blit = Some G2D_ROT_90 \<or>
                                          flag_h blit = Some G2D_ROT_270);
                                fs3 = overlay_recentre fs2 ans turned blit
                            in set_layer_config_and_show fs3 ans
                                 (overlay_layer_info_disp2 fs3 turned
                                    (overlay_rotated_disp2 blit c))
                                 calls2)))
            else set_layer_config_and_show fs ans (overlay_layer_info_disp2 fs False c) []))"

subsection \<open>show_overlay_yuv_planar without \<^verbatim>\<open>__SUNXI_DISPLAY2__\<close> (lines 964-983, 1258-1341)\<close>

definition overlay_planes_legacy ::
  "'l::len word sunxifbsink \<Rightarrow> 'l word \<Rightarrow> GstVideoFormat \<Rightarrow> 'r disp_layer_config \<Rightarrow>
   'r disp_layer_config" where
  "overlay_planes_legacy fs framebuffer_offset format c =
     (let plane = (\<lambda>i. ucast (framebuffer_offset + word_of_int (overlay_plane_offset fs i))
                        :: 32 word)
      in if format = GST_VIDEO_FORMAT_Y444
         then c\<lparr>fb_addr := (fb_addr c)(0 := ucast framebuffer_offset, 1 := plane 1, 2 := plane 2),
                 fb_size_width := word_of_int (stride_pixels fs),
                 fb_size_height := word_of_int (videosink_height fs),
                 fb_format := Some DISP_FORMAT_YUV444_P\<rparr>
         else if format = GST_VIDEO_FORMAT_NV12 \<or> format = GST_VIDEO_FORMAT_NV21
         then c\<lparr>fb_addr := (fb_addr c)(0 := ucast framebuffer_offset, 1 := plane 1),
                 fb_size_width := word_of_int (stride_pixels fs),
                 fb_size_height := word_of_int (videosink_height fs sdiv 2),
                 fb_format :=
                   (if format = GST_VIDEO_FORMAT_NV12 then Some DISP_FORMAT_YUV420_SP_UVUV
                    else Some DISP_FORMAT_YUV420_SP_VUVU)\<rparr>
         else if format = GST_VIDEO_FORMAT_I420
         then c\<lparr>fb_addr := (fb_addr c)(0 := ucast framebuffer_offset, 1 := plane 1, 2 := plane 2),
                 fb_size_width := word_of_int (stride_pixels fs),
                 fb_size_height := word_of_int (videosink_height fs),
                 fb_format := Some DISP_FORMAT_YUV420_P\<rparr>
         else c\<lparr>fb_addr := (fb_addr c)(0 := ucast framebuffer_offset, 1 := plane 2, 2 := plane 1),
                 fb_size_width := word_of_int (stride_pixels fs),
                 fb_size_height := word_of_int (videosink_height fs),
                 fb_format := Some DISP_FORMAT_YUV420_P\<rparr>)"

definition gst_sunxifbsink_show_overlay_yuv_planar_legacy ::
  "'l::len word sunxifbsink \<Rightarrow> 'l word hw_answers \<Rightarrow> 'r disp_layer_config \<Rightarrow> 'l word \<Rightarrow>
   GstVideoFormat \<Rightarrow>
   (GstFlowReturn \<times> 'l word sunxifbsink \<times> ('l word, 'r disp_layer_config) hw_call list) option"
  where
  "gst_sunxifbsink_show_overlay_yuv_planar_legacy fs ans readback framebuffer_offset format =
     (if stride_divisor fs = 0 then None
      else set_layer_config_and_show fs ans
             (layer_info_legacy fs (overlay_planes_legacy fs framebuffer_offset format readback))
             [])"

subsection \<open>show_overlay_yuv_packed (lines 1343-1439)\<close>

definition gst_sunxifbsink_show_overlay_yuv_packed_disp2 ::
  "'l::len word sunxifbsink \<Rightarrow> 'l word hw_answers \<Rightarrow> 'l word \<Rightarrow> GstVideoFormat \<Rightarrow>
   (GstFlowReturn \<times> 'l word sunxifbsink \<times> ('l word, disp2_layer_config) hw_call list) option"
  where
  "gst_sunxifbsink_show_overlay_yuv_packed_disp2 fs ans framebuffer_offset format =
     (if stride_divisor fs = 0 then None
      else
        (let c = disp2_layer_config_zero
         in set_layer_config_and_show fs ans
              (c\<lparr>info_fb_addr := (info_fb_addr c)(0 := ucast framebuffer_offset),
                 info_fb_size_height := (info_fb_size_height c)
                    (0 := word_of_int (videosink_height fs)),
                 info_fb_size_width := (info_fb_size_width c)
                    (0 := word_of_int (stride_pixels fs)),
                 info_fb_format :=
                   (if format = GST_VIDEO_FORMAT_AYUV then Some DISP_FORMAT_YUV444_P
                    else Some DISP_FORMAT_YUV422_P),
                 info_mode := Some LAYER_MODE_BUFFER,
                 info_zorder := 11,
                 info_alpha_mode := 1,
                 info_alpha_value := 255,
                 info_fb_crop_x := 0,
                 info_fb_crop_y := 0,
                 info_fb_crop_width := push_bit 32 (word_of_int (videosink_width fs)),
                 info_fb_crop_height := push_bit 32 (word_of_int (videosink_height fs)),
                 info_fb_color_space :=
                   (if rect_h (video_rectangle fs) < 720 then Some DISP_BT601
                    else Some DISP_BT709),
                 info_screen_win_x := rect_x (video_rectangle fs),
                 info_screen_win_y := rect_y (video_rectangle fs),
                 info_screen_win_width := rect_w (video_rectangle fs),
                 info_screen_win_height := rect_h (video_rectangle fs),
                 cfg_enable := TRUE,
                 cfg_layer_id := layer_id fs,
                 cfg_channel := framebuffer_id fs,
                 info_fb_flags := Some DISP_BF_NORMAL,
                 info_fb_scan := Some DISP_SCAN_PROGRESSIVE\<rparr>)
              []))"

definition gst_sunxifbsink_show_overlay_yuv_packed_legacy ::
  "'l::len word sunxifbsink \<Rightarrow> 'l word hw_answers \<Rightarrow> 'r disp_layer_config \<Rightarrow> 'l word \<Rightarrow>
   GstVideoFormat \<Rightarrow>
   (GstFlowReturn \<times> 'l word sunxifbsink \<times> ('l word, 'r disp_layer_config) hw_call list) option"
  where
  "gst_sunxifbsink_show_overlay_yuv_packed_legacy fs ans readback framebuffer_offset format =
     (if stride_divisor fs = 0 then None
      else set_layer_config_and_show fs ans
             (layer_info_legacy fs
                (readback\<lparr>fb_addr := (fb_addr readback)(0 := ucast framebuffer_offset),
                          fb_size_width := word_of_int (stride_pixels fs),
                          fb_size_height := word_of_int (videosink_height fs),
                          fb_format :=
                            (if format = GST_VIDEO_FORMAT_AYUV then Some DISP_FORMAT_YUV444_P
                             else Some DISP_FORMAT_YUV422_P)\<rparr>))
             [])"

subsection \<open>show_overlay_bgrx32 (lines 1441-1517)\<close>

text \<open>
  With \<^verbatim>\<open>__SUNXI_DISPLAY2__\<close> the size is stored at index \<^verbatim>\<open>framebuffer_id\<close> of
  \<^verbatim>\<open>info.fb.size\<close> (lines 1460-1461). \<^verbatim>\<open>overlay_scanline_stride[0] >> 2\<close> is
  \<open>drop_bit 2\<close>.
\<close>

definition gst_sunxifbsink_show_overlay_bgrx32_disp2 ::
  "'l::len word sunxifbsink \<Rightarrow> 'l word hw_answers \<Rightarrow> 'l word \<Rightarrow>
   (GstFlowReturn \<times> 'l word sunxifbsink \<times> ('l word, disp2_layer_config) hw_call list) option"
  where
  "gst_sunxifbsink_show_overlay_bgrx32_disp2 fs ans framebuffer_offset =
     (let c = disp2_layer_config_zero
      in set_layer_config_and_show fs ans
           (c\<lparr>info_mode := Some LAYER_MODE_BUFFER,
              info_zorder := 11,
              info_alpha_mode := 1,
              info_alpha_value := 255,
              info_fb_addr := (info_fb_addr c)(0 := ucast framebuffer_offset),
              info_fb_size_width := (info_fb_size_width c)
                 (framebuffer_id fs := word_of_int (drop_bit 2 (overlay_scanline_stride fs 0))),
              info_fb_size_height := (info_fb_size_height c)
                 (framebuffer_id fs := word_of_int (videosink_height fs)),
              info_fb_format := Some DISP_FORMAT_ARGB_8888,
              info_fb_crop_x := 0,
              info_fb_crop_y := 0,
              info_fb_crop_width := push_bit 32 (word_of_int (videosink_width fs)),
              info_fb_crop_height := push_bit 32 (word_of_int (videosink_height fs)),
              info_fb_color_space :=
                (if rect_h (video_rectangle fs) < 720 then Some DISP_BT601
                 else Some DISP_BT709),
              info_screen_win_x := rect_x (video_rectangle fs),
              info_screen_win_y := rect_y (video_rectangle fs),
              info_screen_win_width := rect_w (video_rectangle fs),
              info_screen_win_height := rect_h (video_rectangle fs),
              cfg_enable := TRUE,
              cfg_layer_id := layer_id fs,
              cfg_channel := framebuffer_id fs,
              info_fb_flags := Some DISP_BF_NORMAL,
              info_fb_scan := Some DISP_SCAN_PROGRESSIVE\<rparr>)
           [])"

definition gst_sunxifbsink_show_overlay_bgrx32_legacy ::
  "'l::len word sunxifbsink \<Rightarrow> 'l word hw_answers \<Rightarrow> 'r disp_layer_config \<Rightarrow> 'l word \<Rightarrow>
   (GstFlowReturn \<times> 'l word sunxifbsink \<times> ('l word, 'r disp_layer_config) hw_call list) option"
  where
  "gst_sunxifbsink_show_overlay_bgrx32_legacy fs ans readback framebuffer_offset =
     set_layer_config_and_show fs ans
       (layer_info_legacy fs
          (readback\<lparr>fb_addr := (fb_addr readback)(0 := ucast framebuffer_offset),
                    fb_size_width := word_of_int (drop_bit 2 (overlay_scanline_stride fs 0)),
                    fb_size_height := word_of_int (videosink_height fs),
                    fb_format := Some DISP_FORMAT_ARGB_8888\<rparr>))
       []"

subsection \<open>show_overlay (lines 1519-1578)\<close>

text \<open>
  The dispatcher is the same text in both builds; its four presenters are parameters
  here and the two builds are its two instances. \<^verbatim>\<open>res\<close> starts as
  \<^verbatim>\<open>GST_FLOW_ERROR\<close>; the call of line 1544 does not assign it. The cache flush of line
  1555 has no effect in the model.
\<close>

definition show_overlay_dispatch ::
  "('p sunxifbsink \<Rightarrow> GstVideoFormat \<Rightarrow> 'p GstMemory \<Rightarrow> (GstFlowReturn \<times> 'p sunxifbsink \<times> 'e) option) \<Rightarrow>
   ('p sunxifbsink \<Rightarrow> 'p \<Rightarrow> GstVideoFormat \<Rightarrow> (GstFlowReturn \<times> 'p sunxifbsink \<times> 'e) option) \<Rightarrow>
   ('p sunxifbsink \<Rightarrow> 'p \<Rightarrow> GstVideoFormat \<Rightarrow> (GstFlowReturn \<times> 'p sunxifbsink \<times> 'e) option) \<Rightarrow>
   ('p sunxifbsink \<Rightarrow> 'p \<Rightarrow> (GstFlowReturn \<times> 'p sunxifbsink \<times> 'e) option) \<Rightarrow>
   ('p \<Rightarrow> 'p \<Rightarrow> 'p) \<Rightarrow> 'e \<Rightarrow> 'p sunxifbsink \<Rightarrow> 'p GstMemory \<Rightarrow>
   (GstFlowReturn \<times> 'p sunxifbsink \<times> 'e) option" where
  "show_overlay_dispatch show_memory_yuv_planar show_overlay_yuv_planar show_overlay_yuv_packed
       show_overlay_bgrx32 add no_calls fs0 memory =
     (let fs = fs0\<lparr>sBuffer := map_contents memory\<rparr>;
          framebuffer_offset = pAddrPhyY (sBuffer fs);
          res = GST_FLOW_ERROR
      in if physically_contiguous memory
         then (case show_memory_yuv_planar fs (overlay_format fs) memory of
                 None \<Rightarrow> None
               | Some (r, fs', calls) \<Rightarrow> Some (res, fs', calls))
         else
           (let framebuffer_offset =
                  (if max_video_memory_property fs \<le> 0
                   then add framebuffer_offset (smem_start fs) else framebuffer_offset)
            in if overlay_format fs = GST_VIDEO_FORMAT_I420 \<or>
                  overlay_format fs = GST_VIDEO_FORMAT_YV12 \<or>
                  overlay_format fs = GST_VIDEO_FORMAT_Y444 \<or>
                  overlay_format fs = GST_VIDEO_FORMAT_NV12 \<or>
                  overlay_format fs = GST_VIDEO_FORMAT_NV21
               then show_overlay_yuv_planar fs framebuffer_offset (overlay_format fs)
               else if overlay_format fs = GST_VIDEO_FORMAT_YUY2 \<or>
                       overlay_format fs = GST_VIDEO_FORMAT_UYVY \<or>
                       overlay_format fs = GST_VIDEO_FORMAT_AYUV
               then show_overlay_yuv_packed fs framebuffer_offset (overlay_format fs)
               else if overlay_format fs = GST_VIDEO_FORMAT_BGRx
               then show_overlay_bgrx32 fs framebuffer_offset
               else Some (res, fs, no_calls)))"

definition gst_sunxifbsink_show_overlay_disp2 ::
  "sunxi_tr_h \<Rightarrow> bool \<Rightarrow> 'l::len word sunxifbsink \<Rightarrow> 'l word hw_answers \<Rightarrow> 'l word GstMemory \<Rightarrow>
   (GstFlowReturn \<times> 'l word sunxifbsink \<times> ('l word, disp2_layer_config) hw_call list) option"
  where
  "gst_sunxifbsink_show_overlay_disp2 K g2d_rotate fs ans memory =
     show_overlay_dispatch
       (\<lambda>fs format mem. gst_sunxifbsink_show_memory_yuv_planar_disp2 K fs ans format mem)
       (\<lambda>fs off format. gst_sunxifbsink_show_overlay_yuv_planar_disp2 g2d_rotate fs ans off format)
       (\<lambda>fs off format. gst_sunxifbsink_show_overlay_yuv_packed_disp2 fs ans off format)
       (\<lambda>fs off. gst_sunxifbsink_show_overlay_bgrx32_disp2 fs ans off)
       (+) [] fs memory"

definition gst_sunxifbsink_show_overlay_legacy ::
  "sunxi_tr_h \<Rightarrow> 'l::len word sunxifbsink \<Rightarrow> 'l word hw_answers \<Rightarrow> 'r disp_layer_config \<Rightarrow>
   'l word GstMemory \<Rightarrow>
   (GstFlowReturn \<times> 'l word sunxifbsink \<times> ('l word, 'r disp_layer_config) hw_call list) option"
  where
  "gst_sunxifbsink_show_overlay_legacy K fs ans readback memory =
     show_overlay_dispatch
       (\<lambda>fs format mem. gst_sunxifbsink_show_memory_yuv_planar_legacy K fs ans readback format mem)
       (\<lambda>fs off format. gst_sunxifbsink_show_overlay_yuv_planar_legacy fs ans readback off format)
       (\<lambda>fs off format. gst_sunxifbsink_show_overlay_yuv_packed_legacy fs ans readback off format)
       (\<lambda>fs off. gst_sunxifbsink_show_overlay_bgrx32_legacy fs ans readback off)
       (+) [] fs memory"

subsection \<open>The shape of the rotation branch\<close>

text \<open>
  Both builds of \<^verbatim>\<open>show_memory_yuv_planar\<close> run the same steps once rotation is
  enabled: allocate, build the job, \<^verbatim>\<open>++m\<close>, rotate, configure, commit. \<open>rotate_branch\<close>
  is that shape with the build's own blocks as parameters (\<open>job\<close> builds the
  \<^verbatim>\<open>tr_info\<close>, \<open>config\<close> the layer configuration); the properties below are proved for it
  once, the two presenters being instances of it.
\<close>

definition rotate_branch ::
  "('l::len word sunxifbsink \<Rightarrow> 'l word tr_info) \<Rightarrow>
   ('l word sunxifbsink \<Rightarrow> 'l word tr_info \<Rightarrow> 'c) \<Rightarrow>
   'l word sunxifbsink \<Rightarrow> 'l word hw_answers \<Rightarrow> 32 word \<Rightarrow> 32 word \<Rightarrow>
   (GstFlowReturn \<times> 'l word sunxifbsink \<times> ('l word, 'c) hw_call list) option" where
  "rotate_branch job config fs ans width_align height_align =
     (case rotate_buffers_alloc fs ans width_align height_align of
        Inl (fs1, calls) \<Rightarrow> Some (GST_FLOW_ERROR, fs1, calls)
      | Inr (fs1, calls) \<Rightarrow>
          (let trans_info = job fs1;
               fs2 = fs1\<lparr>m_memory := m_memory fs1 + 1\<rparr>
           in case (if fd_transform fs2 > 0
                    then map_option snd (hwRotateVideoPicture fs2 trans_info (tr_answers ans))
                    else Some []) of
                None \<Rightarrow> None
              | Some tr_calls \<Rightarrow>
                  set_layer_config_and_show fs2 ans (config fs2 trans_info)
                    (calls @ tr_calls)))"

subsection \<open>Initial values\<close>

text \<open>
  A fresh instance: GObject hands \<^verbatim>\<open>gst_sunxifbsink_init\<close> zero-filled memory and the
  function writes no field; the statics start as the file initialises them
  (\<^verbatim>\<open>static int m = 0\<close>, \<^verbatim>\<open>static bool reset_video_rectangle_flag = 1\<close>).
\<close>

definition gst_sunxifbsink_init :: "'l::len word sunxifbsink" where
  "gst_sunxifbsink_init =
     \<lparr>fd_disp = 0, fd_transform = 0, fd_g2d = 0, transform_channel = 0,
      framebuffer_id = 0, layer_id = 0, layer_is_visible = 0, layer_has_scaler = 0,
      overlay_format = GST_VIDEO_FORMAT_UNKNOWN,
      sBuffer = \<lparr>pAddrPhyY = 0, pAddrVirY = 0\<rparr>, smem_start = 0,
      rotate_addr_phy = (\<lambda>i. 0),
      rotate_angle_property = 0, max_video_memory_property = 0,
      overlay_plane_offset = (\<lambda>i. 0), overlay_scanline_stride = (\<lambda>i. 0),
      scale_width_0 = 0, comp_pstride_0 = 0, videosink_width = 0, videosink_height = 0,
      video_rectangle = \<lparr>rect_x = 0, rect_y = 0, rect_w = 0, rect_h = 0\<rparr>,
      screen_info_width = 0, screen_info_height = 0,
      m_memory = 0, m_overlay = 0, reset_video_rectangle_flag = True\<rparr>"

subsection \<open>A sample frame\<close>

text \<open>
  The inputs at which the properties below are instantiated: a 128 x 96 I420 frame in
  physically contiguous memory, shown by a fresh
  sink whose transform device is open and whose rotation property is 2, with a device
  that is busy once and then done. The enumerators of \<^verbatim>\<open>tr_mode\<close> are numbered as the
  \<^verbatim>\<open>switch\<close> of lines 1119-1138 numbers the same property.
\<close>

definition sample_tr_h :: sunxi_tr_h where
  "sample_tr_h = \<lparr>TR_ROT_90 = 1, TR_ROT_180 = 2, TR_ROT_270 = 3\<rparr>"

definition sample_sink :: "32 word sunxifbsink" where
  "sample_sink =
     gst_sunxifbsink_init
       \<lparr>fd_disp := 4, fd_transform := 5, overlay_format := GST_VIDEO_FORMAT_I420,
        rotate_angle_property := 2,
        overlay_plane_offset := (\<lambda>i. 0)(1 := 12288, 2 := 15360),
        overlay_scanline_stride := (\<lambda>i. 0)(0 := 128, 1 := 64, 2 := 64),
        scale_width_0 := 8, comp_pstride_0 := 1,
        videosink_width := 128, videosink_height := 96,
        video_rectangle := \<lparr>rect_x = 0, rect_y = 0, rect_w = 128, rect_h = 96\<rparr>,
        screen_info_width := 1280, screen_info_height := 720\<rparr>"

definition sample_answers :: "32 word hw_answers" where
  "sample_answers =
     \<lparr>phys_addr = (\<lambda>p. p), ptr_to_ull = ucast, actual_width = 128, actual_height = 96,
      palloc_first = 16777216, palloc_second = 33554432, tr_answers = [0, 1, 1, 0],
      g2d_bitblt_result = 0, set_layer_config_result = 0, set_layer_enable_result = 0,
      center_rect = (\<lambda>src dst. src)\<rparr>"

text \<open>
  What \<^verbatim>\<open>DispGetLayerConfig\<close> reads back in the sample of the build without
  \<^verbatim>\<open>__SUNXI_DISPLAY2__\<close>: zero in the members the file writes, and in the members it
  never writes a colour space, BT.709.
\<close>

definition sample_readback :: "disp_color_space disp_layer_config" where
  "sample_readback =
     \<lparr>fb_addr = (\<lambda>i. 0), fb_size_width = 0, fb_size_height = 0, fb_format = None,
      fb_src_win_x = 0, fb_src_win_y = 0, fb_src_win_width = 0, fb_src_win_height = 0,
      fb_pre_multiply = 0, screen_win_x = 0, screen_win_y = 0, screen_win_width = 0,
      screen_win_height = 0, alpha_mode = 0, alpha_value = 0, zorder = 0, layer_mode = None,
      pipe = 0, other_members = DISP_BT709\<rparr>"

definition sample_memory :: "32 word GstMemory" where
  "sample_memory =
     \<lparr>physically_contiguous = True, map_data = 8388608,
      map_contents = \<lparr>pAddrPhyY = 8388608, pAddrVirY = 8388608\<rparr>\<rparr>"

text \<open>
  A second I420 frame, 100 x 50, whose width and height are not multiples of 32
  (strides 100 and 52, planes at 0, 5000 and 6300), on the same sink.
\<close>

definition sample_sink_unaligned :: "32 word sunxifbsink" where
  "sample_sink_unaligned =
     sample_sink
       \<lparr>overlay_plane_offset := (\<lambda>i. 0)(1 := 5000, 2 := 6300),
        overlay_scanline_stride := (\<lambda>i. 0)(0 := 100, 1 := 52, 2 := 52),
        videosink_width := 100, videosink_height := 50,
        video_rectangle := \<lparr>rect_x = 0, rect_y = 0, rect_w = 100, rect_h = 50\<rparr>\<rparr>"

definition sample_answers_unaligned :: "32 word hw_answers" where
  "sample_answers_unaligned = sample_answers\<lparr>actual_width := 100, actual_height := 50\<rparr>"

text \<open>
  The 128 x 96 frame as NV12 (one interleaved chroma plane at 12288, both strides 128),
  and the same sink once its two rotation buffers are allocated.
\<close>

definition sample_sink_nv12 :: "32 word sunxifbsink" where
  "sample_sink_nv12 =
     sample_sink
       \<lparr>overlay_format := GST_VIDEO_FORMAT_NV12,
        overlay_plane_offset := (\<lambda>i. 0)(1 := 12288),
        overlay_scanline_stride := (\<lambda>i. 0)(0 := 128, 1 := 128)\<rparr>"

definition sample_sink_nv12_allocated :: "32 word sunxifbsink" where
  "sample_sink_nv12_allocated =
     sample_sink_nv12\<lparr>rotate_addr_phy := (\<lambda>i. 0)(0 := 16777216, 1 := 33554432)\<rparr>"

text \<open>
  The 128 x 96 frame as YV12 in the framebuffer, on a sink whose G2D device is open, and
  the same sink once its two rotation buffers are allocated.
\<close>

definition sample_sink_yv12 :: "32 word sunxifbsink" where
  "sample_sink_yv12 = sample_sink\<lparr>overlay_format := GST_VIDEO_FORMAT_YV12, fd_g2d := 6\<rparr>"

definition sample_sink_yv12_allocated :: "32 word sunxifbsink" where
  "sample_sink_yv12_allocated =
     sample_sink_yv12\<lparr>rotate_addr_phy := (\<lambda>i. 0)(0 := 16777216, 1 := 33554432)\<rparr>"

text \<open>
  The rotation job that lines 669-720 fill for the NV12 frame (rotation property 2), in
  terms of the functions above.
\<close>

definition sample_nv12_job :: "32 word tr_info" where
  "sample_nv12_job =
     memory_trans_info_disp2 sample_tr_h sample_sink_nv12_allocated sample_answers 2 8388608
       (fst (memory_planes_disp2 sample_sink_nv12 sample_answers GST_VIDEO_FORMAT_NV12
               8388608 True))"

text \<open>
  The blit descriptor that lines 1090-1189 fill for the YV12 frame (rotation property 2),
  in terms of the functions above.
\<close>

definition sample_yv12_blit :: "32 word g2d_blt_h" where
  "sample_yv12_blit =
     overlay_blit sample_sink_yv12_allocated sample_answers GST_VIDEO_FORMAT_YV12
       (overlay_planes_disp2 sample_sink_yv12 8388608 GST_VIDEO_FORMAT_YV12)"

section \<open>Properties\<close>

subsection \<open>The calls and results of the shared blocks\<close>

lemma hw_at_calls:
  "hwRotateVideoPicture_at pt ch info answers = Some (r, calls) \<Longrightarrow> c \<in> set calls \<Longrightarrow>
     c = IoctlTrCommit ch info \<or> c = IoctlTrQuery ch \<or> c = Usleep 1000"
proof (induction pt ch info answers arbitrary: r calls rule: hwRotateVideoPicture_at.induct)
  case (1 pt ch info)
  then show ?case by simp
next
  case (2 ch info ret answers)
  then show ?case by (auto split: if_splits)
next
  case (3 ch info ret answers)
  then show ?case by auto
next
  case (4 ch info ret answers)
  then show ?case by (auto split: if_splits)
qed

lemma hw_setup_first_call:
  "hwRotateVideoPicture_at At_setup_tr ch info answers = Some (r, calls) \<Longrightarrow>
     IoctlTrCommit ch info \<in> set calls"
  by (cases answers) (auto split: if_splits)

lemma alloc_Inr:
  "rotate_buffers_alloc fs ans wa ha = Inr (fs1, calls) \<Longrightarrow>
     fs1 = fs\<lparr>rotate_addr_phy := rotate_addr_phy fs1\<rparr> \<and> (\<forall>c \<in> set calls. \<exists>n. c = SunxiMemPalloc n)"
  by (auto simp: rotate_buffers_alloc_def Let_def split: if_splits)

lemma alloc_Inl:
  "rotate_buffers_alloc fs ans wa ha = Inl (fs1, calls) \<Longrightarrow>
     fs1 = fs\<lparr>rotate_addr_phy := rotate_addr_phy fs1\<rparr> \<and>
     (\<forall>c \<in> set calls. (\<exists>n. c = SunxiMemPalloc n) \<or> (\<exists>p. c = SunxiMemPfree p))"
  by (auto simp: rotate_buffers_alloc_def Let_def split: if_splits)

lemma commit_show_calls:
  "set_layer_config_and_show fs ans cfg calls = Some (r, fs', calls') \<Longrightarrow>
     (fs' = fs \<or> fs' = fs\<lparr>layer_is_visible := TRUE\<rparr>) \<and>
     (\<exists>tl. calls' = calls @ DispSetLayerConfig (fd_disp fs) (framebuffer_id fs) (layer_id fs) cfg # tl \<and>
        (\<forall>c \<in> set tl. \<exists>a b d e. c = DispSetLayerEnable a b d e))"
  by (auto simp: set_layer_config_and_show_def gst_sunxifbsink_show_layer_def Let_def split: if_splits prod.splits)

lemma commit_show_failed:
  "set_layer_config_result ans < 0 \<Longrightarrow>
   set_layer_config_and_show fs ans cfg calls =
     Some (FALSE, fs, calls @ [DispSetLayerConfig (fd_disp fs) (framebuffer_id fs) (layer_id fs) cfg])"
  by (simp add: set_layer_config_and_show_def)

lemma commit_show_config:
  assumes "set_layer_config_and_show fs ans cfg0 calls0 = Some (r, fs', calls)"
    and "DispSetLayerConfig a b n cfg \<in> set calls"
    and "\<forall>a b n c. DispSetLayerConfig a b n c \<notin> set calls0"
  shows "cfg = cfg0"
  using commit_show_calls [OF assms(1)] assms(2,3) by auto

lemma rotate_branch_cases:
  assumes "rotate_branch job config fs ans wa ha = Some (r, fs', calls)"
  shows "(\<exists>fs1. rotate_buffers_alloc fs ans wa ha = Inl (fs1, calls) \<and> r = GST_FLOW_ERROR \<and> fs' = fs1) \<or>
         (\<exists>fs1 calls0 tr_calls.
            rotate_buffers_alloc fs ans wa ha = Inr (fs1, calls0) \<and>
            (if 0 < fd_transform fs
             then \<exists>rr. hwRotateVideoPicture (fs1\<lparr>m_memory := m_memory fs1 + 1\<rparr>) (job fs1) (tr_answers ans)
                         = Some (rr, tr_calls)
             else tr_calls = []) \<and>
            set_layer_config_and_show (fs1\<lparr>m_memory := m_memory fs1 + 1\<rparr>) ans
               (config (fs1\<lparr>m_memory := m_memory fs1 + 1\<rparr>) (job fs1)) (calls0 @ tr_calls)
              = Some (r, fs', calls))"
proof (cases "rotate_buffers_alloc fs ans wa ha :: ('a word sunxifbsink \<times> ('a word, 'b) hw_call list) + _")
  case (Inl p)
  with assms show ?thesis
    by (cases p) (simp add: rotate_branch_def)
next
  case (Inr p)
  obtain fs1 calls0 where p: "p = (fs1, calls0)" by (cases p)
  from alloc_Inr [of fs ans wa ha fs1 calls0] Inr p
  have fs1: "fs1 = fs\<lparr>rotate_addr_phy := rotate_addr_phy fs1\<rparr>" by simp
  have fd: "fd_transform fs1 = fd_transform fs" by (subst fs1) simp
  from assms Inr p fd show ?thesis
    by (auto simp: rotate_branch_def Let_def split: option.splits if_splits)
qed


lemma rotate_branch_job:
  assumes run: "rotate_branch job config fs ans wa ha = Some (r, fs', calls)"
    and c: "IoctlTrCommit ch info \<in> set calls"
  shows "info = job (fs\<lparr>rotate_addr_phy := rotate_addr_phy fs'\<rparr>) \<and>
         m_memory fs' = m_memory fs + 1 \<and> 0 < fd_transform fs \<and> ch = transform_channel fs"
  using rotate_branch_cases [OF run]
proof (elim disjE exE conjE)
  fix fs1
  assume "rotate_buffers_alloc fs ans wa ha = Inl (fs1, calls)"
  from alloc_Inl [OF this] c show ?thesis by auto
next
  fix fs1 :: "'a word sunxifbsink" and calls0 tr_calls :: "('a word, 'b) hw_call list"
  let ?fs2 = "fs1\<lparr>m_memory := m_memory fs1 + 1\<rparr>"
  assume al: "rotate_buffers_alloc fs ans wa ha = Inr (fs1, calls0)"
    and tr: "if 0 < fd_transform fs
             then \<exists>rr. hwRotateVideoPicture ?fs2 (job fs1) (tr_answers ans) = Some (rr, tr_calls)
             else tr_calls = []"
    and fin: "set_layer_config_and_show ?fs2 ans (config ?fs2 (job fs1)) (calls0 @ tr_calls)
              = Some (r, fs', calls)"
  from alloc_Inr [OF al] have fs1: "fs1 = fs\<lparr>rotate_addr_phy := rotate_addr_phy fs1\<rparr>"
    and calls0: "\<forall>c \<in> set calls0. \<exists>n. c = SunxiMemPalloc n" by auto
  have fields: "transform_channel fs1 = transform_channel fs" "m_memory fs1 = m_memory fs"
    by (subst fs1, simp)+
  from commit_show_calls [OF fin] c calls0
  have c_tr: "IoctlTrCommit ch info \<in> set tr_calls"
    and fs': "fs' = ?fs2 \<or> fs' = ?fs2\<lparr>layer_is_visible := TRUE\<rparr>"
    by auto
  from fs' have fs'_fields: "rotate_addr_phy fs' = rotate_addr_phy fs1" "m_memory fs' = m_memory fs1 + 1"
    by auto
  from c_tr tr have pos: "0 < fd_transform fs"
    by (auto split: if_splits)
  with tr obtain rr where "hwRotateVideoPicture ?fs2 (job fs1) (tr_answers ans) = Some (rr, tr_calls)"
    by auto
  from hw_at_calls [OF this [unfolded hwRotateVideoPicture_def] c_tr]
  have "info = job fs1" "ch = transform_channel ?fs2" by auto
  with fs1 fields fs'_fields pos show ?thesis by simp
qed

lemma rotate_branch_config:
  assumes run: "rotate_branch job config fs ans wa ha = Some (r, fs', calls)"
    and c: "DispSetLayerConfig a b n cfg \<in> set calls"
  shows "cfg = config (fs\<lparr>rotate_addr_phy := rotate_addr_phy fs', m_memory := m_memory fs + 1\<rparr>)
                 (job (fs\<lparr>rotate_addr_phy := rotate_addr_phy fs'\<rparr>)) \<and>
         m_memory fs' = m_memory fs + 1 \<and>
         (set_layer_config_result ans < 0 \<longrightarrow>
            r = FALSE \<and> layer_is_visible fs' = layer_is_visible fs \<and>
            (\<forall>c \<in> set calls. \<forall>a b d e. c \<noteq> DispSetLayerEnable a b d e))"
  using rotate_branch_cases [OF run]
proof (elim disjE exE conjE)
  fix fs1
  assume "rotate_buffers_alloc fs ans wa ha = Inl (fs1, calls)"
  from alloc_Inl [OF this] c show ?thesis by auto
next
  fix fs1 :: "'a word sunxifbsink" and calls0 tr_calls :: "('a word, 'b) hw_call list"
  let ?fs2 = "fs1\<lparr>m_memory := m_memory fs1 + 1\<rparr>"
  assume al: "rotate_buffers_alloc fs ans wa ha = Inr (fs1, calls0)"
    and tr: "if 0 < fd_transform fs
             then \<exists>rr. hwRotateVideoPicture ?fs2 (job fs1) (tr_answers ans) = Some (rr, tr_calls)
             else tr_calls = []"
    and fin: "set_layer_config_and_show ?fs2 ans (config ?fs2 (job fs1)) (calls0 @ tr_calls)
              = Some (r, fs', calls)"
  from alloc_Inr [OF al] have fs1: "fs1 = fs\<lparr>rotate_addr_phy := rotate_addr_phy fs1\<rparr>"
    and calls0: "\<forall>c \<in> set calls0. \<exists>n. c = SunxiMemPalloc n" by auto
  have fields: "layer_is_visible fs1 = layer_is_visible fs" "m_memory fs1 = m_memory fs"
    by (subst fs1, simp)+
  have tr_calls: "\<forall>c \<in> set tr_calls. c = IoctlTrCommit (transform_channel ?fs2) (job fs1) \<or>
       c = IoctlTrQuery (transform_channel ?fs2) \<or> c = Usleep 1000"
  proof (cases "0 < fd_transform fs")
    case True
    with tr obtain rr where "hwRotateVideoPicture ?fs2 (job fs1) (tr_answers ans) = Some (rr, tr_calls)"
      by auto
    from hw_at_calls [OF this [unfolded hwRotateVideoPicture_def]] show ?thesis by blast
  next
    case False
    with tr show ?thesis by simp
  qed
  from commit_show_calls [OF fin] obtain tl where
    fs': "fs' = ?fs2 \<or> fs' = ?fs2\<lparr>layer_is_visible := TRUE\<rparr>"
    and calls: "calls = (calls0 @ tr_calls) @
        DispSetLayerConfig (fd_disp ?fs2) (framebuffer_id ?fs2) (layer_id ?fs2) (config ?fs2 (job fs1)) # tl"
    and tl: "\<forall>c \<in> set tl. \<exists>a b d e. c = DispSetLayerEnable a b d e"
    by blast
  from c calls calls0 tr_calls tl have cfg: "cfg = config ?fs2 (job fs1)"
    by auto
  from fs' have fs'_fields: "rotate_addr_phy fs' = rotate_addr_phy fs1" "m_memory fs' = m_memory fs1 + 1"
    by auto
  have fs2_eq: "?fs2 = fs\<lparr>rotate_addr_phy := rotate_addr_phy fs', m_memory := m_memory fs + 1\<rparr>"
    by (subst (1 2) fs1) (simp add: fs'_fields)
  have fs1_eq: "fs1 = fs\<lparr>rotate_addr_phy := rotate_addr_phy fs'\<rparr>"
    using fs1 fs'_fields by simp
  have failed: "r = FALSE \<and> layer_is_visible fs' = layer_is_visible fs \<and>
            (\<forall>c \<in> set calls. \<forall>a b d e. c \<noteq> DispSetLayerEnable a b d e)"
    if neg: "set_layer_config_result ans < 0"
  proof -
    from fin commit_show_failed [OF neg, of ?fs2 "config ?fs2 (job fs1)" "calls0 @ tr_calls"]
    have "r = FALSE" "fs' = ?fs2"
      "calls = (calls0 @ tr_calls) @
        [DispSetLayerConfig (fd_disp ?fs2) (framebuffer_id ?fs2) (layer_id ?fs2) (config ?fs2 (job fs1))]"
      by auto
    with calls0 tr_calls fields show ?thesis by auto
  qed
  have j: "job fs1 = job (fs\<lparr>rotate_addr_phy := rotate_addr_phy fs'\<rparr>)"
    using fs1_eq by (rule arg_cong)
  from cfg have "cfg = config (fs\<lparr>rotate_addr_phy := rotate_addr_phy fs', m_memory := m_memory fs + 1\<rparr>)
                 (job fs1)"
    unfolding fs2_eq .
  then have 1: "cfg = config (fs\<lparr>rotate_addr_phy := rotate_addr_phy fs', m_memory := m_memory fs + 1\<rparr>)
                 (job (fs\<lparr>rotate_addr_phy := rotate_addr_phy fs'\<rparr>))"
    unfolding j .
  have 2: "m_memory fs' = m_memory fs + 1"
    using fs'_fields(2) fields(2) by simp
  from 1 2 failed show ?thesis by blast
qed

subsection \<open>The two builds of show_memory_yuv_planar as instances\<close>

lemma show_memory_disp2_shape:
  "gst_sunxifbsink_show_memory_yuv_planar_disp2 K fs ans format mem =
     (if stride_divisor fs = 0 then None
      else if snd (memory_planes_disp2 fs ans format (phys_addr ans (map_data mem))
                     (0 < rotate_angle_property fs))
      then rotate_branch
             (\<lambda>fs1. memory_trans_info_disp2 K fs1 ans (rotate_angle_property fs)
                      (phys_addr ans (map_data mem))
                      (fst (memory_planes_disp2 fs ans format (phys_addr ans (map_data mem))
                              (0 < rotate_angle_property fs))))
             (\<lambda>fs2 ti. memory_layer_info_disp2 K fs2 ans True ti
                (memory_rotated_disp2 fs2 ans ti
                   (fst (memory_planes_disp2 fs ans format (phys_addr ans (map_data mem))
                           (0 < rotate_angle_property fs)))))
             fs ans
             (ALIGN_32B (info_fb_size_width
                (fst (memory_planes_disp2 fs ans format (phys_addr ans (map_data mem))
                        (0 < rotate_angle_property fs))) 0))
             (ALIGN_32B (info_fb_size_height
                (fst (memory_planes_disp2 fs ans format (phys_addr ans (map_data mem))
                        (0 < rotate_angle_property fs))) 0))
      else set_layer_config_and_show fs ans
             (memory_layer_info_disp2 K fs ans False tr_info_zero
                (fst (memory_planes_disp2 fs ans format (phys_addr ans (map_data mem))
                        (0 < rotate_angle_property fs)))) [])"
  by (simp add: gst_sunxifbsink_show_memory_yuv_planar_disp2_def rotate_branch_def Let_def
      split_def)

lemma show_memory_legacy_shape:
  "gst_sunxifbsink_show_memory_yuv_planar_legacy K fs ans readback format mem =
     (if stride_divisor fs = 0 then None
      else if 0 < rotate_angle_property fs
      then rotate_branch
             (\<lambda>fs1. memory_trans_info_legacy K fs1 ans (rotate_angle_property fs)
                      (phys_addr ans (map_data mem))
                      (memory_planes_legacy fs format (phys_addr ans (map_data mem)) readback))
             (\<lambda>fs2 ti. layer_info_legacy fs2
                (memory_rotated_legacy fs2 ans ti
                   (memory_planes_legacy fs format (phys_addr ans (map_data mem)) readback)))
             fs ans
             (ALIGN_32B (fb_size_width
                (memory_planes_legacy fs format (phys_addr ans (map_data mem)) readback)))
             (ALIGN_32B (fb_size_height
                (memory_planes_legacy fs format (phys_addr ans (map_data mem)) readback)))
      else set_layer_config_and_show fs ans
             (layer_info_legacy fs
                (memory_planes_legacy fs format (phys_addr ans (map_data mem)) readback)) [])"
  by (simp add: gst_sunxifbsink_show_memory_yuv_planar_legacy_def rotate_branch_def Let_def
      split_def)

lemma planes_disp2_width:
  "info_fb_size_width (fst (memory_planes_disp2 fs ans format p re)) 0 = word_of_int (stride_pixels fs)"
  by (simp add: memory_planes_disp2_def Let_def disp2_layer_config_zero_def)

lemma planes_disp2_height:
  "format \<noteq> GST_VIDEO_FORMAT_NV12 \<Longrightarrow> format \<noteq> GST_VIDEO_FORMAT_NV21 \<Longrightarrow>
   info_fb_size_height (fst (memory_planes_disp2 fs ans format p re)) 0 = word_of_int (videosink_height fs)"
  by (simp add: memory_planes_disp2_def Let_def disp2_layer_config_zero_def)

lemma planes_legacy_width:
  "fb_size_width (memory_planes_legacy fs format p c) = word_of_int (stride_pixels fs)"
  by (simp add: memory_planes_legacy_def Let_def)

lemma planes_legacy_height:
  "format \<noteq> GST_VIDEO_FORMAT_NV12 \<Longrightarrow> format \<noteq> GST_VIDEO_FORMAT_NV21 \<Longrightarrow>
   fb_size_height (memory_planes_legacy fs format p c) = word_of_int (videosink_height fs)"
  by (simp add: memory_planes_legacy_def Let_def)

lemma planes_disp2_height_nv:
  "format = GST_VIDEO_FORMAT_NV12 \<or> format = GST_VIDEO_FORMAT_NV21 \<Longrightarrow>
   info_fb_size_height (fst (memory_planes_disp2 fs ans format p re)) 0 = 0"
  by (auto simp: memory_planes_disp2_def Let_def disp2_layer_config_zero_def)

lemma planes_legacy_height_nv:
  "format = GST_VIDEO_FORMAT_NV12 \<or> format = GST_VIDEO_FORMAT_NV21 \<Longrightarrow>
   fb_size_height (memory_planes_legacy fs format p c) = word_of_int (videosink_height fs sdiv 2)"
  by (auto simp: memory_planes_legacy_def Let_def)

lemma and_not_31: "(y :: 32 word) AND NOT 31 = push_bit 5 (drop_bit 5 y)"
proof -
  have m: "(31 :: 32 word) = mask 5" by (simp add: mask_eq_exp_minus_1)
  show ?thesis unfolding m
    by (rule bit_word_eqI) (auto simp: bit_simps)
qed

lemma ALIGN_32B_unat: "unat (ALIGN_32B x) = (unat x + 31) mod 2 ^ 32 div 32 * 32"
proof -
  have 1: "unat (x + 31) = (unat x + 31) mod 2 ^ 32"
    by (simp add: unat_word_ariths)
  have 2: "unat (push_bit 5 (drop_bit 5 y)) = unat y div 32 * 32" for y :: "32 word"
  proof -
    have d: "unat (y div 32) = unat y div 32" by (simp add: unat_div)
    have "unat y div 32 * 32 \<le> unat y" by simp
    also have "unat y < 2 ^ 32" using unsigned_less [of y] by simp
    finally have "unat (y div 32) * unat (32 :: 32 word) < 2 ^ LENGTH(32)"
      by (simp add: d)
    then have "unat (y div 32 * 32) = unat (y div 32) * unat (32 :: 32 word)"
      by (simp only: unat_mult_lem)
    then show ?thesis
      by (simp add: d push_bit_eq_mult drop_bit_eq_div)
  qed
  show ?thesis unfolding ALIGN_32B_def and_not_31 2 1 ..
qed

lemma show_memory_disp2_job:
  assumes run: "gst_sunxifbsink_show_memory_yuv_planar_disp2 K fs ans format mem = Some (r, fs', calls)"
    and c: "IoctlTrCommit ch info \<in> set calls"
  shows "info = memory_trans_info_disp2 K (fs\<lparr>rotate_addr_phy := rotate_addr_phy fs'\<rparr>) ans
                  (rotate_angle_property fs) (phys_addr ans (map_data mem))
                  (fst (memory_planes_disp2 fs ans format (phys_addr ans (map_data mem))
                          (0 < rotate_angle_property fs))) \<and>
         m_memory fs' = m_memory fs + 1 \<and> 0 < fd_transform fs \<and> ch = transform_channel fs"
proof (cases "stride_divisor fs \<noteq> 0 \<and> snd (memory_planes_disp2 fs ans format (phys_addr ans (map_data mem))
                     (0 < rotate_angle_property fs))")
  case True
  with run show ?thesis
    unfolding show_memory_disp2_shape
    using rotate_branch_job [OF _ c] by simp
next
  case False
  with run have "set_layer_config_and_show fs ans
             (memory_layer_info_disp2 K fs ans False tr_info_zero
                (fst (memory_planes_disp2 fs ans format (phys_addr ans (map_data mem))
                        (0 < rotate_angle_property fs)))) [] = Some (r, fs', calls)"
    unfolding show_memory_disp2_shape by (simp split: if_splits)
  from commit_show_calls [OF this] c show ?thesis by auto
qed

lemma show_memory_legacy_job:
  assumes run: "gst_sunxifbsink_show_memory_yuv_planar_legacy K fs ans readback format mem = Some (r, fs', calls)"
    and c: "IoctlTrCommit ch info \<in> set calls"
  shows "info = memory_trans_info_legacy K (fs\<lparr>rotate_addr_phy := rotate_addr_phy fs'\<rparr>) ans
                  (rotate_angle_property fs) (phys_addr ans (map_data mem))
                  (memory_planes_legacy fs format (phys_addr ans (map_data mem)) readback) \<and>
         m_memory fs' = m_memory fs + 1 \<and> 0 < fd_transform fs \<and> ch = transform_channel fs"
proof (cases "stride_divisor fs \<noteq> 0 \<and> 0 < rotate_angle_property fs")
  case True
  with run show ?thesis
    unfolding show_memory_legacy_shape
    using rotate_branch_job [OF _ c] by simp
next
  case False
  with run have "set_layer_config_and_show fs ans
             (layer_info_legacy fs
                (memory_planes_legacy fs format (phys_addr ans (map_data mem)) readback)) []
              = Some (r, fs', calls)"
    unfolding show_memory_legacy_shape by (simp split: if_splits)
  from commit_show_calls [OF this] c show ?thesis by auto
qed

subsection \<open>The rotation job\<close>

lemma trans_info_disp2_geometry:
  "memory_trans_info_disp2 K fs ans rt p c = info \<Longrightarrow>
     tr_mode info = rt \<and>
     pitch (src_frame info) 0 = ALIGN_32B (info_fb_size_width c 0) \<and>
     height (src_frame info) 0 = ALIGN_32B (info_fb_size_height c 0) \<and>
     dst_frame info = rotate_dst_frame K fs ans rt (ALIGN_32B (info_fb_size_width c 0))
                        (ALIGN_32B (info_fb_size_height c 0))"
  by (auto simp: memory_trans_info_disp2_def Let_def)

lemma trans_info_legacy_geometry:
  "memory_trans_info_legacy K fs ans rt p c = info \<Longrightarrow>
     tr_mode info = rt \<and>
     pitch (src_frame info) 0 = ALIGN_32B (fb_size_width c) \<and>
     height (src_frame info) 0 = ALIGN_32B (fb_size_height c) \<and>
     dst_frame info = rotate_dst_frame K fs ans rt (ALIGN_32B (fb_size_width c))
                        (ALIGN_32B (fb_size_height c))"
  by (auto simp: memory_trans_info_legacy_def Let_def)

lemma rotate_dst_frame_geometry:
  "(rt = TR_ROT_180 K \<longrightarrow>
      pitch (rotate_dst_frame K fs ans rt wa ha) 0 = wa \<and>
      height (rotate_dst_frame K fs ans rt wa ha) 0 = ha) \<and>
   (rt \<noteq> TR_ROT_180 K \<longrightarrow>
      pitch (rotate_dst_frame K fs ans rt wa ha) 0 = ha \<and>
      height (rotate_dst_frame K fs ans rt wa ha) 0 = wa) \<and>
   pitch (rotate_dst_frame K fs ans rt wa ha) 1 = pitch (rotate_dst_frame K fs ans rt wa ha) 0 div 2 \<and>
   pitch (rotate_dst_frame K fs ans rt wa ha) 2 = pitch (rotate_dst_frame K fs ans rt wa ha) 0 div 2 \<and>
   height (rotate_dst_frame K fs ans rt wa ha) 1 = height (rotate_dst_frame K fs ans rt wa ha) 0 div 2 \<and>
   height (rotate_dst_frame K fs ans rt wa ha) 2 = height (rotate_dst_frame K fs ans rt wa ha) 0 div 2"
  by (simp add: rotate_dst_frame_def Let_def)

lemma rotate_dst_frame_laddr:
  "laddr (rotate_dst_frame K fs ans rt wa ha) 0 =
     phys_addr ans (rotate_addr_phy fs ((m_memory fs + 1) smod 2)) \<and>
   laddr (rotate_dst_frame K fs ans rt wa ha) 1 =
     laddr (rotate_dst_frame K fs ans rt wa ha) 0 + ucast (wa * ha) \<and>
   laddr (rotate_dst_frame K fs ans rt wa ha) 2 =
     laddr (rotate_dst_frame K fs ans rt wa ha) 0 + ucast (wa * ha * 5 div 4) \<and>
   pitch (rotate_dst_frame K fs ans rt wa ha) 0 * height (rotate_dst_frame K fs ans rt wa ha) 0 = wa * ha"
  by (simp add: rotate_dst_frame_def Let_def mult.commute)

subsection \<open>The sample frame runs\<close>

lemmas sample_defs =
  sample_tr_h_def sample_sink_def sample_answers_def sample_memory_def gst_sunxifbsink_init_def

lemma sample_run_disp2:
  "\<exists>r fs' calls.
     gst_sunxifbsink_show_memory_yuv_planar_disp2 sample_tr_h
       (sample_sink\<lparr>rotate_angle_property := k\<rparr>) sample_answers
       GST_VIDEO_FORMAT_I420 sample_memory = Some (r, fs', calls) \<and>
     (0 < k \<longrightarrow> (\<exists>ch info. IoctlTrCommit ch info \<in> set calls)) \<and>
     (\<exists>a b n cfg. DispSetLayerConfig a b n cfg \<in> set calls)"
  by (simp add: show_memory_disp2_shape rotate_branch_def rotate_buffers_alloc_def
      sample_defs stride_divisor_def memory_planes_disp2_def Let_def
      hwRotateVideoPicture_def set_layer_config_and_show_def gst_sunxifbsink_show_layer_def
      signed_divide_int_def)

lemma sample_run_legacy:
  "\<exists>r fs' calls.
     gst_sunxifbsink_show_memory_yuv_planar_legacy sample_tr_h
       (sample_sink\<lparr>rotate_angle_property := k\<rparr>) sample_answers readback
       GST_VIDEO_FORMAT_I420 sample_memory = Some (r, fs', calls) \<and>
     (0 < k \<longrightarrow> (\<exists>ch info. IoctlTrCommit ch info \<in> set calls)) \<and>
     (\<exists>a b n cfg. DispSetLayerConfig a b n cfg \<in> set calls)"
  by (simp add: show_memory_legacy_shape rotate_branch_def rotate_buffers_alloc_def
      sample_defs stride_divisor_def memory_planes_legacy_def Let_def
      hwRotateVideoPicture_def set_layer_config_and_show_def gst_sunxifbsink_show_layer_def
      signed_divide_int_def)

lemma sample_aligned:
  "ALIGN_32B (word_of_int (stride_pixels (sample_sink\<lparr>rotate_angle_property := k\<rparr>))) = 128"
  "ALIGN_32B (word_of_int (videosink_height (sample_sink\<lparr>rotate_angle_property := k\<rparr>))) = 96"
  by (simp_all add: ALIGN_32B_def stride_pixels_def stride_divisor_def sample_defs
      signed_divide_int_def)

lemmas sample_defs2 =
  sample_defs sample_sink_unaligned_def sample_answers_unaligned_def sample_sink_nv12_def
  sample_sink_nv12_allocated_def sample_sink_yv12_def sample_sink_yv12_allocated_def

lemma sample_unaligned_run_disp2:
  "\<exists>r fs' calls.
     gst_sunxifbsink_show_memory_yuv_planar_disp2 sample_tr_h
       (sample_sink_unaligned\<lparr>rotate_angle_property := k\<rparr>) sample_answers_unaligned
       GST_VIDEO_FORMAT_I420 sample_memory = Some (r, fs', calls) \<and>
     (0 < k \<longrightarrow> (\<exists>ch info. IoctlTrCommit ch info \<in> set calls)) \<and>
     (\<exists>a b n cfg. DispSetLayerConfig a b n cfg \<in> set calls)"
  by (simp add: show_memory_disp2_shape rotate_branch_def rotate_buffers_alloc_def
      sample_defs2 stride_divisor_def memory_planes_disp2_def Let_def
      hwRotateVideoPicture_def set_layer_config_and_show_def gst_sunxifbsink_show_layer_def
      signed_divide_int_def)

lemma sample_unaligned_aligned:
  "ALIGN_32B (word_of_int (stride_pixels (sample_sink_unaligned\<lparr>rotate_angle_property := k\<rparr>))) = 128"
  "ALIGN_32B (word_of_int (videosink_height (sample_sink_unaligned\<lparr>rotate_angle_property := k\<rparr>))) = 64"
  by (simp_all add: ALIGN_32B_def stride_pixels_def stride_divisor_def sample_defs2
      signed_divide_int_def)

lemma sample_nv12_run:
  "gst_sunxifbsink_show_memory_yuv_planar_disp2 sample_tr_h sample_sink_nv12 sample_answers
     GST_VIDEO_FORMAT_NV12 sample_memory =
   Some (GST_FLOW_OK,
     sample_sink_nv12_allocated\<lparr>m_memory := 1, layer_is_visible := TRUE\<rparr>,
     [SunxiMemPalloc 0, SunxiMemPalloc 0,
      IoctlTrCommit 0 sample_nv12_job,
      IoctlTrQuery 0, IoctlTrQuery 0, Usleep 1000, IoctlTrQuery 0,
      DispSetLayerConfig 4 0 0
        (memory_layer_info_disp2 sample_tr_h (sample_sink_nv12_allocated\<lparr>m_memory := 1\<rparr>)
           sample_answers True sample_nv12_job
           (memory_rotated_disp2 (sample_sink_nv12_allocated\<lparr>m_memory := 1\<rparr>) sample_answers
              sample_nv12_job
              (fst (memory_planes_disp2 sample_sink_nv12 sample_answers GST_VIDEO_FORMAT_NV12
                      8388608 True)))),
      DispSetLayerEnable 4 0 0 1])"
  by (simp add: gst_sunxifbsink_show_memory_yuv_planar_disp2_def rotate_buffers_alloc_def
      sample_defs2 sample_nv12_job_def stride_divisor_def stride_pixels_def
      memory_planes_disp2_def Let_def
      hwRotateVideoPicture_def set_layer_config_and_show_def gst_sunxifbsink_show_layer_def
      signed_divide_int_def ALIGN_32B_def disp2_layer_config_zero_def TRUE_def FALSE_def)

lemma sample_nv12_job_fields:
  "tr_mode sample_nv12_job = 2"
  "pitch (src_frame sample_nv12_job) 0 = 128"
  "height (src_frame sample_nv12_job) 0 = 0"
  "pitch (dst_frame sample_nv12_job) 0 = 128"
  "height (dst_frame sample_nv12_job) 0 = 0"
  "laddr (dst_frame sample_nv12_job) 0 = 33554432"
  "laddr (dst_frame sample_nv12_job) 1 = 33554432"
  "laddr (dst_frame sample_nv12_job) 2 = 33554432"
  by (simp_all add: sample_nv12_job_def memory_trans_info_disp2_def rotate_dst_frame_def
      memory_planes_disp2_def Let_def sample_defs2 stride_divisor_def stride_pixels_def
      signed_divide_int_def signed_modulo_int_def ALIGN_32B_def disp2_layer_config_zero_def)

subsection \<open>Geometry of the rotation job\<close>

text \<open>
  C5. Every rotation job that \<^verbatim>\<open>show_memory_yuv_planar\<close> submits (in either build)
  keeps the dimensions of its source frame when the mode is \<^verbatim>\<open>TR_ROT_180\<close>: the
  destination luma pitch is the source pitch and the destination luma height is the
  source height. For every other mode, so for 90 and 270 degrees, they are exchanged.
  The chroma pitch and height are half of the luma values. The source pitch is the
  32-aligned plane-0 width of the frame. The source height is the 32-aligned height of
  the frame for every format but NV12 and NV21; for these two it is 0 with
  \<^verbatim>\<open>__SUNXI_DISPLAY2__\<close> (lines 586-606 assign no \<^verbatim>\<open>size[0].height\<close>) and the 32-aligned
  half of the height of the frame without (line 795). \<^verbatim>\<open>ALIGN_32B\<close> of \<open>x\<close> is \<open>x + 31\<close>
  (in \<^verbatim>\<open>unsigned int\<close>) rounded down to a multiple of 32.
\<close>

theorem rotation_job_geometry:
  assumes job:
    "(\<exists>r fs' calls.
        gst_sunxifbsink_show_memory_yuv_planar_disp2 K fs ans format mem = Some (r, fs', calls) \<and>
        IoctlTrCommit ch info \<in> set calls) \<or>
     (\<exists>r fs' calls.
        gst_sunxifbsink_show_memory_yuv_planar_legacy K fs ans readback format mem =
          Some (r, fs', calls) \<and>
        IoctlTrCommit ch info \<in> set calls)"
  shows
    "(tr_mode info = TR_ROT_180 K \<longrightarrow>
        pitch (dst_frame info) 0 = pitch (src_frame info) 0 \<and>
        height (dst_frame info) 0 = height (src_frame info) 0) \<and>
     (tr_mode info \<noteq> TR_ROT_180 K \<longrightarrow>
        pitch (dst_frame info) 0 = height (src_frame info) 0 \<and>
        height (dst_frame info) 0 = pitch (src_frame info) 0) \<and>
     pitch (dst_frame info) 1 = pitch (dst_frame info) 0 div 2 \<and>
     pitch (dst_frame info) 2 = pitch (dst_frame info) 0 div 2 \<and>
     height (dst_frame info) 1 = height (dst_frame info) 0 div 2 \<and>
     height (dst_frame info) 2 = height (dst_frame info) 0 div 2 \<and>
     tr_mode info = rotate_angle_property fs \<and>
     pitch (src_frame info) 0 = ALIGN_32B (word_of_int (stride_pixels fs)) \<and>
     (format \<noteq> GST_VIDEO_FORMAT_NV12 \<and> format \<noteq> GST_VIDEO_FORMAT_NV21 \<longrightarrow>
        height (src_frame info) 0 = ALIGN_32B (word_of_int (videosink_height fs))) \<and>
     ((\<exists>r fs' calls.
         gst_sunxifbsink_show_memory_yuv_planar_disp2 K fs ans format mem = Some (r, fs', calls) \<and>
         IoctlTrCommit ch info \<in> set calls) \<and> (format = GST_VIDEO_FORMAT_NV12 \<or> format = GST_VIDEO_FORMAT_NV21) \<longrightarrow>
        height (src_frame info) 0 = 0) \<and>
     ((\<exists>r fs' calls.
         gst_sunxifbsink_show_memory_yuv_planar_legacy K fs ans readback format mem =
           Some (r, fs', calls) \<and>
         IoctlTrCommit ch info \<in> set calls) \<and> (format = GST_VIDEO_FORMAT_NV12 \<or> format = GST_VIDEO_FORMAT_NV21) \<longrightarrow>
        height (src_frame info) 0 = ALIGN_32B (word_of_int (videosink_height fs sdiv 2))) \<and>
     unat (ALIGN_32B x) = (unat x + 31) mod 2 ^ 32 div 32 * 32"
proof -
  have geo: "(tr_mode info = TR_ROT_180 K \<longrightarrow>
        pitch (dst_frame info) 0 = pitch (src_frame info) 0 \<and>
        height (dst_frame info) 0 = height (src_frame info) 0) \<and>
     (tr_mode info \<noteq> TR_ROT_180 K \<longrightarrow>
        pitch (dst_frame info) 0 = height (src_frame info) 0 \<and>
        height (dst_frame info) 0 = pitch (src_frame info) 0) \<and>
     pitch (dst_frame info) 1 = pitch (dst_frame info) 0 div 2 \<and>
     pitch (dst_frame info) 2 = pitch (dst_frame info) 0 div 2 \<and>
     height (dst_frame info) 1 = height (dst_frame info) 0 div 2 \<and>
     height (dst_frame info) 2 = height (dst_frame info) 0 div 2"
    if "dst_frame info = rotate_dst_frame K fs1 ans (tr_mode info) (pitch (src_frame info) 0)
                           (height (src_frame info) 0)" for fs1
    using rotate_dst_frame_geometry [of "tr_mode info" K fs1 ans "pitch (src_frame info) 0"
        "height (src_frame info) 0", folded that] .
  from job have main:
    "(tr_mode info = TR_ROT_180 K \<longrightarrow>
        pitch (dst_frame info) 0 = pitch (src_frame info) 0 \<and>
        height (dst_frame info) 0 = height (src_frame info) 0) \<and>
     (tr_mode info \<noteq> TR_ROT_180 K \<longrightarrow>
        pitch (dst_frame info) 0 = height (src_frame info) 0 \<and>
        height (dst_frame info) 0 = pitch (src_frame info) 0) \<and>
     pitch (dst_frame info) 1 = pitch (dst_frame info) 0 div 2 \<and>
     pitch (dst_frame info) 2 = pitch (dst_frame info) 0 div 2 \<and>
     height (dst_frame info) 1 = height (dst_frame info) 0 div 2 \<and>
     height (dst_frame info) 2 = height (dst_frame info) 0 div 2 \<and>
     tr_mode info = rotate_angle_property fs \<and>
     pitch (src_frame info) 0 = ALIGN_32B (word_of_int (stride_pixels fs)) \<and>
     (format \<noteq> GST_VIDEO_FORMAT_NV12 \<and> format \<noteq> GST_VIDEO_FORMAT_NV21 \<longrightarrow>
        height (src_frame info) 0 = ALIGN_32B (word_of_int (videosink_height fs)))"
  proof (elim disjE exE conjE)
    fix r fs' calls
    assume run: "gst_sunxifbsink_show_memory_yuv_planar_disp2 K fs ans format mem = Some (r, fs', calls)"
      and c: "IoctlTrCommit ch info \<in> set (calls :: ('a word, disp2_layer_config) hw_call list)"
    define c0 where "c0 = fst (memory_planes_disp2 fs ans format (phys_addr ans (map_data mem))
                            (0 < rotate_angle_property fs))"
    from show_memory_disp2_job [OF run c] obtain fs1 where
      info: "memory_trans_info_disp2 K fs1 ans (rotate_angle_property fs) (phys_addr ans (map_data mem)) c0 = info"
      unfolding c0_def by blast
    have w: "info_fb_size_width c0 0 = word_of_int (stride_pixels fs)"
      unfolding c0_def by (rule planes_disp2_width)
    have h: "info_fb_size_height c0 0 = word_of_int (videosink_height fs)"
      if "format \<noteq> GST_VIDEO_FORMAT_NV12" "format \<noteq> GST_VIDEO_FORMAT_NV21"
      unfolding c0_def using that by (rule planes_disp2_height)
    note g = trans_info_disp2_geometry [OF info]
    from g have "dst_frame info = rotate_dst_frame K fs1 ans (tr_mode info) (pitch (src_frame info) 0)
                           (height (src_frame info) 0)" by simp
    from geo [OF this] g w h show ?thesis by simp
  next
    fix r fs' calls
    assume run: "gst_sunxifbsink_show_memory_yuv_planar_legacy K fs ans readback format mem = Some (r, fs', calls)"
      and c: "IoctlTrCommit ch info \<in> set (calls :: ('a word, 'b disp_layer_config) hw_call list)"
    define c0 where "c0 = memory_planes_legacy fs format (phys_addr ans (map_data mem)) readback"
    from show_memory_legacy_job [OF run c] obtain fs1 where
      info: "memory_trans_info_legacy K fs1 ans (rotate_angle_property fs) (phys_addr ans (map_data mem)) c0 = info"
      unfolding c0_def by blast
    have w: "fb_size_width c0 = word_of_int (stride_pixels fs)"
      unfolding c0_def by (rule planes_legacy_width)
    have h: "fb_size_height c0 = word_of_int (videosink_height fs)"
      if "format \<noteq> GST_VIDEO_FORMAT_NV12" "format \<noteq> GST_VIDEO_FORMAT_NV21"
      unfolding c0_def using that by (rule planes_legacy_height)
    note g = trans_info_legacy_geometry [OF info]
    from g have "dst_frame info = rotate_dst_frame K fs1 ans (tr_mode info) (pitch (src_frame info) 0)
                           (height (src_frame info) 0)" by simp
    from geo [OF this] g w h show ?thesis by simp
  qed
  have nv_disp2:
    "(\<exists>r fs' calls.
         gst_sunxifbsink_show_memory_yuv_planar_disp2 K fs ans format mem = Some (r, fs', calls) \<and>
         IoctlTrCommit ch info \<in> set calls) \<and> (format = GST_VIDEO_FORMAT_NV12 \<or> format = GST_VIDEO_FORMAT_NV21) \<longrightarrow>
     height (src_frame info) 0 = 0"
  proof (intro impI, elim conjE exE)
    fix r fs' calls
    assume run: "gst_sunxifbsink_show_memory_yuv_planar_disp2 K fs ans format mem = Some (r, fs', calls)"
      and c: "IoctlTrCommit ch info \<in> set (calls :: ('a word, disp2_layer_config) hw_call list)"
      and nv: "format = GST_VIDEO_FORMAT_NV12 \<or> format = GST_VIDEO_FORMAT_NV21"
    define c0 where "c0 = fst (memory_planes_disp2 fs ans format (phys_addr ans (map_data mem))
                            (0 < rotate_angle_property fs))"
    from show_memory_disp2_job [OF run c] obtain fs1 where
      info: "memory_trans_info_disp2 K fs1 ans (rotate_angle_property fs) (phys_addr ans (map_data mem)) c0 = info"
      unfolding c0_def by blast
    have hn: "info_fb_size_height c0 0 = 0"
      unfolding c0_def using nv by (rule planes_disp2_height_nv)
    from trans_info_disp2_geometry [OF info] hn show "height (src_frame info) 0 = 0"
      by (simp add: ALIGN_32B_def)
  qed
  have nv_legacy:
    "(\<exists>r fs' calls.
         gst_sunxifbsink_show_memory_yuv_planar_legacy K fs ans readback format mem =
           Some (r, fs', calls) \<and>
         IoctlTrCommit ch info \<in> set calls) \<and> (format = GST_VIDEO_FORMAT_NV12 \<or> format = GST_VIDEO_FORMAT_NV21) \<longrightarrow>
     height (src_frame info) 0 = ALIGN_32B (word_of_int (videosink_height fs sdiv 2))"
  proof (intro impI, elim conjE exE)
    fix r fs' calls
    assume run: "gst_sunxifbsink_show_memory_yuv_planar_legacy K fs ans readback format mem = Some (r, fs', calls)"
      and c: "IoctlTrCommit ch info \<in> set (calls :: ('a word, 'b disp_layer_config) hw_call list)"
      and nv: "format = GST_VIDEO_FORMAT_NV12 \<or> format = GST_VIDEO_FORMAT_NV21"
    define c0 where "c0 = memory_planes_legacy fs format (phys_addr ans (map_data mem)) readback"
    from show_memory_legacy_job [OF run c] obtain fs1 where
      info: "memory_trans_info_legacy K fs1 ans (rotate_angle_property fs) (phys_addr ans (map_data mem)) c0 = info"
      unfolding c0_def by blast
    have hn: "fb_size_height c0 = word_of_int (videosink_height fs sdiv 2)"
      unfolding c0_def using nv by (rule planes_legacy_height_nv)
    from trans_info_legacy_geometry [OF info] hn
    show "height (src_frame info) 0 = ALIGN_32B (word_of_int (videosink_height fs sdiv 2))"
      by simp
  qed
  have pin: "unat (ALIGN_32B x) = (unat x + 31) mod 2 ^ 32 div 32 * 32"
    by (rule ALIGN_32B_unat)
  from main nv_disp2 nv_legacy pin show ?thesis by blast
qed

theorem rotation_job_geometry_witness:
  "(\<exists>r fs' calls ch info.
      gst_sunxifbsink_show_memory_yuv_planar_disp2 sample_tr_h sample_sink_unaligned sample_answers_unaligned
        GST_VIDEO_FORMAT_I420 sample_memory = Some (r, fs', calls) \<and>
      IoctlTrCommit ch info \<in> set calls \<and> tr_mode info = TR_ROT_180 sample_tr_h \<and>
      pitch (dst_frame info) 0 = 128 \<and> height (dst_frame info) 0 = 64 \<and>
      pitch (dst_frame info) 1 = 64 \<and> height (dst_frame info) 1 = 32) \<and>
   (\<exists>r fs' calls ch info.
      gst_sunxifbsink_show_memory_yuv_planar_disp2 sample_tr_h
        (sample_sink_unaligned\<lparr>rotate_angle_property := 1\<rparr>) sample_answers_unaligned
        GST_VIDEO_FORMAT_I420 sample_memory = Some (r, fs', calls) \<and>
      IoctlTrCommit ch info \<in> set calls \<and> tr_mode info = TR_ROT_90 sample_tr_h \<and>
      pitch (dst_frame info) 0 = 64 \<and> height (dst_frame info) 0 = 128 \<and>
      pitch (dst_frame info) 1 = 32 \<and> height (dst_frame info) 1 = 64)"
proof (intro conjI)
  from sample_unaligned_run_disp2 [of 2] obtain r fs' calls ch info where
    run: "gst_sunxifbsink_show_memory_yuv_planar_disp2 sample_tr_h
       (sample_sink_unaligned\<lparr>rotate_angle_property := 2\<rparr>) sample_answers_unaligned
       GST_VIDEO_FORMAT_I420 sample_memory = Some (r, fs', calls)"
    and c: "IoctlTrCommit ch info \<in> set calls"
    by auto
  have s: "sample_sink_unaligned\<lparr>rotate_angle_property := 2\<rparr> = sample_sink_unaligned"
    by (simp add: sample_defs2)
  have "(\<exists>r fs' calls.
        gst_sunxifbsink_show_memory_yuv_planar_disp2 sample_tr_h
          (sample_sink_unaligned\<lparr>rotate_angle_property := 2\<rparr>) sample_answers_unaligned
          GST_VIDEO_FORMAT_I420 sample_memory = Some (r, fs', calls) \<and>
        IoctlTrCommit ch info \<in> set calls) \<or>
     (\<exists>r fs' calls.
        gst_sunxifbsink_show_memory_yuv_planar_legacy sample_tr_h
          (sample_sink_unaligned\<lparr>rotate_angle_property := 2\<rparr>) sample_answers_unaligned
          (undefined :: unit disp_layer_config) GST_VIDEO_FORMAT_I420 sample_memory =
          Some (r, fs', calls) \<and>
        IoctlTrCommit ch info \<in> set calls)"
    using run c by blast
  from rotation_job_geometry [OF this] sample_unaligned_aligned [of 2]
  have "tr_mode info = TR_ROT_180 sample_tr_h \<and>
      pitch (dst_frame info) 0 = 128 \<and> height (dst_frame info) 0 = 64 \<and>
      pitch (dst_frame info) 1 = 64 \<and> height (dst_frame info) 1 = 32"
    by (simp add: sample_tr_h_def)
  with run c show "\<exists>r fs' calls ch info.
      gst_sunxifbsink_show_memory_yuv_planar_disp2 sample_tr_h sample_sink_unaligned sample_answers_unaligned
        GST_VIDEO_FORMAT_I420 sample_memory = Some (r, fs', calls) \<and>
      IoctlTrCommit ch info \<in> set calls \<and> tr_mode info = TR_ROT_180 sample_tr_h \<and>
      pitch (dst_frame info) 0 = 128 \<and> height (dst_frame info) 0 = 64 \<and>
      pitch (dst_frame info) 1 = 64 \<and> height (dst_frame info) 1 = 32"
    unfolding s by blast
next
  from sample_unaligned_run_disp2 [of 1] obtain r fs' calls ch info where
    run: "gst_sunxifbsink_show_memory_yuv_planar_disp2 sample_tr_h
       (sample_sink_unaligned\<lparr>rotate_angle_property := 1\<rparr>) sample_answers_unaligned
       GST_VIDEO_FORMAT_I420 sample_memory = Some (r, fs', calls)"
    and c: "IoctlTrCommit ch info \<in> set calls"
    by auto
  have "(\<exists>r fs' calls.
        gst_sunxifbsink_show_memory_yuv_planar_disp2 sample_tr_h
          (sample_sink_unaligned\<lparr>rotate_angle_property := 1\<rparr>) sample_answers_unaligned
          GST_VIDEO_FORMAT_I420 sample_memory = Some (r, fs', calls) \<and>
        IoctlTrCommit ch info \<in> set calls) \<or>
     (\<exists>r fs' calls.
        gst_sunxifbsink_show_memory_yuv_planar_legacy sample_tr_h
          (sample_sink_unaligned\<lparr>rotate_angle_property := 1\<rparr>) sample_answers_unaligned
          (undefined :: unit disp_layer_config) GST_VIDEO_FORMAT_I420 sample_memory =
          Some (r, fs', calls) \<and>
        IoctlTrCommit ch info \<in> set calls)"
    using run c by blast
  from rotation_job_geometry [OF this] sample_unaligned_aligned [of 1]
  have "tr_mode info = TR_ROT_90 sample_tr_h \<and>
      pitch (dst_frame info) 0 = 64 \<and> height (dst_frame info) 0 = 128 \<and>
      pitch (dst_frame info) 1 = 32 \<and> height (dst_frame info) 1 = 64"
    by (simp add: sample_tr_h_def)
  with run c show "\<exists>r fs' calls ch info.
      gst_sunxifbsink_show_memory_yuv_planar_disp2 sample_tr_h
        (sample_sink_unaligned\<lparr>rotate_angle_property := 1\<rparr>) sample_answers_unaligned
        GST_VIDEO_FORMAT_I420 sample_memory = Some (r, fs', calls) \<and>
      IoctlTrCommit ch info \<in> set calls \<and> tr_mode info = TR_ROT_90 sample_tr_h \<and>
      pitch (dst_frame info) 0 = 64 \<and> height (dst_frame info) 0 = 128 \<and>
      pitch (dst_frame info) 1 = 32 \<and> height (dst_frame info) 1 = 64"
    by blast
qed

text \<open>
  The NV12 frame of 96 lines, with \<^verbatim>\<open>__SUNXI_DISPLAY2__\<close> and rotation property 2
  (\<^verbatim>\<open>TR_ROT_180\<close>): lines 586-606 never assign \<^verbatim>\<open>size[0].height\<close>, which stays the 0 of
  the \<^verbatim>\<open>memset\<close>, and the job that is committed has destination luma pitch 128 and
  destination luma height 0, not the 96 that is the 32-aligned height of the frame.
\<close>

theorem rotation_job_geometry_nv12_run:
  "gst_sunxifbsink_show_memory_yuv_planar_disp2 sample_tr_h sample_sink_nv12 sample_answers
     GST_VIDEO_FORMAT_NV12 sample_memory =
   Some (GST_FLOW_OK,
     sample_sink_nv12_allocated\<lparr>m_memory := 1, layer_is_visible := TRUE\<rparr>,
     [SunxiMemPalloc 0, SunxiMemPalloc 0,
      IoctlTrCommit 0 sample_nv12_job,
      IoctlTrQuery 0, IoctlTrQuery 0, Usleep 1000, IoctlTrQuery 0,
      DispSetLayerConfig 4 0 0
        (memory_layer_info_disp2 sample_tr_h (sample_sink_nv12_allocated\<lparr>m_memory := 1\<rparr>)
           sample_answers True sample_nv12_job
           (memory_rotated_disp2 (sample_sink_nv12_allocated\<lparr>m_memory := 1\<rparr>) sample_answers
              sample_nv12_job
              (fst (memory_planes_disp2 sample_sink_nv12 sample_answers GST_VIDEO_FORMAT_NV12
                      8388608 True)))),
      DispSetLayerEnable 4 0 0 1]) \<and>
   tr_mode sample_nv12_job = TR_ROT_180 sample_tr_h \<and>
   stride_pixels sample_sink_nv12 = 128 \<and>
   videosink_height sample_sink_nv12 = 96 \<and>
   ALIGN_32B 128 = 128 \<and> ALIGN_32B 96 = 96 \<and>
   pitch (dst_frame sample_nv12_job) 0 = 128 \<and>
   height (dst_frame sample_nv12_job) 0 = 0"
  using sample_nv12_run
  by (simp add: sample_nv12_job_fields sample_defs2 ALIGN_32B_def stride_pixels_def
      stride_divisor_def signed_divide_int_def)

subsection \<open>Plane addresses of the rotation job\<close>

lemma unat_product_exact:
  fixes p q :: "32 word"
  assumes "unat p * unat q * 5 < 2 ^ 32"
  shows "unat (p * q) = unat p * unat q \<and> unat (p * q * 5 div 4) = unat p * unat q * 5 div 4"
proof -
  from assms have 1: "unat p * unat q < 2 ^ LENGTH(32)" by simp
  then have pq: "unat (p * q) = unat p * unat q"
    by (simp only: unat_mult_lem)
  from assms pq have "unat (p * q) * unat (5 :: 32 word) < 2 ^ LENGTH(32)" by simp
  then have "unat (p * q * 5) = unat (p * q) * unat (5 :: 32 word)"
    by (simp only: unat_mult_lem)
  with pq have "unat (p * q * 5) = unat p * unat q * 5" by simp
  then have "unat (p * q * 5 div 4) = unat p * unat q * 5 div 4"
    by (simp add: unat_div)
  with pq show ?thesis by simp
qed

text \<open>
  C8. In every rotation job that \<^verbatim>\<open>show_memory_yuv_planar\<close> submits the destination
  planes lie at one base address: plane 0 at the base, plane 1 at base + pitch * height
  and plane 2 at base + pitch * height * 5 / 4, in \<^verbatim>\<open>unsigned int\<close> arithmetic, where
  pitch * height is the product of the source pitch and the source height whatever the
  mode. While pitch * height * 5 stays below \<open>2 ^ 32\<close> the offsets are the exact
  products. The source pitch is the 32-aligned plane-0 width of the frame. The source
  height is the 32-aligned height of the frame for every format but NV12 and NV21; for
  these two it is 0 with \<^verbatim>\<open>__SUNXI_DISPLAY2__\<close>, so that the three planes are at the base,
  and the 32-aligned half of the height of the frame without. \<^verbatim>\<open>ALIGN_32B\<close> of \<open>x\<close> is
  \<open>x + 31\<close> (in \<^verbatim>\<open>unsigned int\<close>) rounded down to a multiple of 32.
\<close>

theorem rotation_job_plane_addresses:
  assumes job:
    "(\<exists>r fs' calls.
        gst_sunxifbsink_show_memory_yuv_planar_disp2 K fs ans format mem = Some (r, fs', calls) \<and>
        IoctlTrCommit ch info \<in> set calls) \<or>
     (\<exists>r fs' calls.
        gst_sunxifbsink_show_memory_yuv_planar_legacy K fs ans readback format mem =
          Some (r, fs', calls) \<and>
        IoctlTrCommit ch info \<in> set calls)"
  shows
    "laddr (dst_frame info) 1 =
       laddr (dst_frame info) 0 + ucast (pitch (dst_frame info) 0 * height (dst_frame info) 0) \<and>
     laddr (dst_frame info) 2 =
       laddr (dst_frame info) 0 +
       ucast (pitch (dst_frame info) 0 * height (dst_frame info) 0 * 5 div 4) \<and>
     pitch (dst_frame info) 0 * height (dst_frame info) 0 =
       pitch (src_frame info) 0 * height (src_frame info) 0 \<and>
     pitch (src_frame info) 0 = ALIGN_32B (word_of_int (stride_pixels fs)) \<and>
     (format \<noteq> GST_VIDEO_FORMAT_NV12 \<and> format \<noteq> GST_VIDEO_FORMAT_NV21 \<longrightarrow>
        height (src_frame info) 0 = ALIGN_32B (word_of_int (videosink_height fs))) \<and>
     (unat (pitch (dst_frame info) 0) * unat (height (dst_frame info) 0) * 5 < 2 ^ 32 \<longrightarrow>
        unat (pitch (dst_frame info) 0 * height (dst_frame info) 0) =
          unat (pitch (dst_frame info) 0) * unat (height (dst_frame info) 0) \<and>
        unat (pitch (dst_frame info) 0 * height (dst_frame info) 0 * 5 div 4) =
          unat (pitch (dst_frame info) 0) * unat (height (dst_frame info) 0) * 5 div 4) \<and>
     ((\<exists>r fs' calls.
         gst_sunxifbsink_show_memory_yuv_planar_disp2 K fs ans format mem = Some (r, fs', calls) \<and>
         IoctlTrCommit ch info \<in> set calls) \<and>
      (format = GST_VIDEO_FORMAT_NV12 \<or> format = GST_VIDEO_FORMAT_NV21) \<longrightarrow>
        height (src_frame info) 0 = 0 \<and>
        laddr (dst_frame info) 1 = laddr (dst_frame info) 0 \<and>
        laddr (dst_frame info) 2 = laddr (dst_frame info) 0) \<and>
     ((\<exists>r fs' calls.
         gst_sunxifbsink_show_memory_yuv_planar_legacy K fs ans readback format mem =
           Some (r, fs', calls) \<and>
         IoctlTrCommit ch info \<in> set calls) \<and>
      (format = GST_VIDEO_FORMAT_NV12 \<or> format = GST_VIDEO_FORMAT_NV21) \<longrightarrow>
        height (src_frame info) 0 = ALIGN_32B (word_of_int (videosink_height fs sdiv 2))) \<and>
     unat (ALIGN_32B x) = (unat x + 31) mod 2 ^ 32 div 32 * 32"
proof -
  have addr: "laddr (dst_frame info) 1 =
       laddr (dst_frame info) 0 + ucast (pitch (dst_frame info) 0 * height (dst_frame info) 0) \<and>
     laddr (dst_frame info) 2 =
       laddr (dst_frame info) 0 +
       ucast (pitch (dst_frame info) 0 * height (dst_frame info) 0 * 5 div 4) \<and>
     pitch (dst_frame info) 0 * height (dst_frame info) 0 =
       pitch (src_frame info) 0 * height (src_frame info) 0"
    if "dst_frame info = rotate_dst_frame K fs1 ans (tr_mode info) (pitch (src_frame info) 0)
                           (height (src_frame info) 0)" for fs1
    using rotate_dst_frame_laddr [of K fs1 ans "tr_mode info" "pitch (src_frame info) 0"
        "height (src_frame info) 0", folded that]
    by simp
  have exact: "unat (pitch (dst_frame info) 0) * unat (height (dst_frame info) 0) * 5 < 2 ^ 32 \<longrightarrow>
        unat (pitch (dst_frame info) 0 * height (dst_frame info) 0) =
          unat (pitch (dst_frame info) 0) * unat (height (dst_frame info) 0) \<and>
        unat (pitch (dst_frame info) 0 * height (dst_frame info) 0 * 5 div 4) =
          unat (pitch (dst_frame info) 0) * unat (height (dst_frame info) 0) * 5 div 4"
    using unat_product_exact by blast
  from job have main:
    "laddr (dst_frame info) 1 =
       laddr (dst_frame info) 0 + ucast (pitch (dst_frame info) 0 * height (dst_frame info) 0) \<and>
     laddr (dst_frame info) 2 =
       laddr (dst_frame info) 0 +
       ucast (pitch (dst_frame info) 0 * height (dst_frame info) 0 * 5 div 4) \<and>
     pitch (dst_frame info) 0 * height (dst_frame info) 0 =
       pitch (src_frame info) 0 * height (src_frame info) 0 \<and>
     pitch (src_frame info) 0 = ALIGN_32B (word_of_int (stride_pixels fs)) \<and>
     (format \<noteq> GST_VIDEO_FORMAT_NV12 \<and> format \<noteq> GST_VIDEO_FORMAT_NV21 \<longrightarrow>
        height (src_frame info) 0 = ALIGN_32B (word_of_int (videosink_height fs))) \<and>
     (unat (pitch (dst_frame info) 0) * unat (height (dst_frame info) 0) * 5 < 2 ^ 32 \<longrightarrow>
        unat (pitch (dst_frame info) 0 * height (dst_frame info) 0) =
          unat (pitch (dst_frame info) 0) * unat (height (dst_frame info) 0) \<and>
        unat (pitch (dst_frame info) 0 * height (dst_frame info) 0 * 5 div 4) =
          unat (pitch (dst_frame info) 0) * unat (height (dst_frame info) 0) * 5 div 4)"
  proof (elim disjE exE conjE)
    fix r fs' calls
    assume run: "gst_sunxifbsink_show_memory_yuv_planar_disp2 K fs ans format mem = Some (r, fs', calls)"
      and c: "IoctlTrCommit ch info \<in> set (calls :: ('a word, disp2_layer_config) hw_call list)"
    define c0 where "c0 = fst (memory_planes_disp2 fs ans format (phys_addr ans (map_data mem))
                            (0 < rotate_angle_property fs))"
    from show_memory_disp2_job [OF run c] obtain fs1 where
      info: "memory_trans_info_disp2 K fs1 ans (rotate_angle_property fs) (phys_addr ans (map_data mem)) c0 = info"
      unfolding c0_def by blast
    have w: "info_fb_size_width c0 0 = word_of_int (stride_pixels fs)"
      unfolding c0_def by (rule planes_disp2_width)
    have h: "info_fb_size_height c0 0 = word_of_int (videosink_height fs)"
      if "format \<noteq> GST_VIDEO_FORMAT_NV12" "format \<noteq> GST_VIDEO_FORMAT_NV21"
      unfolding c0_def using that by (rule planes_disp2_height)
    note g = trans_info_disp2_geometry [OF info]
    from g have "dst_frame info = rotate_dst_frame K fs1 ans (tr_mode info) (pitch (src_frame info) 0)
                           (height (src_frame info) 0)" by simp
    from addr [OF this] exact g w h show ?thesis by simp
  next
    fix r fs' calls
    assume run: "gst_sunxifbsink_show_memory_yuv_planar_legacy K fs ans readback format mem = Some (r, fs', calls)"
      and c: "IoctlTrCommit ch info \<in> set (calls :: ('a word, 'b disp_layer_config) hw_call list)"
    define c0 where "c0 = memory_planes_legacy fs format (phys_addr ans (map_data mem)) readback"
    from show_memory_legacy_job [OF run c] obtain fs1 where
      info: "memory_trans_info_legacy K fs1 ans (rotate_angle_property fs) (phys_addr ans (map_data mem)) c0 = info"
      unfolding c0_def by blast
    have w: "fb_size_width c0 = word_of_int (stride_pixels fs)"
      unfolding c0_def by (rule planes_legacy_width)
    have h: "fb_size_height c0 = word_of_int (videosink_height fs)"
      if "format \<noteq> GST_VIDEO_FORMAT_NV12" "format \<noteq> GST_VIDEO_FORMAT_NV21"
      unfolding c0_def using that by (rule planes_legacy_height)
    note g = trans_info_legacy_geometry [OF info]
    from g have "dst_frame info = rotate_dst_frame K fs1 ans (tr_mode info) (pitch (src_frame info) 0)
                           (height (src_frame info) 0)" by simp
    from addr [OF this] exact g w h show ?thesis by simp
  qed
  have nv_disp2:
    "(\<exists>r fs' calls.
         gst_sunxifbsink_show_memory_yuv_planar_disp2 K fs ans format mem = Some (r, fs', calls) \<and>
         IoctlTrCommit ch info \<in> set calls) \<and>
      (format = GST_VIDEO_FORMAT_NV12 \<or> format = GST_VIDEO_FORMAT_NV21) \<longrightarrow>
        height (src_frame info) 0 = 0 \<and>
        laddr (dst_frame info) 1 = laddr (dst_frame info) 0 \<and>
        laddr (dst_frame info) 2 = laddr (dst_frame info) 0"
  proof (intro impI, elim conjE exE)
    fix r fs' calls
    assume run: "gst_sunxifbsink_show_memory_yuv_planar_disp2 K fs ans format mem = Some (r, fs', calls)"
      and c: "IoctlTrCommit ch info \<in> set (calls :: ('a word, disp2_layer_config) hw_call list)"
      and nv: "format = GST_VIDEO_FORMAT_NV12 \<or> format = GST_VIDEO_FORMAT_NV21"
    define c0 where "c0 = fst (memory_planes_disp2 fs ans format (phys_addr ans (map_data mem))
                            (0 < rotate_angle_property fs))"
    from show_memory_disp2_job [OF run c] obtain fs1 where
      info: "memory_trans_info_disp2 K fs1 ans (rotate_angle_property fs) (phys_addr ans (map_data mem)) c0 = info"
      unfolding c0_def by blast
    have hn: "info_fb_size_height c0 0 = 0"
      unfolding c0_def using nv by (rule planes_disp2_height_nv)
    note g = trans_info_disp2_geometry [OF info]
    from g hn have h0: "height (src_frame info) 0 = 0"
      by (simp add: ALIGN_32B_def)
    from g have "dst_frame info = rotate_dst_frame K fs1 ans (tr_mode info) (pitch (src_frame info) 0)
                           (height (src_frame info) 0)" by simp
    from addr [OF this] h0
    show "height (src_frame info) 0 = 0 \<and>
        laddr (dst_frame info) 1 = laddr (dst_frame info) 0 \<and>
        laddr (dst_frame info) 2 = laddr (dst_frame info) 0"
      by simp
  qed
  have nv_legacy:
    "(\<exists>r fs' calls.
         gst_sunxifbsink_show_memory_yuv_planar_legacy K fs ans readback format mem =
           Some (r, fs', calls) \<and>
         IoctlTrCommit ch info \<in> set calls) \<and>
      (format = GST_VIDEO_FORMAT_NV12 \<or> format = GST_VIDEO_FORMAT_NV21) \<longrightarrow>
        height (src_frame info) 0 = ALIGN_32B (word_of_int (videosink_height fs sdiv 2))"
  proof (intro impI, elim conjE exE)
    fix r fs' calls
    assume run: "gst_sunxifbsink_show_memory_yuv_planar_legacy K fs ans readback format mem = Some (r, fs', calls)"
      and c: "IoctlTrCommit ch info \<in> set (calls :: ('a word, 'b disp_layer_config) hw_call list)"
      and nv: "format = GST_VIDEO_FORMAT_NV12 \<or> format = GST_VIDEO_FORMAT_NV21"
    define c0 where "c0 = memory_planes_legacy fs format (phys_addr ans (map_data mem)) readback"
    from show_memory_legacy_job [OF run c] obtain fs1 where
      info: "memory_trans_info_legacy K fs1 ans (rotate_angle_property fs) (phys_addr ans (map_data mem)) c0 = info"
      unfolding c0_def by blast
    have hn: "fb_size_height c0 = word_of_int (videosink_height fs sdiv 2)"
      unfolding c0_def using nv by (rule planes_legacy_height_nv)
    from trans_info_legacy_geometry [OF info] hn
    show "height (src_frame info) 0 = ALIGN_32B (word_of_int (videosink_height fs sdiv 2))"
      by simp
  qed
  have pin: "unat (ALIGN_32B x) = (unat x + 31) mod 2 ^ 32 div 32 * 32"
    by (rule ALIGN_32B_unat)
  from main nv_disp2 nv_legacy pin show ?thesis by blast
qed

theorem rotation_job_plane_addresses_witness:
  "\<exists>r fs' calls ch info.
      gst_sunxifbsink_show_memory_yuv_planar_disp2 sample_tr_h sample_sink_unaligned sample_answers_unaligned
        GST_VIDEO_FORMAT_I420 sample_memory = Some (r, fs', calls) \<and>
      IoctlTrCommit ch info \<in> set calls \<and>
      laddr (dst_frame info) 1 = laddr (dst_frame info) 0 + 8192 \<and>
      laddr (dst_frame info) 2 = laddr (dst_frame info) 0 + 10240"
proof -
  from sample_unaligned_run_disp2 [of 2] obtain r fs' calls ch info where
    run: "gst_sunxifbsink_show_memory_yuv_planar_disp2 sample_tr_h
       (sample_sink_unaligned\<lparr>rotate_angle_property := 2\<rparr>) sample_answers_unaligned
       GST_VIDEO_FORMAT_I420 sample_memory = Some (r, fs', calls)"
    and c: "IoctlTrCommit ch info \<in> set calls"
    by auto
  have s: "sample_sink_unaligned\<lparr>rotate_angle_property := 2\<rparr> = sample_sink_unaligned"
    by (simp add: sample_defs2)
  have "(\<exists>r fs' calls.
        gst_sunxifbsink_show_memory_yuv_planar_disp2 sample_tr_h
          (sample_sink_unaligned\<lparr>rotate_angle_property := 2\<rparr>) sample_answers_unaligned
          GST_VIDEO_FORMAT_I420 sample_memory = Some (r, fs', calls) \<and>
        IoctlTrCommit ch info \<in> set calls) \<or>
     (\<exists>r fs' calls.
        gst_sunxifbsink_show_memory_yuv_planar_legacy sample_tr_h
          (sample_sink_unaligned\<lparr>rotate_angle_property := 2\<rparr>) sample_answers_unaligned
          (undefined :: unit disp_layer_config) GST_VIDEO_FORMAT_I420 sample_memory =
          Some (r, fs', calls) \<and>
        IoctlTrCommit ch info \<in> set calls)"
    using run c by blast
  from rotation_job_plane_addresses [OF this] sample_unaligned_aligned [of 2]
  have "laddr (dst_frame info) 1 = laddr (dst_frame info) 0 + 8192 \<and>
      laddr (dst_frame info) 2 = laddr (dst_frame info) 0 + 10240"
    by simp
  with run c show ?thesis
    unfolding s by blast
qed

text \<open>
  The NV12 frame of 96 lines again (\<^verbatim>\<open>__SUNXI_DISPLAY2__\<close>, rotation property 2): with
  \<^verbatim>\<open>size[0].height\<close> left 0, pitch * height is 0 and not 128 * 96, and the three
  destination planes of the committed job are at one address.
\<close>

theorem rotation_job_plane_addresses_nv12_run:
  "gst_sunxifbsink_show_memory_yuv_planar_disp2 sample_tr_h sample_sink_nv12 sample_answers
     GST_VIDEO_FORMAT_NV12 sample_memory =
   Some (GST_FLOW_OK,
     sample_sink_nv12_allocated\<lparr>m_memory := 1, layer_is_visible := TRUE\<rparr>,
     [SunxiMemPalloc 0, SunxiMemPalloc 0,
      IoctlTrCommit 0 sample_nv12_job,
      IoctlTrQuery 0, IoctlTrQuery 0, Usleep 1000, IoctlTrQuery 0,
      DispSetLayerConfig 4 0 0
        (memory_layer_info_disp2 sample_tr_h (sample_sink_nv12_allocated\<lparr>m_memory := 1\<rparr>)
           sample_answers True sample_nv12_job
           (memory_rotated_disp2 (sample_sink_nv12_allocated\<lparr>m_memory := 1\<rparr>) sample_answers
              sample_nv12_job
              (fst (memory_planes_disp2 sample_sink_nv12 sample_answers GST_VIDEO_FORMAT_NV12
                      8388608 True)))),
      DispSetLayerEnable 4 0 0 1]) \<and>
   stride_pixels sample_sink_nv12 = 128 \<and>
   videosink_height sample_sink_nv12 = 96 \<and>
   ALIGN_32B 128 * ALIGN_32B 96 = 12288 \<and>
   pitch (dst_frame sample_nv12_job) 0 * height (dst_frame sample_nv12_job) 0 = 0 \<and>
   laddr (dst_frame sample_nv12_job) 0 = 33554432 \<and>
   laddr (dst_frame sample_nv12_job) 1 = 33554432 \<and>
   laddr (dst_frame sample_nv12_job) 2 = 33554432"
  using sample_nv12_run
  by (simp add: sample_nv12_job_fields sample_defs2 ALIGN_32B_def stride_pixels_def
      stride_divisor_def signed_divide_int_def)

subsection \<open>Alternation of the rotation buffers\<close>

lemma rotate_branch_no_job:
  assumes run: "rotate_branch job config fs ans wa ha = Some (r, fs', calls)"
    and fd: "0 < fd_transform fs"
    and none: "\<forall>ch info. IoctlTrCommit ch info \<notin> set calls"
  shows "m_memory fs' = m_memory fs"
  using rotate_branch_cases [OF run]
proof (elim disjE exE conjE)
  fix fs1
  assume al: "rotate_buffers_alloc fs ans wa ha = Inl (fs1, calls)" and "fs' = fs1"
  from alloc_Inl [OF al] have "fs1 = fs\<lparr>rotate_addr_phy := rotate_addr_phy fs1\<rparr>" by simp
  then have "m_memory fs1 = m_memory fs" by (rule ssubst) simp
  with \<open>fs' = fs1\<close> show ?thesis by simp
next
  fix fs1 :: "'a word sunxifbsink" and calls0 tr_calls :: "('a word, 'b) hw_call list"
  let ?fs2 = "fs1\<lparr>m_memory := m_memory fs1 + 1\<rparr>"
  assume tr: "if 0 < fd_transform fs
             then \<exists>rr. hwRotateVideoPicture ?fs2 (job fs1) (tr_answers ans) = Some (rr, tr_calls)
             else tr_calls = []"
    and fin: "set_layer_config_and_show ?fs2 ans (config ?fs2 (job fs1)) (calls0 @ tr_calls)
              = Some (r, fs', calls)"
  from tr fd obtain rr where "hwRotateVideoPicture ?fs2 (job fs1) (tr_answers ans) = Some (rr, tr_calls)"
    by auto
  from hw_setup_first_call [OF this [unfolded hwRotateVideoPicture_def]]
  have "IoctlTrCommit (transform_channel ?fs2) (job fs1) \<in> set tr_calls" .
  with commit_show_calls [OF fin] none show ?thesis by auto
qed

lemma rotate_branch_submits:
  assumes run: "rotate_branch job config fs ans wa ha = Some (r, fs', calls)"
    and fd: "0 < fd_transform fs"
    and c: "DispSetLayerConfig a b n cfg \<in> set calls"
  shows "IoctlTrCommit (transform_channel fs) (job (fs\<lparr>rotate_addr_phy := rotate_addr_phy fs'\<rparr>))
           \<in> set calls"
  using rotate_branch_cases [OF run]
proof (elim disjE exE conjE)
  fix fs1
  assume "rotate_buffers_alloc fs ans wa ha = Inl (fs1, calls)"
  from alloc_Inl [OF this] c show ?thesis by auto
next
  fix fs1 :: "'a word sunxifbsink" and calls0 tr_calls :: "('a word, 'b) hw_call list"
  let ?fs2 = "fs1\<lparr>m_memory := m_memory fs1 + 1\<rparr>"
  assume al: "rotate_buffers_alloc fs ans wa ha = Inr (fs1, calls0)"
    and tr: "if 0 < fd_transform fs
             then \<exists>rr. hwRotateVideoPicture ?fs2 (job fs1) (tr_answers ans) = Some (rr, tr_calls)
             else tr_calls = []"
    and fin: "set_layer_config_and_show ?fs2 ans (config ?fs2 (job fs1)) (calls0 @ tr_calls)
              = Some (r, fs', calls)"
  from tr fd obtain rr where "hwRotateVideoPicture ?fs2 (job fs1) (tr_answers ans) = Some (rr, tr_calls)"
    by auto
  from hw_setup_first_call [OF this [unfolded hwRotateVideoPicture_def]]
  have "IoctlTrCommit (transform_channel ?fs2) (job fs1) \<in> set tr_calls" .
  with commit_show_calls [OF fin] have in_calls: "IoctlTrCommit (transform_channel ?fs2) (job fs1) \<in> set calls"
    by auto
  from rotate_branch_job [OF run in_calls]
  have "job fs1 = job (fs\<lparr>rotate_addr_phy := rotate_addr_phy fs'\<rparr>)"
    "transform_channel ?fs2 = transform_channel fs" by auto
  with in_calls show ?thesis by simp
qed

lemma show_memory_disp2_no_job:
  assumes run: "gst_sunxifbsink_show_memory_yuv_planar_disp2 K fs ans format mem = Some (r, fs', calls)"
    and fd: "0 < fd_transform fs"
    and none: "\<forall>ch info. IoctlTrCommit ch info \<notin> set calls"
  shows "m_memory fs' = m_memory fs"
proof (cases "stride_divisor fs \<noteq> 0 \<and> snd (memory_planes_disp2 fs ans format (phys_addr ans (map_data mem))
                     (0 < rotate_angle_property fs))")
  case True
  with run show ?thesis
    unfolding show_memory_disp2_shape
    using rotate_branch_no_job [OF _ fd none] by simp
next
  case False
  with run have "set_layer_config_and_show fs ans
             (memory_layer_info_disp2 K fs ans False tr_info_zero
                (fst (memory_planes_disp2 fs ans format (phys_addr ans (map_data mem))
                        (0 < rotate_angle_property fs)))) [] = Some (r, fs', calls)"
    unfolding show_memory_disp2_shape by (simp split: if_splits)
  from commit_show_calls [OF this] show ?thesis by auto
qed

lemma show_memory_legacy_no_job:
  assumes run: "gst_sunxifbsink_show_memory_yuv_planar_legacy K fs ans readback format mem = Some (r, fs', calls)"
    and fd: "0 < fd_transform fs"
    and none: "\<forall>ch info. IoctlTrCommit ch info \<notin> set calls"
  shows "m_memory fs' = m_memory fs"
proof (cases "stride_divisor fs \<noteq> 0 \<and> 0 < rotate_angle_property fs")
  case True
  with run show ?thesis
    unfolding show_memory_legacy_shape
    using rotate_branch_no_job [OF _ fd none] by simp
next
  case False
  with run have "set_layer_config_and_show fs ans
             (layer_info_legacy fs
                (memory_planes_legacy fs format (phys_addr ans (map_data mem)) readback)) []
              = Some (r, fs', calls)"
    unfolding show_memory_legacy_shape by (simp split: if_splits)
  from commit_show_calls [OF this] show ?thesis by auto
qed









subsection \<open>The committed addresses after a rotation\<close>

lemma planes_disp2_rotate:
  "snd (memory_planes_disp2 fs ans format p re) = (re \<and> format \<noteq> GST_VIDEO_FORMAT_Y444)"
  by (simp add: memory_planes_disp2_def Let_def)

lemma layer_info_disp2_addr:
  "info_fb_addr (memory_layer_info_disp2 K fs ans re ti c) = info_fb_addr c"
  by (simp add: memory_layer_info_disp2_def Let_def)

lemma layer_info_legacy_addr:
  "fb_addr (layer_info_legacy fs c) = fb_addr c"
  by (simp add: layer_info_legacy_def)

lemma rotated_disp2_addr:
  "info_fb_addr (memory_rotated_disp2 fs ans ti c) 0 = ptr_to_ull ans (phys_addr ans (rotate_addr_phy fs 0)) \<and>
   info_fb_addr (memory_rotated_disp2 fs ans ti c) 1 = ucast (laddr (dst_frame ti) 1) \<and>
   info_fb_addr (memory_rotated_disp2 fs ans ti c) 2 = ucast (laddr (dst_frame ti) 2)"
  by (simp add: memory_rotated_disp2_def)

lemma rotated_legacy_addr:
  "fb_addr (memory_rotated_legacy fs ans ti c) 0 = ucast (phys_addr ans (rotate_addr_phy fs 0)) \<and>
   fb_addr (memory_rotated_legacy fs ans ti c) 1 = ucast (laddr (dst_frame ti) 1) \<and>
   fb_addr (memory_rotated_legacy fs ans ti c) 2 = ucast (laddr (dst_frame ti) 2)"
  by (simp add: memory_rotated_legacy_def)

lemma show_memory_disp2_rotated_config:
  assumes run: "gst_sunxifbsink_show_memory_yuv_planar_disp2 K fs ans format mem = Some (r, fs', calls)"
    and c: "DispSetLayerConfig a b n cfg \<in> set calls"
    and rot: "0 < rotate_angle_property fs" "format \<noteq> GST_VIDEO_FORMAT_Y444"
  shows "\<exists>info.
     info_fb_addr cfg 0 = ptr_to_ull ans (phys_addr ans (rotate_addr_phy fs' 0)) \<and>
     info_fb_addr cfg 1 = ucast (laddr (dst_frame info) 1) \<and>
     info_fb_addr cfg 2 = ucast (laddr (dst_frame info) 2) \<and>
     laddr (dst_frame info) 0 = phys_addr ans (rotate_addr_phy fs' ((m_memory fs + 1) smod 2)) \<and>
     laddr (dst_frame info) 1 =
       laddr (dst_frame info) 0 + ucast (pitch (dst_frame info) 0 * height (dst_frame info) 0) \<and>
     laddr (dst_frame info) 2 =
       laddr (dst_frame info) 0 +
       ucast (pitch (dst_frame info) 0 * height (dst_frame info) 0 * 5 div 4) \<and>
     (0 < fd_transform fs \<longrightarrow> IoctlTrCommit (transform_channel fs) info \<in> set calls)"
proof -
  define c0 where "c0 = fst (memory_planes_disp2 fs ans format (phys_addr ans (map_data mem))
                            (0 < rotate_angle_property fs))"
  define fs1 where "fs1 = fs\<lparr>rotate_addr_phy := rotate_addr_phy fs'\<rparr>"
  define fs2 where "fs2 = fs\<lparr>rotate_addr_phy := rotate_addr_phy fs', m_memory := m_memory fs + 1\<rparr>"
  define info where "info = memory_trans_info_disp2 K fs1 ans (rotate_angle_property fs)
                      (phys_addr ans (map_data mem)) c0"
  from run have nz: "stride_divisor fs \<noteq> 0"
    by (auto simp: gst_sunxifbsink_show_memory_yuv_planar_disp2_def)
  from run nz rot have rb: "rotate_branch
             (\<lambda>fs1. memory_trans_info_disp2 K fs1 ans (rotate_angle_property fs)
                      (phys_addr ans (map_data mem)) c0)
             (\<lambda>fs2 ti. memory_layer_info_disp2 K fs2 ans True ti
                (memory_rotated_disp2 fs2 ans ti c0))
             fs ans
             (ALIGN_32B (info_fb_size_width c0 0))
             (ALIGN_32B (info_fb_size_height c0 0)) = Some (r, fs', calls)"
    unfolding show_memory_disp2_shape c0_def by (simp add: planes_disp2_rotate)
  from rotate_branch_config [OF rb c]
  have cfg: "cfg = memory_layer_info_disp2 K fs2 ans True info (memory_rotated_disp2 fs2 ans info c0)"
    by (simp add: fs1_def fs2_def info_def)
  have sub: "0 < fd_transform fs \<longrightarrow> IoctlTrCommit (transform_channel fs) info \<in> set calls"
    using rotate_branch_submits [OF rb _ c] by (simp add: info_def fs1_def)
  have rot2: "rotate_addr_phy fs2 0 = rotate_addr_phy fs' 0" by (simp add: fs2_def)
  have g: "dst_frame info = rotate_dst_frame K fs1 ans (tr_mode info) (pitch (src_frame info) 0)
                           (height (src_frame info) 0)"
    using trans_info_disp2_geometry [OF info_def [symmetric]] by simp
  have l: "laddr (dst_frame info) 0 = phys_addr ans (rotate_addr_phy fs' ((m_memory fs + 1) smod 2)) \<and>
     laddr (dst_frame info) 1 =
       laddr (dst_frame info) 0 + ucast (pitch (dst_frame info) 0 * height (dst_frame info) 0) \<and>
     laddr (dst_frame info) 2 =
       laddr (dst_frame info) 0 +
       ucast (pitch (dst_frame info) 0 * height (dst_frame info) 0 * 5 div 4)"
    using rotate_dst_frame_laddr [of K fs1 ans "tr_mode info" "pitch (src_frame info) 0"
        "height (src_frame info) 0", folded g]
    by (simp add: fs1_def)
  from cfg rotated_disp2_addr [of fs2 ans info c0] rot2
  have a: "info_fb_addr cfg 0 = ptr_to_ull ans (phys_addr ans (rotate_addr_phy fs' 0)) \<and>
     info_fb_addr cfg 1 = ucast (laddr (dst_frame info) 1) \<and>
     info_fb_addr cfg 2 = ucast (laddr (dst_frame info) 2)"
    by (simp add: layer_info_disp2_addr)
  from a l sub show ?thesis by blast
qed

lemma show_memory_legacy_rotated_config:
  assumes run: "gst_sunxifbsink_show_memory_yuv_planar_legacy K fs ans readback format mem = Some (r, fs', calls)"
    and c: "DispSetLayerConfig a b n cfg \<in> set calls"
    and rot: "0 < rotate_angle_property fs"
  shows "\<exists>info.
     fb_addr cfg 0 = ucast (phys_addr ans (rotate_addr_phy fs' 0)) \<and>
     fb_addr cfg 1 = ucast (laddr (dst_frame info) 1) \<and>
     fb_addr cfg 2 = ucast (laddr (dst_frame info) 2) \<and>
     laddr (dst_frame info) 0 = phys_addr ans (rotate_addr_phy fs' ((m_memory fs + 1) smod 2)) \<and>
     laddr (dst_frame info) 1 =
       laddr (dst_frame info) 0 + ucast (pitch (dst_frame info) 0 * height (dst_frame info) 0) \<and>
     laddr (dst_frame info) 2 =
       laddr (dst_frame info) 0 +
       ucast (pitch (dst_frame info) 0 * height (dst_frame info) 0 * 5 div 4) \<and>
     (0 < fd_transform fs \<longrightarrow> IoctlTrCommit (transform_channel fs) info \<in> set calls)"
proof -
  define c0 where "c0 = memory_planes_legacy fs format (phys_addr ans (map_data mem)) readback"
  define fs1 where "fs1 = fs\<lparr>rotate_addr_phy := rotate_addr_phy fs'\<rparr>"
  define fs2 where "fs2 = fs\<lparr>rotate_addr_phy := rotate_addr_phy fs', m_memory := m_memory fs + 1\<rparr>"
  define info where "info = memory_trans_info_legacy K fs1 ans (rotate_angle_property fs)
                      (phys_addr ans (map_data mem)) c0"
  from run have nz: "stride_divisor fs \<noteq> 0"
    by (auto simp: gst_sunxifbsink_show_memory_yuv_planar_legacy_def)
  from run nz rot have rb: "rotate_branch
             (\<lambda>fs1. memory_trans_info_legacy K fs1 ans (rotate_angle_property fs)
                      (phys_addr ans (map_data mem)) c0)
             (\<lambda>fs2 ti. layer_info_legacy fs2 (memory_rotated_legacy fs2 ans ti c0))
             fs ans
             (ALIGN_32B (fb_size_width c0))
             (ALIGN_32B (fb_size_height c0)) = Some (r, fs', calls)"
    unfolding show_memory_legacy_shape c0_def by simp
  from rotate_branch_config [OF rb c]
  have cfg: "cfg = layer_info_legacy fs2 (memory_rotated_legacy fs2 ans info c0)"
    by (simp add: fs1_def fs2_def info_def)
  have sub: "0 < fd_transform fs \<longrightarrow> IoctlTrCommit (transform_channel fs) info \<in> set calls"
    using rotate_branch_submits [OF rb _ c] by (simp add: info_def fs1_def)
  have rot2: "rotate_addr_phy fs2 0 = rotate_addr_phy fs' 0" by (simp add: fs2_def)
  have g: "dst_frame info = rotate_dst_frame K fs1 ans (tr_mode info) (pitch (src_frame info) 0)
                           (height (src_frame info) 0)"
    using trans_info_legacy_geometry [OF info_def [symmetric]] by simp
  have l: "laddr (dst_frame info) 0 = phys_addr ans (rotate_addr_phy fs' ((m_memory fs + 1) smod 2)) \<and>
     laddr (dst_frame info) 1 =
       laddr (dst_frame info) 0 + ucast (pitch (dst_frame info) 0 * height (dst_frame info) 0) \<and>
     laddr (dst_frame info) 2 =
       laddr (dst_frame info) 0 +
       ucast (pitch (dst_frame info) 0 * height (dst_frame info) 0 * 5 div 4)"
    using rotate_dst_frame_laddr [of K fs1 ans "tr_mode info" "pitch (src_frame info) 0"
        "height (src_frame info) 0", folded g]
    by (simp add: fs1_def)
  from cfg rotated_legacy_addr [of fs2 ans info c0] rot2
  have a: "fb_addr cfg 0 = ucast (phys_addr ans (rotate_addr_phy fs' 0)) \<and>
     fb_addr cfg 1 = ucast (laddr (dst_frame info) 1) \<and>
     fb_addr cfg 2 = ucast (laddr (dst_frame info) 2)"
    by (simp add: layer_info_legacy_addr)
  from a l sub show ?thesis by blast
qed


lemma overlay_planes_disp2_luma:
  "info_fb_addr (overlay_planes_disp2 fs off format) 0 = ucast off"
  by (simp add: overlay_planes_disp2_def Let_def)

lemma overlay_planes_legacy_luma:
  "fb_addr (overlay_planes_legacy fs off format c) 0 = ucast off"
  by (simp add: overlay_planes_legacy_def Let_def)

lemma show_overlay_yuv_planar_legacy_luma:
  assumes run: "gst_sunxifbsink_show_overlay_yuv_planar_legacy fs ans readback off format
                  = Some (r, fs', calls)"
    and c: "DispSetLayerConfig a b n cfg \<in> set calls"
  shows "fb_addr cfg 0 = ucast off"
proof -
  from run have "set_layer_config_and_show fs ans
             (layer_info_legacy fs (overlay_planes_legacy fs off format readback)) []
          = Some (r, fs', calls)"
    by (simp add: gst_sunxifbsink_show_overlay_yuv_planar_legacy_def split: if_splits)
  from commit_show_config [OF this c] show ?thesis
    by (simp add: layer_info_legacy_addr overlay_planes_legacy_luma)
qed

lemma show_overlay_yuv_planar_disp2_luma:
  assumes run: "gst_sunxifbsink_show_overlay_yuv_planar_disp2 g2d fs ans off format = Some (r, fs', calls)"
    and c: "DispSetLayerConfig a b n cfg \<in> set calls"
  shows "info_fb_addr cfg 0 =
           (if g2d \<and> 0 < rotate_angle_property fs
            then ucast (phys_addr ans (rotate_addr_phy fs' ((m_overlay fs + 1) smod 2)))
            else ucast off)"
proof -
  from run have nz: "stride_divisor fs \<noteq> 0"
    by (auto simp: gst_sunxifbsink_show_overlay_yuv_planar_disp2_def)
  define c0 where "c0 = overlay_planes_disp2 fs off format"
  show ?thesis
  proof (cases "g2d \<and> 0 < rotate_angle_property fs")
    case False
    with run nz have "set_layer_config_and_show fs ans (overlay_layer_info_disp2 fs False c0) []
        = Some (r, fs', calls)"
      by (auto simp: gst_sunxifbsink_show_overlay_yuv_planar_disp2_def Let_def c0_def)
    from commit_show_config [OF this c] False show ?thesis
      by (auto simp: overlay_layer_info_disp2_def c0_def overlay_planes_disp2_luma)
  next
    case True
    show ?thesis
    proof (cases "rotate_buffers_alloc fs ans (ALIGN_32B (info_fb_size_width c0 0))
                      (ALIGN_32B (info_fb_size_height c0 0)) ::
                   ('a word sunxifbsink \<times> ('a word, disp2_layer_config) hw_call list) + _")
      case (Inl p)
      obtain fs1 calls0 where p: "p = (fs1, calls0)" by (cases p)
      with run nz True Inl have "calls = calls0"
        by (simp add: gst_sunxifbsink_show_overlay_yuv_planar_disp2_def Let_def c0_def)
      moreover from Inl p have "rotate_buffers_alloc fs ans (ALIGN_32B (info_fb_size_width c0 0))
          (ALIGN_32B (info_fb_size_height c0 0)) = Inl (fs1, calls0)" by simp
      from alloc_Inl [OF this]
      have "\<forall>c \<in> set calls0. (\<exists>n. c = SunxiMemPalloc n) \<or> (\<exists>p. c = SunxiMemPfree p)"
        by simp
      ultimately show ?thesis using c by auto
    next
      case (Inr p)
      obtain fs1 calls0 where p: "p = (fs1, calls0)" by (cases p)
      from Inr p have "rotate_buffers_alloc fs ans (ALIGN_32B (info_fb_size_width c0 0))
          (ALIGN_32B (info_fb_size_height c0 0)) = Inr (fs1, calls0)" by simp
      from alloc_Inr [OF this]
      have fs1: "fs1 = fs\<lparr>rotate_addr_phy := rotate_addr_phy fs1\<rparr>"
        and calls0: "\<forall>c \<in> set calls0. \<exists>n. c = SunxiMemPalloc n" by simp_all
      have m1: "m_overlay fs1 = m_overlay fs" by (subst fs1) simp
      show ?thesis
      proof (cases "format \<noteq> GST_VIDEO_FORMAT_YV12 \<and> format \<noteq> GST_VIDEO_FORMAT_NV21")
        case True
        with run nz \<open>g2d \<and> 0 < rotate_angle_property fs\<close> Inr p have "calls = calls0"
          by (simp add: gst_sunxifbsink_show_overlay_yuv_planar_disp2_def Let_def c0_def)
        with calls0 c show ?thesis by auto
      next
        case fmt: False
        let ?blit = "overlay_blit fs1 ans format c0"
        let ?fs2 = "fs1\<lparr>m_overlay := m_overlay fs1 + 1\<rparr>"
        let ?calls2 = "calls0 @ [IoctlG2dBitblt (fd_g2d fs1) ?blit]"
        let ?turned = "flag_h ?blit = Some G2D_ROT_90 \<or> flag_h ?blit = Some G2D_ROT_270"
        let ?fs3 = "overlay_recentre ?fs2 ans ?turned ?blit"
        show ?thesis
        proof (cases "g2d_bitblt_result ans < 0")
          case True
          with fmt run nz \<open>g2d \<and> 0 < rotate_angle_property fs\<close> Inr p have "calls = ?calls2"
            by (auto simp: gst_sunxifbsink_show_overlay_yuv_planar_disp2_def Let_def c0_def)
          with calls0 c show ?thesis by auto
        next
          case False
          from fmt have "format = GST_VIDEO_FORMAT_YV12 \<or> format = GST_VIDEO_FORMAT_NV21"
            by simp
          from this run nz \<open>g2d \<and> 0 < rotate_angle_property fs\<close> Inr p False
          have fin: "set_layer_config_and_show ?fs3 ans
                  (overlay_layer_info_disp2 ?fs3 ?turned (overlay_rotated_disp2 ?blit c0)) ?calls2
                 = Some (r, fs', calls)"
            by (elim disjE)
              (simp_all add: gst_sunxifbsink_show_overlay_yuv_planar_disp2_def Let_def c0_def)
          have no_cfg: "\<forall>a b n c. DispSetLayerConfig a b n c \<notin> set ?calls2"
            using calls0 by auto
          from commit_show_config [OF fin c no_cfg]
          have cfg: "info_fb_addr cfg 0 = ucast (g2d_laddr (dst_image_h ?blit) 0)"
            by (simp add: overlay_layer_info_disp2_def overlay_rotated_disp2_def)
          have blit: "g2d_laddr (dst_image_h ?blit) 0 =
                        phys_addr ans (rotate_addr_phy fs1 ((m_overlay fs1 + 1) smod 2))"
            by (simp add: overlay_blit_def Let_def)
          from commit_show_calls [OF fin]
          have "fs' = ?fs3 \<or> fs' = ?fs3\<lparr>layer_is_visible := TRUE\<rparr>" by blast
          then have "rotate_addr_phy fs' = rotate_addr_phy fs1"
            by (auto simp: overlay_recentre_def)
          with cfg blit m1 \<open>g2d \<and> 0 < rotate_angle_property fs\<close> show ?thesis by simp
        qed
      qed
    qed
  qed
qed

lemma sample_yv12_run:
  "gst_sunxifbsink_show_overlay_yuv_planar_disp2 True sample_sink_yv12 sample_answers 8388608
     GST_VIDEO_FORMAT_YV12 =
   Some (GST_FLOW_OK,
     sample_sink_yv12_allocated\<lparr>m_overlay := 1, layer_is_visible := TRUE\<rparr>,
     [SunxiMemPalloc 18432, SunxiMemPalloc 18432,
      IoctlG2dBitblt 6 sample_yv12_blit,
      DispSetLayerConfig 4 0 0
        (overlay_layer_info_disp2 (sample_sink_yv12_allocated\<lparr>m_overlay := 1\<rparr>) False
           (overlay_rotated_disp2 sample_yv12_blit
              (overlay_planes_disp2 sample_sink_yv12 8388608 GST_VIDEO_FORMAT_YV12))),
      DispSetLayerEnable 4 0 0 1])"
  by (simp add: gst_sunxifbsink_show_overlay_yuv_planar_disp2_def rotate_buffers_alloc_def
      sample_defs2 sample_yv12_blit_def stride_divisor_def stride_pixels_def
      overlay_planes_disp2_def overlay_blit_def overlay_recentre_def g2d_flag_of_degree_def
      Let_def set_layer_config_and_show_def gst_sunxifbsink_show_layer_def
      signed_divide_int_def ALIGN_32B_def disp2_layer_config_zero_def TRUE_def FALSE_def)

lemma sample_first_run_config:
  "\<exists>calls.
     gst_sunxifbsink_show_memory_yuv_planar_disp2 sample_tr_h sample_sink sample_answers
       GST_VIDEO_FORMAT_I420 sample_memory =
       Some (GST_FLOW_OK,
             sample_sink\<lparr>rotate_addr_phy := (\<lambda>i. 0)(0 := 16777216, 1 := 33554432),
                          m_memory := 1, layer_is_visible := TRUE\<rparr>, calls) \<and>
     (\<exists>a b n cfg. DispSetLayerConfig a b n cfg \<in> set calls)"
  by (simp add: show_memory_disp2_shape rotate_branch_def rotate_buffers_alloc_def
      sample_defs stride_divisor_def memory_planes_disp2_def Let_def
      hwRotateVideoPicture_def set_layer_config_and_show_def gst_sunxifbsink_show_layer_def
      signed_divide_int_def)

text \<open>
  \<^verbatim>\<open>show_overlay_yuv_planar\<close> with \<^verbatim>\<open>__SUNXI_DISPLAY2__\<close> and \<^verbatim>\<open>__SUNXI_G2D_ROTATE__\<close>, the
  YV12 frame and rotation property 2: the two buffers are allocated at 16777216 and
  33554432, the counter \<^verbatim>\<open>m\<close> becomes 1, the blit goes to slot 1 and line 1196 commits
  the luma address 33554432 of slot 1, not the physical address 16777216 of
  \<^verbatim>\<open>rotate_addr_phy[0]\<close>.
\<close>

theorem show_overlay_yuv_planar_luma_counterexample:
  "gst_sunxifbsink_show_overlay_yuv_planar_disp2 True sample_sink_yv12 sample_answers 8388608
     GST_VIDEO_FORMAT_YV12 =
   Some (GST_FLOW_OK,
     sample_sink_yv12_allocated\<lparr>m_overlay := 1, layer_is_visible := TRUE\<rparr>,
     [SunxiMemPalloc 18432, SunxiMemPalloc 18432,
      IoctlG2dBitblt 6 sample_yv12_blit,
      DispSetLayerConfig 4 0 0
        (overlay_layer_info_disp2 (sample_sink_yv12_allocated\<lparr>m_overlay := 1\<rparr>) False
           (overlay_rotated_disp2 sample_yv12_blit
              (overlay_planes_disp2 sample_sink_yv12 8388608 GST_VIDEO_FORMAT_YV12))),
      DispSetLayerEnable 4 0 0 1]) \<and>
   0 < rotate_angle_property sample_sink_yv12 \<and>
   info_fb_addr
     (overlay_layer_info_disp2 (sample_sink_yv12_allocated\<lparr>m_overlay := 1\<rparr>) False
        (overlay_rotated_disp2 sample_yv12_blit
           (overlay_planes_disp2 sample_sink_yv12 8388608 GST_VIDEO_FORMAT_YV12))) 0 =
     33554432 \<and>
   ptr_to_ull sample_answers
     (phys_addr sample_answers
        (rotate_addr_phy
           (sample_sink_yv12_allocated\<lparr>m_overlay := 1, layer_is_visible := TRUE\<rparr>) 0)) =
     16777216"
  using sample_yv12_run
  by (simp add: overlay_layer_info_disp2_def overlay_rotated_disp2_def sample_yv12_blit_def
      overlay_blit_def Let_def sample_defs2 signed_modulo_int_def)

text \<open>
  C9, as the code has it. In both builds of \<^verbatim>\<open>show_memory_yuv_planar\<close>, whenever the
  rotation branch runs (the rotation property is positive and, with
  \<^verbatim>\<open>__SUNXI_DISPLAY2__\<close>, the format is not Y444), the committed configuration has the
  physical address of \<^verbatim>\<open>rotate_addr_phy[0]\<close> as its plane-0 address, while its plane-1
  and plane-2 addresses are those of the job's destination frame, whose base is the
  physical address of the slot that the parity of \<^verbatim>\<open>m\<close> selects. So when the parity
  selects slot 1 the luma address lies in slot 0 and the chroma addresses in slot 1.
  \<^verbatim>\<open>show_overlay_yuv_planar\<close> commits another plane-0 address: with
  \<^verbatim>\<open>__SUNXI_G2D_ROTATE__\<close> and a positive rotation property the physical address of the
  slot that the parity of its own counter \<^verbatim>\<open>m\<close> selects, and otherwise, as in the build
  without \<^verbatim>\<open>__SUNXI_DISPLAY2__\<close>, \<^verbatim>\<open>framebuffer_offset\<close>.
\<close>

theorem rotated_config_luma_slot_0:
  "(gst_sunxifbsink_show_memory_yuv_planar_disp2 K fs ans format mem = Some (r, fs', calls) \<and>
    DispSetLayerConfig a b n cfg \<in> set calls \<and>
    0 < rotate_angle_property fs \<and> format \<noteq> GST_VIDEO_FORMAT_Y444 \<longrightarrow>
      (\<exists>info.
         info_fb_addr cfg 0 = ptr_to_ull ans (phys_addr ans (rotate_addr_phy fs' 0)) \<and>
         info_fb_addr cfg 1 = ucast (laddr (dst_frame info) 1) \<and>
         info_fb_addr cfg 2 = ucast (laddr (dst_frame info) 2) \<and>
         laddr (dst_frame info) 0 =
           phys_addr ans (rotate_addr_phy fs' ((m_memory fs + 1) smod 2)) \<and>
         laddr (dst_frame info) 1 =
           laddr (dst_frame info) 0 +
           ucast (pitch (dst_frame info) 0 * height (dst_frame info) 0) \<and>
         laddr (dst_frame info) 2 =
           laddr (dst_frame info) 0 +
           ucast (pitch (dst_frame info) 0 * height (dst_frame info) 0 * 5 div 4) \<and>
         (0 < fd_transform fs \<longrightarrow> IoctlTrCommit (transform_channel fs) info \<in> set calls))) \<and>
   (gst_sunxifbsink_show_memory_yuv_planar_legacy K fs ans readback format mem =
      Some (r', fs'', calls') \<and>
    DispSetLayerConfig a' b' n' cfg' \<in> set calls' \<and> 0 < rotate_angle_property fs \<longrightarrow>
      (\<exists>info.
         fb_addr cfg' 0 = ucast (phys_addr ans (rotate_addr_phy fs'' 0)) \<and>
         fb_addr cfg' 1 = ucast (laddr (dst_frame info) 1) \<and>
         fb_addr cfg' 2 = ucast (laddr (dst_frame info) 2) \<and>
         laddr (dst_frame info) 0 =
           phys_addr ans (rotate_addr_phy fs'' ((m_memory fs + 1) smod 2)) \<and>
         laddr (dst_frame info) 1 =
           laddr (dst_frame info) 0 +
           ucast (pitch (dst_frame info) 0 * height (dst_frame info) 0) \<and>
         laddr (dst_frame info) 2 =
           laddr (dst_frame info) 0 +
           ucast (pitch (dst_frame info) 0 * height (dst_frame info) 0 * 5 div 4) \<and>
         (0 < fd_transform fs \<longrightarrow> IoctlTrCommit (transform_channel fs) info \<in> set calls'))) \<and>
   (gst_sunxifbsink_show_overlay_yuv_planar_disp2 g2d_rotate fs ans off format =
      Some (r2, fs2, calls2) \<and>
    DispSetLayerConfig a2 b2 n2 cfg2 \<in> set calls2 \<longrightarrow>
      info_fb_addr cfg2 0 =
        (if g2d_rotate \<and> 0 < rotate_angle_property fs
         then ucast (phys_addr ans (rotate_addr_phy fs2 ((m_overlay fs + 1) smod 2)))
         else ucast off)) \<and>
   (gst_sunxifbsink_show_overlay_yuv_planar_legacy fs ans readback off format =
      Some (r3, fs3, calls3) \<and>
    DispSetLayerConfig a3 b3 n3 cfg3 \<in> set calls3 \<longrightarrow>
      fb_addr cfg3 0 = ucast off)"
proof (intro conjI impI; elim conjE)
  assume "gst_sunxifbsink_show_memory_yuv_planar_disp2 K fs ans format mem = Some (r, fs', calls)"
    "DispSetLayerConfig a b n cfg \<in> set calls" "0 < rotate_angle_property fs"
    "format \<noteq> GST_VIDEO_FORMAT_Y444"
  then show "\<exists>info.
         info_fb_addr cfg 0 = ptr_to_ull ans (phys_addr ans (rotate_addr_phy fs' 0)) \<and>
         info_fb_addr cfg 1 = ucast (laddr (dst_frame info) 1) \<and>
         info_fb_addr cfg 2 = ucast (laddr (dst_frame info) 2) \<and>
         laddr (dst_frame info) 0 =
           phys_addr ans (rotate_addr_phy fs' ((m_memory fs + 1) smod 2)) \<and>
         laddr (dst_frame info) 1 =
           laddr (dst_frame info) 0 +
           ucast (pitch (dst_frame info) 0 * height (dst_frame info) 0) \<and>
         laddr (dst_frame info) 2 =
           laddr (dst_frame info) 0 +
           ucast (pitch (dst_frame info) 0 * height (dst_frame info) 0 * 5 div 4) \<and>
         (0 < fd_transform fs \<longrightarrow> IoctlTrCommit (transform_channel fs) info \<in> set calls)"
    by (rule show_memory_disp2_rotated_config)
next
  assume "gst_sunxifbsink_show_memory_yuv_planar_legacy K fs ans readback format mem =
      Some (r', fs'', calls')"
    "DispSetLayerConfig a' b' n' cfg' \<in> set calls'" "0 < rotate_angle_property fs"
  then show "\<exists>info.
         fb_addr cfg' 0 = ucast (phys_addr ans (rotate_addr_phy fs'' 0)) \<and>
         fb_addr cfg' 1 = ucast (laddr (dst_frame info) 1) \<and>
         fb_addr cfg' 2 = ucast (laddr (dst_frame info) 2) \<and>
         laddr (dst_frame info) 0 =
           phys_addr ans (rotate_addr_phy fs'' ((m_memory fs + 1) smod 2)) \<and>
         laddr (dst_frame info) 1 =
           laddr (dst_frame info) 0 +
           ucast (pitch (dst_frame info) 0 * height (dst_frame info) 0) \<and>
         laddr (dst_frame info) 2 =
           laddr (dst_frame info) 0 +
           ucast (pitch (dst_frame info) 0 * height (dst_frame info) 0 * 5 div 4) \<and>
         (0 < fd_transform fs \<longrightarrow> IoctlTrCommit (transform_channel fs) info \<in> set calls')"
    by (rule show_memory_legacy_rotated_config)
next
  assume "gst_sunxifbsink_show_overlay_yuv_planar_disp2 g2d_rotate fs ans off format =
      Some (r2, fs2, calls2)"
    "DispSetLayerConfig a2 b2 n2 cfg2 \<in> set calls2"
  then show "info_fb_addr cfg2 0 =
        (if g2d_rotate \<and> 0 < rotate_angle_property fs
         then ucast (phys_addr ans (rotate_addr_phy fs2 ((m_overlay fs + 1) smod 2)))
         else ucast off)"
    by (rule show_overlay_yuv_planar_disp2_luma)
next
  assume "gst_sunxifbsink_show_overlay_yuv_planar_legacy fs ans readback off format =
      Some (r3, fs3, calls3)"
    "DispSetLayerConfig a3 b3 n3 cfg3 \<in> set calls3"
  then show "fb_addr cfg3 0 = ucast off"
    by (rule show_overlay_yuv_planar_legacy_luma)
qed

theorem rotated_config_luma_slot_0_witness:
  "(\<exists>r fs' calls a b n cfg info.
     gst_sunxifbsink_show_memory_yuv_planar_disp2 sample_tr_h sample_sink sample_answers
       GST_VIDEO_FORMAT_I420 sample_memory = Some (r, fs', calls) \<and>
     DispSetLayerConfig a b n cfg \<in> set calls \<and>
     rotate_addr_phy fs' 0 = 16777216 \<and> rotate_addr_phy fs' 1 = 33554432 \<and>
     info_fb_addr cfg 0 = 16777216 \<and>
     info_fb_addr cfg 1 = ucast (laddr (dst_frame info) 1) \<and>
     laddr (dst_frame info) 0 = 33554432 \<and>
     IoctlTrCommit (transform_channel sample_sink) info \<in> set calls) \<and>
   (\<exists>r fs' calls a b n cfg.
      gst_sunxifbsink_show_overlay_yuv_planar_disp2 True sample_sink_yv12 sample_answers
        8388608 GST_VIDEO_FORMAT_YV12 = Some (r, fs', calls) \<and>
      DispSetLayerConfig a b n cfg \<in> set calls \<and>
      rotate_addr_phy fs' 0 = 16777216 \<and> rotate_addr_phy fs' 1 = 33554432 \<and>
      info_fb_addr cfg 0 = 33554432)"
proof -
  let ?fs1 = "sample_sink\<lparr>rotate_addr_phy := (\<lambda>i. 0)(0 := 16777216, 1 := 33554432),
                          m_memory := 1, layer_is_visible := TRUE\<rparr>"
  from sample_first_run_config obtain calls a b n cfg where
    run: "gst_sunxifbsink_show_memory_yuv_planar_disp2 sample_tr_h sample_sink sample_answers
       GST_VIDEO_FORMAT_I420 sample_memory = Some (GST_FLOW_OK, ?fs1, calls)"
    and c: "DispSetLayerConfig a b n cfg \<in> set calls" by blast
  have rot: "0 < rotate_angle_property sample_sink" by (simp add: sample_defs)
  from rotated_config_luma_slot_0 [THEN conjunct1, rule_format, of sample_tr_h sample_sink
      sample_answers GST_VIDEO_FORMAT_I420 sample_memory GST_FLOW_OK ?fs1 calls a b n cfg]
    run c rot
  obtain info where
    "info_fb_addr cfg 0 = ptr_to_ull sample_answers (phys_addr sample_answers (rotate_addr_phy ?fs1 0))"
    "info_fb_addr cfg 1 = ucast (laddr (dst_frame info) 1)"
    "laddr (dst_frame info) 0 =
           phys_addr sample_answers (rotate_addr_phy ?fs1 ((m_memory sample_sink + 1) smod 2))"
    "0 < fd_transform sample_sink \<longrightarrow> IoctlTrCommit (transform_channel sample_sink) info \<in> set calls"
    by auto
  then have "rotate_addr_phy ?fs1 0 = 16777216 \<and> rotate_addr_phy ?fs1 1 = 33554432 \<and>
     info_fb_addr cfg 0 = 16777216 \<and>
     info_fb_addr cfg 1 = ucast (laddr (dst_frame info) 1) \<and>
     laddr (dst_frame info) 0 = 33554432 \<and>
     IoctlTrCommit (transform_channel sample_sink) info \<in> set calls"
    by (simp add: sample_defs signed_modulo_int_def)
  with run c have first: "\<exists>r fs' calls a b n cfg info.
     gst_sunxifbsink_show_memory_yuv_planar_disp2 sample_tr_h sample_sink sample_answers
       GST_VIDEO_FORMAT_I420 sample_memory = Some (r, fs', calls) \<and>
     DispSetLayerConfig a b n cfg \<in> set calls \<and>
     rotate_addr_phy fs' 0 = 16777216 \<and> rotate_addr_phy fs' 1 = 33554432 \<and>
     info_fb_addr cfg 0 = 16777216 \<and>
     info_fb_addr cfg 1 = ucast (laddr (dst_frame info) 1) \<and>
     laddr (dst_frame info) 0 = 33554432 \<and>
     IoctlTrCommit (transform_channel sample_sink) info \<in> set calls" by blast
  let ?fs2 = "sample_sink_yv12_allocated\<lparr>m_overlay := 1, layer_is_visible := TRUE\<rparr>"
  let ?cfg2 = "overlay_layer_info_disp2 (sample_sink_yv12_allocated\<lparr>m_overlay := 1\<rparr>) False
           (overlay_rotated_disp2 sample_yv12_blit
              (overlay_planes_disp2 sample_sink_yv12 8388608 GST_VIDEO_FORMAT_YV12))"
  let ?calls2 = "[SunxiMemPalloc 18432, SunxiMemPalloc 18432,
      IoctlG2dBitblt 6 sample_yv12_blit, DispSetLayerConfig 4 0 0 ?cfg2,
      DispSetLayerEnable 4 0 0 1] :: (32 word, disp2_layer_config) hw_call list"
  have mem2: "DispSetLayerConfig 4 0 0 ?cfg2 \<in> set ?calls2" by simp
  note t = rotated_config_luma_slot_0 [where fs = sample_sink_yv12 and ans = sample_answers
      and g2d_rotate = True and off = 8388608 and format = GST_VIDEO_FORMAT_YV12
      and ?r2.0 = GST_FLOW_OK and ?fs2.0 = ?fs2 and ?calls2.0 = ?calls2
      and ?a2.0 = 4 and ?b2.0 = 0 and ?n2.0 = 0 and ?cfg2.0 = ?cfg2]
  from t [THEN conjunct2, THEN conjunct2, THEN conjunct1, rule_format, OF conjI,
      OF sample_yv12_run mem2]
  have "rotate_addr_phy ?fs2 0 = 16777216 \<and> rotate_addr_phy ?fs2 1 = 33554432 \<and>
        info_fb_addr ?cfg2 0 = 33554432"
    by (simp add: sample_defs2 signed_modulo_int_def)
  with sample_yv12_run mem2 have second: "\<exists>r fs' calls a b n cfg.
      gst_sunxifbsink_show_overlay_yuv_planar_disp2 True sample_sink_yv12 sample_answers
        8388608 GST_VIDEO_FORMAT_YV12 = Some (r, fs', calls) \<and>
      DispSetLayerConfig a b n cfg \<in> set calls \<and>
      rotate_addr_phy fs' 0 = 16777216 \<and> rotate_addr_phy fs' 1 = 33554432 \<and>
      info_fb_addr cfg 0 = 33554432" by blast
  from first second show ?thesis by (rule conjI)
qed

subsection \<open>Showing the layer\<close>

text \<open>
  The fresh sink has \<^verbatim>\<open>layer_id\<close> 0, the only value the file ever gives it besides the
  -1 of \<^verbatim>\<open>release_layer\<close>. With this \<^verbatim>\<open>layer_id\<close>, which is \<open>\<le> 0\<close>, a hidden layer is
  enabled and \<^verbatim>\<open>show_layer\<close> returns \<^verbatim>\<open>TRUE\<close>: the function does not fail for every
  \<^verbatim>\<open>layer_id \<le> 0\<close>.
\<close>

theorem show_layer_layer_id_zero_counterexample:
  "layer_id (gst_sunxifbsink_init :: 32 word sunxifbsink) \<le> 0 \<and>
   layer_is_visible (gst_sunxifbsink_init :: 32 word sunxifbsink) = 0 \<and>
   (gst_sunxifbsink_show_layer gst_sunxifbsink_init 0
      :: gboolean \<times> 32 word sunxifbsink \<times> (32 word, unit) hw_call list) =
     (TRUE, gst_sunxifbsink_init\<lparr>layer_is_visible := TRUE\<rparr>, [DispSetLayerEnable 0 0 0 1]) \<and>
   TRUE \<noteq> FALSE"
  by (simp add: gst_sunxifbsink_show_layer_def gst_sunxifbsink_init_def TRUE_def FALSE_def)

text \<open>
  C6, as the code has it. \<^verbatim>\<open>gst_sunxifbsink_show_layer\<close> returns \<^verbatim>\<open>TRUE\<close> without any
  call when the layer is already visible; otherwise it returns \<^verbatim>\<open>FALSE\<close> without any
  call when \<^verbatim>\<open>layer_id < 0\<close>; otherwise it issues the enable command and, when that
  returns 0, makes the layer visible and returns \<^verbatim>\<open>TRUE\<close>; when the command returns
  something else the layer stays hidden and the result is \<^verbatim>\<open>FALSE\<close>.
\<close>

theorem show_layer_cases:
  "(layer_is_visible fs \<noteq> 0 \<longrightarrow>
      gst_sunxifbsink_show_layer fs enable_result = (TRUE, fs, [])) \<and>
   (layer_is_visible fs = 0 \<and> layer_id fs < 0 \<longrightarrow>
      gst_sunxifbsink_show_layer fs enable_result = (FALSE, fs, [])) \<and>
   (layer_is_visible fs = 0 \<and> 0 \<le> layer_id fs \<and> enable_result = 0 \<longrightarrow>
      gst_sunxifbsink_show_layer fs enable_result =
        (TRUE, fs\<lparr>layer_is_visible := TRUE\<rparr>,
         [DispSetLayerEnable (fd_disp fs) (framebuffer_id fs) (layer_id fs) 1])) \<and>
   (layer_is_visible fs = 0 \<and> 0 \<le> layer_id fs \<and> enable_result \<noteq> 0 \<longrightarrow>
      gst_sunxifbsink_show_layer fs enable_result =
        (FALSE, fs, [DispSetLayerEnable (fd_disp fs) (framebuffer_id fs) (layer_id fs) 1]))"
  by (simp add: gst_sunxifbsink_show_layer_def)

theorem show_layer_cases_witness:
  "(gst_sunxifbsink_show_layer (sample_sink\<lparr>layer_is_visible := TRUE\<rparr>) 0
      :: gboolean \<times> 32 word sunxifbsink \<times> (32 word, unit) hw_call list) =
     (TRUE, sample_sink\<lparr>layer_is_visible := TRUE\<rparr>, []) \<and>
   (gst_sunxifbsink_show_layer (sample_sink\<lparr>layer_id := - 1\<rparr>) 0
      :: gboolean \<times> 32 word sunxifbsink \<times> (32 word, unit) hw_call list) =
     (FALSE, sample_sink\<lparr>layer_id := - 1\<rparr>, []) \<and>
   (gst_sunxifbsink_show_layer sample_sink 0
      :: gboolean \<times> 32 word sunxifbsink \<times> (32 word, unit) hw_call list) =
     (TRUE, sample_sink\<lparr>layer_is_visible := TRUE\<rparr>, [DispSetLayerEnable 4 0 0 1]) \<and>
   (gst_sunxifbsink_show_layer sample_sink (- 1)
      :: gboolean \<times> 32 word sunxifbsink \<times> (32 word, unit) hw_call list) =
     (FALSE, sample_sink, [DispSetLayerEnable 4 0 0 1])"
  using show_layer_cases [of "sample_sink\<lparr>layer_is_visible := TRUE\<rparr>" 0]
    show_layer_cases [of "sample_sink\<lparr>layer_id := - 1\<rparr>" 0]
    show_layer_cases [of sample_sink 0]
    show_layer_cases [of sample_sink "- 1"]
  by (simp add: sample_defs TRUE_def)

subsection \<open>The rotation protocol\<close>

lemma hw_at_ret:
  "hwRotateVideoPicture_at pt ch info answers = Some (ret, calls) \<Longrightarrow>
     (ret = - 1 \<and> last calls = IoctlTrCommit ch info) \<or>
     (ret \<noteq> 1 \<and> ret \<noteq> - 1 \<and> last calls = IoctlTrQuery ch)"
proof (induction pt ch info answers arbitrary: ret calls rule: hwRotateVideoPicture_at.induct)
  case (1 pt ch info)
  then show ?case by simp
next
  case (2 ch info r answers)
  show ?case
  proof (cases "r = 0")
    case False
    with 2(2) show ?thesis by auto
  next
    case True
    with 2(2) obtain calls' where
      rec: "hwRotateVideoPicture_at At_first_query ch info answers = Some (ret, calls')"
      and c: "calls = IoctlTrCommit ch info # calls'"
      by auto
    from rec have ne: "calls' \<noteq> []" by (cases answers) auto
    from 2(1) [OF _ rec] True ne c show ?thesis by simp
  qed
next
  case (3 ch info r answers)
  from 3(2) obtain calls' where
    rec: "hwRotateVideoPicture_at In_while ch info answers = Some (ret, calls')"
    and c: "calls = IoctlTrQuery ch # calls'"
    by auto
  from rec have ne: "calls' \<noteq> []" by (cases answers) (auto split: if_splits)
  from 3(1) [OF rec] ne c show ?case by simp
next
  case (4 ch info r answers)
  show ?case
  proof (cases "r = 1")
    case True
    with 4(3) obtain calls' where
      rec: "hwRotateVideoPicture_at In_while ch info answers = Some (ret, calls')"
      and c: "calls = IoctlTrQuery ch # Usleep (1 * 1000) # calls'"
      by auto
    from rec have ne: "calls' \<noteq> []" by (cases answers) (auto split: if_splits)
    from 4(1) [OF True rec] ne c show ?thesis by simp
  next
    case False
    show ?thesis
    proof (cases "r = - 1")
      case True
      with 4(3) obtain calls' where
        rec: "hwRotateVideoPicture_at At_setup_tr ch info answers = Some (ret, calls')"
        and c: "calls = IoctlTrQuery ch # calls'"
        by auto
      from rec have ne: "calls' \<noteq> []" by (cases answers) (auto split: if_splits)
      from 4(2) [OF False True rec] ne c show ?thesis by simp
    next
      case n1: False
      with False 4(3) show ?thesis by auto
    qed
  qed
qed

lemma while_busy:
  "hwRotateVideoPicture_at In_while ch info (replicate k 1 @ answers) =
     map_option (\<lambda>(r, calls). (r, concat (replicate k [IoctlTrQuery ch, Usleep 1000]) @ calls))
       (hwRotateVideoPicture_at In_while ch info answers)"
proof (induction k)
  case 0
  show ?case by (simp add: option.map_ident split_def)
next
  case (Suc k)
  show ?case
    by (simp add: Suc option.map_comp comp_def split_def)
qed

lemma round_timeout:
  "hwRotateVideoPicture_at At_setup_tr ch info (0 # q # replicate k 1 @ - 1 # answers) =
     map_option (\<lambda>(r, calls). (r, IoctlTrCommit ch info # IoctlTrQuery ch #
                    concat (replicate k [IoctlTrQuery ch, Usleep 1000]) @ IoctlTrQuery ch # calls))
       (hwRotateVideoPicture_at At_setup_tr ch info answers)"
  by (simp add: while_busy option.map_comp comp_def split_def)

lemma round_final:
  "r \<noteq> 1 \<Longrightarrow> r \<noteq> - 1 \<Longrightarrow>
   hwRotateVideoPicture_at At_setup_tr ch info (0 # q # replicate k 1 @ r # answers) =
     Some (r, IoctlTrCommit ch info # IoctlTrQuery ch #
              concat (replicate k [IoctlTrQuery ch, Usleep 1000]) @ [IoctlTrQuery ch])"
  by (simp add: while_busy option.map_comp comp_def split_def)

lemma rounds_timeout:
  "hwRotateVideoPicture_at At_setup_tr ch info
     (concat (replicate n (0 # q # replicate k 1 @ [- 1])) @ answers) =
     map_option (\<lambda>(r, calls). (r, concat (replicate n (IoctlTrCommit ch info # IoctlTrQuery ch #
                    concat (replicate k [IoctlTrQuery ch, Usleep 1000]) @ [IoctlTrQuery ch])) @ calls))
       (hwRotateVideoPicture_at At_setup_tr ch info answers)"
proof (induction n)
  case 0
  show ?case by (simp add: option.map_ident split_def)
next
  case (Suc n)
  have "hwRotateVideoPicture_at At_setup_tr ch info
     (concat (replicate (Suc n) (0 # q # replicate k 1 @ [- 1])) @ answers) =
     hwRotateVideoPicture_at At_setup_tr ch info
       (0 # q # replicate k 1 @ - 1 # (concat (replicate n (0 # q # replicate k 1 @ [- 1])) @ answers))"
    by simp
  also have "\<dots> = map_option (\<lambda>(r, calls). (r, IoctlTrCommit ch info # IoctlTrQuery ch #
                    concat (replicate k [IoctlTrQuery ch, Usleep 1000]) @ IoctlTrQuery ch # calls))
       (hwRotateVideoPicture_at At_setup_tr ch info
          (concat (replicate n (0 # q # replicate k 1 @ [- 1])) @ answers))"
    by (rule round_timeout)
  finally have step: "hwRotateVideoPicture_at At_setup_tr ch info
     (concat (replicate (Suc n) (0 # q # replicate k 1 @ [- 1])) @ answers) =
     map_option (\<lambda>(r, calls). (r, IoctlTrCommit ch info # IoctlTrQuery ch #
                    concat (replicate k [IoctlTrQuery ch, Usleep 1000]) @ IoctlTrQuery ch # calls))
       (hwRotateVideoPicture_at At_setup_tr ch info
          (concat (replicate n (0 # q # replicate k 1 @ [- 1])) @ answers))" .
  show ?case
    by (subst step, subst Suc) (simp add: option.map_comp comp_def split_def)
qed


text \<open>
  The first \<^verbatim>\<open>TR_QUERY\<close> after the \<^verbatim>\<open>TR_COMMIT\<close> answers -1 (timeout) and the next
  one 0: the function returns 0 after a single \<^verbatim>\<open>TR_COMMIT\<close>. A poll has returned -1
  and the job has not been resubmitted: the result that line 505 stores in \<^verbatim>\<open>ret\<close> is
  overwritten at line 509 before anything reads it, although the comments of lines 507
  and 518 (\<^verbatim>\<open>-1:timeOut\<close>, \<^verbatim>\<open>if the tr is timeout ,we should setup tr again\<close>) ask for
  a new setup after a timeout.
\<close>

theorem hwRotateVideoPicture_first_poll_counterexample:
  "(hwRotateVideoPicture (sample_sink :: 32 word sunxifbsink) tr_info_zero [0, - 1, 0]
      :: (int \<times> (32 word, unit) hw_call list) option) =
     Some (0, [IoctlTrCommit 0 tr_info_zero, IoctlTrQuery 0, IoctlTrQuery 0])"
  by (simp add: hwRotateVideoPicture_def sample_defs)

text \<open>
  C4. What \<^verbatim>\<open>hwRotateVideoPicture\<close> does. It never hands a timeout or busy status
  of a poll to its caller: when it returns -1 its last call was a \<^verbatim>\<open>TR_COMMIT\<close> (that
  failed), and otherwise it returns the status of its last poll, which is neither 1 nor
  -1. The result of the first poll after each \<^verbatim>\<open>TR_COMMIT\<close> is not read. From the
  second poll on, while a poll returns 1 the function sleeps 1000 microseconds and polls
  again, and when one returns -1 it commits the identical job again and starts over:
  after any number \<open>n\<close> of such rounds it has issued \<open>n + 1\<close> commits of the same job
  and returns the first status that is neither 1 nor -1, or -1 if a commit fails.
\<close>

theorem hwRotateVideoPicture_resubmits:
  fixes fs :: "'l::len word sunxifbsink" and calls :: "('l word, 'c) hw_call list"
  shows
  "(hwRotateVideoPicture fs info answers = Some (ret, calls) \<longrightarrow>
      (ret = - 1 \<and> last calls = IoctlTrCommit (transform_channel fs) info) \<or>
      (ret \<noteq> 1 \<and> ret \<noteq> - 1 \<and> last calls = IoctlTrQuery (transform_channel fs))) \<and>
   (r \<noteq> 1 \<and> r \<noteq> - 1 \<longrightarrow>
      hwRotateVideoPicture fs info
        (concat (replicate n (0 # q # replicate k 1 @ [- 1])) @ 0 # q' # replicate k' 1 @ [r]) =
      Some (r,
        concat (replicate n
          (IoctlTrCommit (transform_channel fs) info # IoctlTrQuery (transform_channel fs) #
           concat (replicate k [IoctlTrQuery (transform_channel fs), Usleep 1000]) @
           [IoctlTrQuery (transform_channel fs)])) @
        IoctlTrCommit (transform_channel fs) info # IoctlTrQuery (transform_channel fs) #
        concat (replicate k' [IoctlTrQuery (transform_channel fs), Usleep 1000]) @
        [IoctlTrQuery (transform_channel fs) :: ('l word, 'c) hw_call])) \<and>
   (c \<noteq> 0 \<longrightarrow>
      hwRotateVideoPicture fs info
        (concat (replicate n (0 # q # replicate k 1 @ [- 1])) @ [c]) =
      Some (- 1,
        concat (replicate n
          (IoctlTrCommit (transform_channel fs) info # IoctlTrQuery (transform_channel fs) #
           concat (replicate k [IoctlTrQuery (transform_channel fs), Usleep 1000]) @
           [IoctlTrQuery (transform_channel fs)])) @
        [IoctlTrCommit (transform_channel fs) info :: ('l word, 'c) hw_call]))"
proof (intro conjI impI)
  assume "hwRotateVideoPicture fs info answers = Some (ret, calls)"
  then show "(ret = - 1 \<and> last calls = IoctlTrCommit (transform_channel fs) info) \<or>
      (ret \<noteq> 1 \<and> ret \<noteq> - 1 \<and> last calls = IoctlTrQuery (transform_channel fs))"
    unfolding hwRotateVideoPicture_def by (rule hw_at_ret)
next
  assume "r \<noteq> 1 \<and> r \<noteq> - 1"
  then show "hwRotateVideoPicture fs info
        (concat (replicate n (0 # q # replicate k 1 @ [- 1])) @ 0 # q' # replicate k' 1 @ [r]) =
      Some (r,
        concat (replicate n
          (IoctlTrCommit (transform_channel fs) info # IoctlTrQuery (transform_channel fs) #
           concat (replicate k [IoctlTrQuery (transform_channel fs), Usleep 1000]) @
           [IoctlTrQuery (transform_channel fs)])) @
        IoctlTrCommit (transform_channel fs) info # IoctlTrQuery (transform_channel fs) #
        concat (replicate k' [IoctlTrQuery (transform_channel fs), Usleep 1000]) @
        [IoctlTrQuery (transform_channel fs)])"
    unfolding hwRotateVideoPicture_def
    by (subst rounds_timeout, subst round_final) simp_all
next
  assume "c \<noteq> 0"
  then show "hwRotateVideoPicture fs info
        (concat (replicate n (0 # q # replicate k 1 @ [- 1])) @ [c]) =
      Some (- 1,
        concat (replicate n
          (IoctlTrCommit (transform_channel fs) info # IoctlTrQuery (transform_channel fs) #
           concat (replicate k [IoctlTrQuery (transform_channel fs), Usleep 1000]) @
           [IoctlTrQuery (transform_channel fs)])) @
        [IoctlTrCommit (transform_channel fs) info])"
    unfolding hwRotateVideoPicture_def
    by (subst rounds_timeout) simp
qed

theorem hwRotateVideoPicture_resubmits_witness:
  "(hwRotateVideoPicture (sample_sink :: 32 word sunxifbsink) tr_info_zero
      [0, 1, 1, - 1, 0, 1, 1, - 1, 0, 0, 1, 1, 0]
      :: (int \<times> (32 word, unit) hw_call list) option) =
     Some (0,
       [IoctlTrCommit 0 tr_info_zero, IoctlTrQuery 0, IoctlTrQuery 0, Usleep 1000, IoctlTrQuery 0,
        IoctlTrCommit 0 tr_info_zero, IoctlTrQuery 0, IoctlTrQuery 0, Usleep 1000, IoctlTrQuery 0,
        IoctlTrCommit 0 tr_info_zero, IoctlTrQuery 0, IoctlTrQuery 0, Usleep 1000,
        IoctlTrQuery 0, Usleep 1000, IoctlTrQuery 0]) \<and>
   (hwRotateVideoPicture (sample_sink :: 32 word sunxifbsink) tr_info_zero
      [0, 1, 1, - 1, - 1]
      :: (int \<times> (32 word, unit) hw_call list) option) =
     Some (- 1,
       [IoctlTrCommit 0 tr_info_zero, IoctlTrQuery 0, IoctlTrQuery 0, Usleep 1000, IoctlTrQuery 0,
        IoctlTrCommit 0 tr_info_zero])"
proof -
  note t1 = hwRotateVideoPicture_resubmits [where fs = "sample_sink :: 32 word sunxifbsink"
      and info = tr_info_zero and answers = "[]" and ret = 0
      and calls = "[] :: (32 word, unit) hw_call list"
      and r = 0 and n = 2 and q = 1 and k = 1 and q' = 0 and k' = 2 and c = "- 1"]
  note t2 = hwRotateVideoPicture_resubmits [where fs = "sample_sink :: 32 word sunxifbsink"
      and info = tr_info_zero and answers = "[]" and ret = 0
      and calls = "[] :: (32 word, unit) hw_call list"
      and r = 0 and n = 1 and q = 1 and k = 1 and q' = 0 and k' = 0 and c = "- 1"]
  have ch: "transform_channel (sample_sink :: 32 word sunxifbsink) = 0"
    by (simp add: sample_defs)
  from t1 t2 show ?thesis
    by (simp add: ch numeral_2_eq_2)
qed

subsection \<open>The dispatcher and physically contiguous memory\<close>

lemma sample_contiguous_run:
  "\<exists>fs' calls.
     gst_sunxifbsink_show_memory_yuv_planar_disp2 sample_tr_h
       (sample_sink\<lparr>sBuffer := map_contents sample_memory\<rparr>) sample_answers
       (overlay_format sample_sink) sample_memory = Some (GST_FLOW_OK, fs', calls)"
  by (simp add: show_memory_disp2_shape rotate_branch_def rotate_buffers_alloc_def
      sample_defs stride_divisor_def memory_planes_disp2_def Let_def
      hwRotateVideoPicture_def set_layer_config_and_show_def gst_sunxifbsink_show_layer_def
      signed_divide_int_def)

text \<open>
  C2. For a buffer whose memory is physically contiguous, \<^verbatim>\<open>gst_sunxifbsink_show_overlay\<close>
  calls \<^verbatim>\<open>gst_sunxifbsink_show_memory_yuv_planar\<close> on the sink with \<^verbatim>\<open>sBuffer\<close> copied from
  the mapping, discards what it returns and returns \<^verbatim>\<open>res\<close>, which is still the
  \<^verbatim>\<open>GST_FLOW_ERROR\<close> of its initialisation: whatever result \<open>r\<close> the presenter gives, the
  dispatcher gives \<^verbatim>\<open>GST_FLOW_ERROR\<close> with the presenter's sink and calls, and it returns
  exactly when the presenter does. In both builds.
\<close>

theorem show_overlay_contiguous_returns_error:
  assumes "physically_contiguous memory"
  shows
    "(gst_sunxifbsink_show_memory_yuv_planar_disp2 K (fs\<lparr>sBuffer := map_contents memory\<rparr>) ans
        (overlay_format fs) memory = Some (r, fs', calls) \<longrightarrow>
      gst_sunxifbsink_show_overlay_disp2 K g2d_rotate fs ans memory =
        Some (GST_FLOW_ERROR, fs', calls)) \<and>
     (gst_sunxifbsink_show_memory_yuv_planar_disp2 K (fs\<lparr>sBuffer := map_contents memory\<rparr>) ans
        (overlay_format fs) memory = None \<longrightarrow>
      gst_sunxifbsink_show_overlay_disp2 K g2d_rotate fs ans memory = None) \<and>
     (gst_sunxifbsink_show_memory_yuv_planar_legacy K (fs\<lparr>sBuffer := map_contents memory\<rparr>) ans
        readback (overlay_format fs) memory = Some (r', fs'', calls') \<longrightarrow>
      gst_sunxifbsink_show_overlay_legacy K fs ans readback memory =
        Some (GST_FLOW_ERROR, fs'', calls')) \<and>
     (gst_sunxifbsink_show_memory_yuv_planar_legacy K (fs\<lparr>sBuffer := map_contents memory\<rparr>) ans
        readback (overlay_format fs) memory = None \<longrightarrow>
      gst_sunxifbsink_show_overlay_legacy K fs ans readback memory = None)"
  using assms
  by (simp add: gst_sunxifbsink_show_overlay_disp2_def gst_sunxifbsink_show_overlay_legacy_def
      show_overlay_dispatch_def Let_def)

theorem show_overlay_contiguous_returns_error_witness:
  "\<exists>fs' calls.
     physically_contiguous sample_memory \<and>
     gst_sunxifbsink_show_memory_yuv_planar_disp2 sample_tr_h
       (sample_sink\<lparr>sBuffer := map_contents sample_memory\<rparr>) sample_answers
       (overlay_format sample_sink) sample_memory = Some (GST_FLOW_OK, fs', calls) \<and>
     gst_sunxifbsink_show_overlay_disp2 sample_tr_h False sample_sink sample_answers
       sample_memory = Some (GST_FLOW_ERROR, fs', calls) \<and>
     GST_FLOW_OK \<noteq> GST_FLOW_ERROR"
proof -
  have pc: "physically_contiguous sample_memory" by (simp add: sample_defs)
  from sample_contiguous_run obtain fs' calls where
    run: "gst_sunxifbsink_show_memory_yuv_planar_disp2 sample_tr_h
       (sample_sink\<lparr>sBuffer := map_contents sample_memory\<rparr>) sample_answers
       (overlay_format sample_sink) sample_memory = Some (GST_FLOW_OK, fs', calls)" by blast
  from show_overlay_contiguous_returns_error [OF pc, THEN conjunct1, rule_format, OF run]
  have "gst_sunxifbsink_show_overlay_disp2 sample_tr_h False sample_sink sample_answers
       sample_memory = Some (GST_FLOW_ERROR, fs', calls)" .
  with pc run show ?thesis
    by (auto simp: GST_FLOW_OK_def GST_FLOW_ERROR_def)
qed

subsection \<open>The colour space of the committed configuration\<close>

lemma layer_info_disp2_color:
  "info_fb_color_space (memory_layer_info_disp2 K fs ans re ti c) =
     (if info_screen_win_height (memory_layer_info_disp2 K fs ans re ti c) < 720
      then Some DISP_BT601 else Some DISP_BT709)"
  by (simp add: memory_layer_info_disp2_def Let_def)

lemma overlay_layer_info_disp2_color:
  "info_fb_color_space (overlay_layer_info_disp2 fs turned c) =
     (if info_screen_win_height (overlay_layer_info_disp2 fs turned c) < 720
      then Some DISP_BT601 else Some DISP_BT709)"
  by (simp add: overlay_layer_info_disp2_def)

lemma show_memory_disp2_color:
  assumes run: "gst_sunxifbsink_show_memory_yuv_planar_disp2 K fs ans format mem = Some (r, fs', calls)"
    and c: "DispSetLayerConfig a b n cfg \<in> set calls"
  shows "info_fb_color_space cfg =
     (if info_screen_win_height cfg < 720 then Some DISP_BT601 else Some DISP_BT709)"
proof (cases "stride_divisor fs \<noteq> 0 \<and> snd (memory_planes_disp2 fs ans format (phys_addr ans (map_data mem))
                     (0 < rotate_angle_property fs))")
  case True
  with run have "\<exists>fsa ti c0. cfg = memory_layer_info_disp2 K fsa ans True ti c0"
    unfolding show_memory_disp2_shape
    using rotate_branch_config [OF _ c] by auto
  then show ?thesis using layer_info_disp2_color by blast
next
  case False
  with run have "set_layer_config_and_show fs ans
             (memory_layer_info_disp2 K fs ans False tr_info_zero
                (fst (memory_planes_disp2 fs ans format (phys_addr ans (map_data mem))
                        (0 < rotate_angle_property fs)))) [] = Some (r, fs', calls)"
    unfolding show_memory_disp2_shape by (simp split: if_splits)
  from commit_show_config [OF this c] show ?thesis
    by (simp add: layer_info_disp2_color)
qed

lemma show_overlay_yuv_planar_disp2_commit:
  assumes run: "gst_sunxifbsink_show_overlay_yuv_planar_disp2 g2d fs ans off format = Some (r, fs', calls)"
    and c: "DispSetLayerConfig a b n cfg \<in> set calls"
  shows "\<exists>fs0 turned c1 calls0.
           set_layer_config_and_show fs0 ans (overlay_layer_info_disp2 fs0 turned c1) calls0
             = Some (r, fs', calls) \<and>
           layer_is_visible fs0 = layer_is_visible fs \<and>
           (\<forall>a b n c. DispSetLayerConfig a b n c \<notin> set calls0) \<and>
           (\<forall>c \<in> set calls0. \<forall>a b d e. c \<noteq> DispSetLayerEnable a b d e)"
proof -
  from run have nz: "stride_divisor fs \<noteq> 0"
    by (auto simp: gst_sunxifbsink_show_overlay_yuv_planar_disp2_def)
  define c0 where "c0 = overlay_planes_disp2 fs off format"
  show ?thesis
  proof (cases "g2d \<and> 0 < rotate_angle_property fs")
    case False
    with run nz have "set_layer_config_and_show fs ans (overlay_layer_info_disp2 fs False c0) []
        = Some (r, fs', calls)"
      by (auto simp: gst_sunxifbsink_show_overlay_yuv_planar_disp2_def Let_def c0_def)
    then show ?thesis by fastforce
  next
    case True
    show ?thesis
    proof (cases "rotate_buffers_alloc fs ans (ALIGN_32B (info_fb_size_width c0 0))
                      (ALIGN_32B (info_fb_size_height c0 0)) ::
                   ('a word sunxifbsink \<times> ('a word, disp2_layer_config) hw_call list) + _")
      case (Inl p)
      obtain fs1 calls0 where p: "p = (fs1, calls0)" by (cases p)
      with run nz True Inl have "calls = calls0"
        by (simp add: gst_sunxifbsink_show_overlay_yuv_planar_disp2_def Let_def c0_def)
      moreover from Inl p have "rotate_buffers_alloc fs ans (ALIGN_32B (info_fb_size_width c0 0))
          (ALIGN_32B (info_fb_size_height c0 0)) = Inl (fs1, calls0)" by simp
      from alloc_Inl [OF this]
      have "\<forall>c \<in> set calls0. (\<exists>n. c = SunxiMemPalloc n) \<or> (\<exists>p. c = SunxiMemPfree p)"
        by simp
      ultimately show ?thesis using c by auto
    next
      case (Inr p)
      obtain fs1 calls0 where p: "p = (fs1, calls0)" by (cases p)
      from Inr p have "rotate_buffers_alloc fs ans (ALIGN_32B (info_fb_size_width c0 0))
          (ALIGN_32B (info_fb_size_height c0 0)) = Inr (fs1, calls0)" by simp
      from alloc_Inr [OF this]
      have fs1: "fs1 = fs\<lparr>rotate_addr_phy := rotate_addr_phy fs1\<rparr>"
        and calls0: "\<forall>c \<in> set calls0. \<exists>n. c = SunxiMemPalloc n" by simp_all
      have vis1: "layer_is_visible fs1 = layer_is_visible fs" by (subst fs1) simp
      show ?thesis
      proof (cases "format \<noteq> GST_VIDEO_FORMAT_YV12 \<and> format \<noteq> GST_VIDEO_FORMAT_NV21")
        case True
        with run nz \<open>g2d \<and> 0 < rotate_angle_property fs\<close> Inr p have "calls = calls0"
          by (simp add: gst_sunxifbsink_show_overlay_yuv_planar_disp2_def Let_def c0_def)
        with calls0 c show ?thesis by auto
      next
        case fmt: False
        let ?blit = "overlay_blit fs1 ans format c0"
        let ?fs2 = "fs1\<lparr>m_overlay := m_overlay fs1 + 1\<rparr>"
        let ?calls2 = "calls0 @ [IoctlG2dBitblt (fd_g2d fs1) ?blit]"
        let ?turned = "flag_h ?blit = Some G2D_ROT_90 \<or> flag_h ?blit = Some G2D_ROT_270"
        let ?fs3 = "overlay_recentre ?fs2 ans ?turned ?blit"
        show ?thesis
        proof (cases "g2d_bitblt_result ans < 0")
          case True
          with fmt run nz \<open>g2d \<and> 0 < rotate_angle_property fs\<close> Inr p have "calls = ?calls2"
            by (auto simp: gst_sunxifbsink_show_overlay_yuv_planar_disp2_def Let_def c0_def)
          with calls0 c show ?thesis by auto
        next
          case False
          from fmt have "format = GST_VIDEO_FORMAT_YV12 \<or> format = GST_VIDEO_FORMAT_NV21"
            by simp
          from this run nz \<open>g2d \<and> 0 < rotate_angle_property fs\<close> Inr p False
          have fin: "set_layer_config_and_show ?fs3 ans
                  (overlay_layer_info_disp2 ?fs3 ?turned (overlay_rotated_disp2 ?blit c0)) ?calls2
                 = Some (r, fs', calls)"
            by (elim disjE)
              (simp_all add: gst_sunxifbsink_show_overlay_yuv_planar_disp2_def Let_def c0_def)
          have vis3: "layer_is_visible ?fs3 = layer_is_visible fs"
            using vis1 by (simp add: overlay_recentre_def)
          have no_cfg: "\<forall>a b n c. DispSetLayerConfig a b n c \<notin> set ?calls2"
            using calls0 by auto
          have no_en: "\<forall>c \<in> set ?calls2. \<forall>a b d e. c \<noteq> DispSetLayerEnable a b d e"
            using calls0 by auto
          from fin vis3 no_cfg no_en show ?thesis by blast
        qed
      qed
    qed
  qed
qed

lemma show_overlay_yuv_planar_disp2_color:
  assumes run: "gst_sunxifbsink_show_overlay_yuv_planar_disp2 g2d fs ans off format = Some (r, fs', calls)"
    and c: "DispSetLayerConfig a b n cfg \<in> set calls"
  shows "info_fb_color_space cfg =
     (if info_screen_win_height cfg < 720 then Some DISP_BT601 else Some DISP_BT709)"
proof -
  from show_overlay_yuv_planar_disp2_commit [OF run c] obtain fs0 turned c1 calls0 where
    fin: "set_layer_config_and_show fs0 ans (overlay_layer_info_disp2 fs0 turned c1) calls0
             = Some (r, fs', calls)"
    and no_cfg: "\<forall>a b n c. DispSetLayerConfig a b n c \<notin> set calls0"
    by blast
  from commit_show_config [OF fin c no_cfg] show ?thesis
    by (simp add: overlay_layer_info_disp2_color)
qed

lemma show_overlay_yuv_packed_disp2_color:
  assumes run: "gst_sunxifbsink_show_overlay_yuv_packed_disp2 fs ans off format = Some (r, fs', calls)"
    and c: "DispSetLayerConfig a b n cfg \<in> set calls"
  shows "info_fb_color_space cfg =
     (if info_screen_win_height cfg < 720 then Some DISP_BT601 else Some DISP_BT709)"
proof -
  from run have nz: "stride_divisor fs \<noteq> 0"
    by (auto simp: gst_sunxifbsink_show_overlay_yuv_packed_disp2_def)
  from run nz obtain cfg0 where
    fin: "set_layer_config_and_show fs ans cfg0 [] = Some (r, fs', calls)"
    and col: "info_fb_color_space cfg0 =
       (if info_screen_win_height cfg0 < 720 then Some DISP_BT601 else Some DISP_BT709)"
    by (simp add: gst_sunxifbsink_show_overlay_yuv_packed_disp2_def Let_def)
  from commit_show_config [OF fin c] col show ?thesis by simp
qed

lemma show_overlay_bgrx32_disp2_color:
  assumes run: "gst_sunxifbsink_show_overlay_bgrx32_disp2 fs ans off = Some (r, fs', calls)"
    and c: "DispSetLayerConfig a b n cfg \<in> set calls"
  shows "info_fb_color_space cfg =
     (if info_screen_win_height cfg < 720 then Some DISP_BT601 else Some DISP_BT709)"
proof -
  from run obtain cfg0 where
    fin: "set_layer_config_and_show fs ans cfg0 [] = Some (r, fs', calls)"
    and col: "info_fb_color_space cfg0 =
       (if info_screen_win_height cfg0 < 720 then Some DISP_BT601 else Some DISP_BT709)"
    by (simp add: gst_sunxifbsink_show_overlay_bgrx32_disp2_def Let_def)
  from commit_show_config [OF fin c] col show ?thesis by simp
qed

lemma layer_info_legacy_other_members:
  "other_members (layer_info_legacy fs c) = other_members c"
  by (simp add: layer_info_legacy_def)

lemma memory_planes_legacy_other_members:
  "other_members (memory_planes_legacy fs format p c) = other_members c"
  by (simp add: memory_planes_legacy_def Let_def)

lemma overlay_planes_legacy_other_members:
  "other_members (overlay_planes_legacy fs off format c) = other_members c"
  by (simp add: overlay_planes_legacy_def Let_def)

lemma memory_rotated_legacy_other_members:
  "other_members (memory_rotated_legacy fs ans ti c) = other_members c"
  by (simp add: memory_rotated_legacy_def)

lemma show_memory_legacy_other_members:
  assumes run: "gst_sunxifbsink_show_memory_yuv_planar_legacy K fs ans readback format mem
                  = Some (r, fs', calls)"
    and c: "DispSetLayerConfig a b n cfg \<in> set calls"
  shows "other_members cfg = other_members readback"
proof (cases "stride_divisor fs \<noteq> 0 \<and> 0 < rotate_angle_property fs")
  case True
  with run have "\<exists>fsa ti. cfg = layer_info_legacy fsa (memory_rotated_legacy fsa ans ti
       (memory_planes_legacy fs format (phys_addr ans (map_data mem)) readback))"
    unfolding show_memory_legacy_shape
    using rotate_branch_config [OF _ c] by auto
  then show ?thesis
    by (auto simp: layer_info_legacy_other_members memory_rotated_legacy_other_members
        memory_planes_legacy_other_members)
next
  case False
  with run have "set_layer_config_and_show fs ans
             (layer_info_legacy fs
                (memory_planes_legacy fs format (phys_addr ans (map_data mem)) readback)) []
          = Some (r, fs', calls)"
    unfolding show_memory_legacy_shape by (simp split: if_splits)
  from commit_show_config [OF this c] show ?thesis
    by (simp add: layer_info_legacy_other_members memory_planes_legacy_other_members)
qed

lemma show_overlay_yuv_planar_legacy_other_members:
  assumes run: "gst_sunxifbsink_show_overlay_yuv_planar_legacy fs ans readback off format
                  = Some (r, fs', calls)"
    and c: "DispSetLayerConfig a b n cfg \<in> set calls"
  shows "other_members cfg = other_members readback"
proof -
  from run have "set_layer_config_and_show fs ans
             (layer_info_legacy fs (overlay_planes_legacy fs off format readback)) []
          = Some (r, fs', calls)"
    by (simp add: gst_sunxifbsink_show_overlay_yuv_planar_legacy_def split: if_splits)
  from commit_show_config [OF this c] show ?thesis
    by (simp add: layer_info_legacy_other_members overlay_planes_legacy_other_members)
qed

lemma show_overlay_yuv_packed_legacy_other_members:
  assumes run: "gst_sunxifbsink_show_overlay_yuv_packed_legacy fs ans readback off format
                  = Some (r, fs', calls)"
    and c: "DispSetLayerConfig a b n cfg \<in> set calls"
  shows "other_members cfg = other_members readback"
proof -
  from run obtain c0 where
    fin: "set_layer_config_and_show fs ans (layer_info_legacy fs c0) [] = Some (r, fs', calls)"
    and om: "other_members c0 = other_members readback"
    by (simp add: gst_sunxifbsink_show_overlay_yuv_packed_legacy_def split: if_splits)
  from commit_show_config [OF fin c] om show ?thesis
    by (simp add: layer_info_legacy_other_members)
qed

lemma show_overlay_bgrx32_legacy_other_members:
  assumes run: "gst_sunxifbsink_show_overlay_bgrx32_legacy fs ans readback off
                  = Some (r, fs', calls)"
    and c: "DispSetLayerConfig a b n cfg \<in> set calls"
  shows "other_members cfg = other_members readback"
proof -
  from run obtain c0 where
    fin: "set_layer_config_and_show fs ans (layer_info_legacy fs c0) [] = Some (r, fs', calls)"
    and om: "other_members c0 = other_members readback"
    by (simp add: gst_sunxifbsink_show_overlay_bgrx32_legacy_def)
  from commit_show_config [OF fin c] om show ?thesis
    by (simp add: layer_info_legacy_other_members)
qed

lemma sample_overlay_run_disp2:
  "gst_sunxifbsink_show_overlay_yuv_planar_disp2 False sample_sink sample_answers 8388608
     GST_VIDEO_FORMAT_I420 =
   Some (GST_FLOW_OK, sample_sink\<lparr>layer_is_visible := TRUE\<rparr>,
     [DispSetLayerConfig 4 0 0
        (overlay_layer_info_disp2 sample_sink False
           (overlay_planes_disp2 sample_sink 8388608 GST_VIDEO_FORMAT_I420)),
      DispSetLayerEnable 4 0 0 1])"
  by (simp add: gst_sunxifbsink_show_overlay_yuv_planar_disp2_def stride_divisor_def
      set_layer_config_and_show_def gst_sunxifbsink_show_layer_def sample_defs Let_def
      TRUE_def FALSE_def)

text \<open>
  Without \<^verbatim>\<open>__SUNXI_DISPLAY2__\<close> no presenter assigns a colour space: the committed
  structure keeps, in the members the file never writes, what \<^verbatim>\<open>DispGetLayerConfig\<close>
  read back. On the sample frame, shown in a rectangle of height 96, a driver that
  reads back BT.709 is committed BT.709, not BT.601.
\<close>

theorem show_overlay_legacy_color_space_counterexample:
  "gst_sunxifbsink_show_overlay_yuv_planar_legacy sample_sink sample_answers sample_readback
     8388608 GST_VIDEO_FORMAT_I420 =
   Some (GST_FLOW_OK, sample_sink\<lparr>layer_is_visible := TRUE\<rparr>,
     [DispSetLayerConfig 4 0 0
        (layer_info_legacy sample_sink
           (overlay_planes_legacy sample_sink 8388608 GST_VIDEO_FORMAT_I420 sample_readback)),
      DispSetLayerEnable 4 0 0 1]) \<and>
   screen_win_height
     (layer_info_legacy sample_sink
        (overlay_planes_legacy sample_sink 8388608 GST_VIDEO_FORMAT_I420 sample_readback)) = 96 \<and>
   other_members
     (layer_info_legacy sample_sink
        (overlay_planes_legacy sample_sink 8388608 GST_VIDEO_FORMAT_I420 sample_readback)) =
     DISP_BT709 \<and>
   DISP_BT709 \<noteq> DISP_BT601"
  by (simp add: gst_sunxifbsink_show_overlay_yuv_planar_legacy_def stride_divisor_def
      set_layer_config_and_show_def gst_sunxifbsink_show_layer_def sample_defs Let_def
      TRUE_def FALSE_def layer_info_legacy_def overlay_planes_legacy_def sample_readback_def)

text \<open>
  C10, as the code has it. With \<^verbatim>\<open>__SUNXI_DISPLAY2__\<close>, in every configuration that one of
  the four presenters commits, the colour space is BT.601 when the height of the
  screen window of that configuration (\<^verbatim>\<open>video_rectangle.h\<close>) is less than 720 and
  BT.709 otherwise. Without \<^verbatim>\<open>__SUNXI_DISPLAY2__\<close>, every configuration that one of the
  four presenters commits has, in the members the file never writes, the values read
  back from the driver: the presenters choose no colour space.
\<close>

theorem committed_color_space:
  fixes fs :: "'l::len word sunxifbsink"
    and calls :: "('l word, disp2_layer_config) hw_call list"
    and calls' :: "('l word, 'r disp_layer_config) hw_call list"
  shows
    "(gst_sunxifbsink_show_memory_yuv_planar_disp2 K fs ans format mem = Some (r, fs', calls) \<and>
        DispSetLayerConfig a b n cfg \<in> set calls \<longrightarrow>
      info_fb_color_space cfg =
        (if info_screen_win_height cfg < 720 then Some DISP_BT601 else Some DISP_BT709)) \<and>
     (gst_sunxifbsink_show_overlay_yuv_planar_disp2 g2d_rotate fs ans off format
          = Some (r, fs', calls) \<and>
        DispSetLayerConfig a b n cfg \<in> set calls \<longrightarrow>
      info_fb_color_space cfg =
        (if info_screen_win_height cfg < 720 then Some DISP_BT601 else Some DISP_BT709)) \<and>
     (gst_sunxifbsink_show_overlay_yuv_packed_disp2 fs ans off format = Some (r, fs', calls) \<and>
        DispSetLayerConfig a b n cfg \<in> set calls \<longrightarrow>
      info_fb_color_space cfg =
        (if info_screen_win_height cfg < 720 then Some DISP_BT601 else Some DISP_BT709)) \<and>
     (gst_sunxifbsink_show_overlay_bgrx32_disp2 fs ans off = Some (r, fs', calls) \<and>
        DispSetLayerConfig a b n cfg \<in> set calls \<longrightarrow>
      info_fb_color_space cfg =
        (if info_screen_win_height cfg < 720 then Some DISP_BT601 else Some DISP_BT709)) \<and>
     (gst_sunxifbsink_show_memory_yuv_planar_legacy K fs ans readback format mem
          = Some (r, fs', calls') \<and>
        DispSetLayerConfig a b n cfg' \<in> set calls' \<longrightarrow>
      other_members cfg' = other_members readback) \<and>
     (gst_sunxifbsink_show_overlay_yuv_planar_legacy fs ans readback off format
          = Some (r, fs', calls') \<and>
        DispSetLayerConfig a b n cfg' \<in> set calls' \<longrightarrow>
      other_members cfg' = other_members readback) \<and>
     (gst_sunxifbsink_show_overlay_yuv_packed_legacy fs ans readback off format
          = Some (r, fs', calls') \<and>
        DispSetLayerConfig a b n cfg' \<in> set calls' \<longrightarrow>
      other_members cfg' = other_members readback) \<and>
     (gst_sunxifbsink_show_overlay_bgrx32_legacy fs ans readback off = Some (r, fs', calls') \<and>
        DispSetLayerConfig a b n cfg' \<in> set calls' \<longrightarrow>
      other_members cfg' = other_members readback)"
proof (intro conjI impI; elim conjE)
  assume "gst_sunxifbsink_show_memory_yuv_planar_disp2 K fs ans format mem = Some (r, fs', calls)"
    "DispSetLayerConfig a b n cfg \<in> set calls"
  then show "info_fb_color_space cfg =
        (if info_screen_win_height cfg < 720 then Some DISP_BT601 else Some DISP_BT709)"
    by (rule show_memory_disp2_color)
next
  assume "gst_sunxifbsink_show_overlay_yuv_planar_disp2 g2d_rotate fs ans off format
          = Some (r, fs', calls)"
    "DispSetLayerConfig a b n cfg \<in> set calls"
  then show "info_fb_color_space cfg =
        (if info_screen_win_height cfg < 720 then Some DISP_BT601 else Some DISP_BT709)"
    by (rule show_overlay_yuv_planar_disp2_color)
next
  assume "gst_sunxifbsink_show_overlay_yuv_packed_disp2 fs ans off format = Some (r, fs', calls)"
    "DispSetLayerConfig a b n cfg \<in> set calls"
  then show "info_fb_color_space cfg =
        (if info_screen_win_height cfg < 720 then Some DISP_BT601 else Some DISP_BT709)"
    by (rule show_overlay_yuv_packed_disp2_color)
next
  assume "gst_sunxifbsink_show_overlay_bgrx32_disp2 fs ans off = Some (r, fs', calls)"
    "DispSetLayerConfig a b n cfg \<in> set calls"
  then show "info_fb_color_space cfg =
        (if info_screen_win_height cfg < 720 then Some DISP_BT601 else Some DISP_BT709)"
    by (rule show_overlay_bgrx32_disp2_color)
next
  assume "gst_sunxifbsink_show_memory_yuv_planar_legacy K fs ans readback format mem
          = Some (r, fs', calls')"
    "DispSetLayerConfig a b n cfg' \<in> set calls'"
  then show "other_members cfg' = other_members readback"
    by (rule show_memory_legacy_other_members)
next
  assume "gst_sunxifbsink_show_overlay_yuv_planar_legacy fs ans readback off format
          = Some (r, fs', calls')"
    "DispSetLayerConfig a b n cfg' \<in> set calls'"
  then show "other_members cfg' = other_members readback"
    by (rule show_overlay_yuv_planar_legacy_other_members)
next
  assume "gst_sunxifbsink_show_overlay_yuv_packed_legacy fs ans readback off format
          = Some (r, fs', calls')"
    "DispSetLayerConfig a b n cfg' \<in> set calls'"
  then show "other_members cfg' = other_members readback"
    by (rule show_overlay_yuv_packed_legacy_other_members)
next
  assume "gst_sunxifbsink_show_overlay_bgrx32_legacy fs ans readback off = Some (r, fs', calls')"
    "DispSetLayerConfig a b n cfg' \<in> set calls'"
  then show "other_members cfg' = other_members readback"
    by (rule show_overlay_bgrx32_legacy_other_members)
qed

theorem committed_color_space_witness:
  "\<exists>r fs' calls a b n cfg.
     gst_sunxifbsink_show_overlay_yuv_planar_disp2 False sample_sink sample_answers 8388608
       GST_VIDEO_FORMAT_I420 = Some (r, fs', calls) \<and>
     DispSetLayerConfig a b n cfg \<in> set calls \<and>
     info_screen_win_height cfg = 96 \<and>
     info_fb_color_space cfg = Some DISP_BT601"
proof -
  let ?cfg = "overlay_layer_info_disp2 sample_sink False
           (overlay_planes_disp2 sample_sink 8388608 GST_VIDEO_FORMAT_I420)"
  let ?calls = "[DispSetLayerConfig 4 0 0 ?cfg, DispSetLayerEnable 4 0 0 1]
                  :: (32 word, disp2_layer_config) hw_call list"
  have mem: "DispSetLayerConfig 4 0 0 ?cfg \<in> set ?calls" by simp
  have h: "info_screen_win_height ?cfg = 96"
    by (simp add: overlay_layer_info_disp2_def sample_defs)
  note t = committed_color_space [where fs = sample_sink and ans = sample_answers
      and g2d_rotate = False and off = 8388608 and format = GST_VIDEO_FORMAT_I420
      and r = GST_FLOW_OK and fs' = "sample_sink\<lparr>layer_is_visible := TRUE\<rparr>"
      and calls = ?calls and a = 4 and b = 0 and n = 0 and cfg = ?cfg]
  from t [THEN conjunct2, THEN conjunct1, rule_format, OF conjI, OF sample_overlay_run_disp2 mem] h
  have "info_fb_color_space ?cfg = Some DISP_BT601" by simp
  with sample_overlay_run_disp2 mem h show ?thesis by blast
qed

subsection \<open>A commit that fails\<close>

lemma commit_failed_result:
  assumes fin: "set_layer_config_and_show fs0 ans cfg0 calls0 = Some (r, fs', calls)"
    and neg: "set_layer_config_result ans < 0"
    and no_en: "\<forall>c \<in> set calls0. \<forall>a b d e. c \<noteq> DispSetLayerEnable a b d e"
  shows "r = FALSE \<and> layer_is_visible fs' = layer_is_visible fs0 \<and>
         (\<forall>c \<in> set calls. \<forall>a b d e. c \<noteq> DispSetLayerEnable a b d e)"
  using fin no_en commit_show_failed [OF neg, of fs0 cfg0 calls0] by (auto, blast)

lemma show_memory_disp2_failed:
  assumes run: "gst_sunxifbsink_show_memory_yuv_planar_disp2 K fs ans format mem = Some (r, fs', calls)"
    and c: "DispSetLayerConfig a b n cfg \<in> set calls"
    and neg: "set_layer_config_result ans < 0"
  shows "r = FALSE \<and> layer_is_visible fs' = layer_is_visible fs \<and>
         (\<forall>c \<in> set calls. \<forall>a b d e. c \<noteq> DispSetLayerEnable a b d e)"
proof (cases "stride_divisor fs \<noteq> 0 \<and> snd (memory_planes_disp2 fs ans format (phys_addr ans (map_data mem))
                     (0 < rotate_angle_property fs))")
  case True
  with run neg show ?thesis
    unfolding show_memory_disp2_shape
    using rotate_branch_config [OF _ c] by auto
next
  case False
  with run have "set_layer_config_and_show fs ans
             (memory_layer_info_disp2 K fs ans False tr_info_zero
                (fst (memory_planes_disp2 fs ans format (phys_addr ans (map_data mem))
                        (0 < rotate_angle_property fs)))) [] = Some (r, fs', calls)"
    unfolding show_memory_disp2_shape by (simp split: if_splits)
  from commit_failed_result [OF this neg] show ?thesis by simp
qed

lemma show_memory_legacy_failed:
  assumes run: "gst_sunxifbsink_show_memory_yuv_planar_legacy K fs ans readback format mem
                  = Some (r, fs', calls)"
    and c: "DispSetLayerConfig a b n cfg \<in> set calls"
    and neg: "set_layer_config_result ans < 0"
  shows "r = FALSE \<and> layer_is_visible fs' = layer_is_visible fs \<and>
         (\<forall>c \<in> set calls. \<forall>a b d e. c \<noteq> DispSetLayerEnable a b d e)"
proof (cases "stride_divisor fs \<noteq> 0 \<and> 0 < rotate_angle_property fs")
  case True
  with run neg show ?thesis
    unfolding show_memory_legacy_shape
    using rotate_branch_config [OF _ c] by auto
next
  case False
  with run have "set_layer_config_and_show fs ans
             (layer_info_legacy fs
                (memory_planes_legacy fs format (phys_addr ans (map_data mem)) readback)) []
          = Some (r, fs', calls)"
    unfolding show_memory_legacy_shape by (simp split: if_splits)
  from commit_failed_result [OF this neg] show ?thesis by simp
qed

lemma show_overlay_yuv_planar_disp2_failed:
  assumes run: "gst_sunxifbsink_show_overlay_yuv_planar_disp2 g2d fs ans off format = Some (r, fs', calls)"
    and c: "DispSetLayerConfig a b n cfg \<in> set calls"
    and neg: "set_layer_config_result ans < 0"
  shows "r = FALSE \<and> layer_is_visible fs' = layer_is_visible fs \<and>
         (\<forall>c \<in> set calls. \<forall>a b d e. c \<noteq> DispSetLayerEnable a b d e)"
proof -
  from show_overlay_yuv_planar_disp2_commit [OF run c] obtain fs0 turned c1 calls0 where
    fin: "set_layer_config_and_show fs0 ans (overlay_layer_info_disp2 fs0 turned c1) calls0
             = Some (r, fs', calls)"
    and vis: "layer_is_visible fs0 = layer_is_visible fs"
    and no_en: "\<forall>c \<in> set calls0. \<forall>a b d e. c \<noteq> DispSetLayerEnable a b d e"
    by blast
  from commit_failed_result [OF fin neg no_en] vis show ?thesis by simp
qed

lemma show_overlay_yuv_planar_legacy_failed:
  assumes run: "gst_sunxifbsink_show_overlay_yuv_planar_legacy fs ans readback off format
                  = Some (r, fs', calls)"
    and neg: "set_layer_config_result ans < 0"
  shows "r = FALSE \<and> layer_is_visible fs' = layer_is_visible fs \<and>
         (\<forall>c \<in> set calls. \<forall>a b d e. c \<noteq> DispSetLayerEnable a b d e)"
proof -
  from run have "set_layer_config_and_show fs ans
             (layer_info_legacy fs (overlay_planes_legacy fs off format readback)) []
          = Some (r, fs', calls)"
    by (simp add: gst_sunxifbsink_show_overlay_yuv_planar_legacy_def split: if_splits)
  from commit_failed_result [OF this neg] show ?thesis by simp
qed

lemma show_overlay_yuv_packed_disp2_failed:
  assumes run: "gst_sunxifbsink_show_overlay_yuv_packed_disp2 fs ans off format = Some (r, fs', calls)"
    and neg: "set_layer_config_result ans < 0"
  shows "r = FALSE \<and> layer_is_visible fs' = layer_is_visible fs \<and>
         (\<forall>c \<in> set calls. \<forall>a b d e. c \<noteq> DispSetLayerEnable a b d e)"
proof -
  from run obtain cfg0 where
    "set_layer_config_and_show fs ans cfg0 [] = Some (r, fs', calls)"
    by (simp add: gst_sunxifbsink_show_overlay_yuv_packed_disp2_def Let_def split: if_splits)
  from commit_failed_result [OF this neg] show ?thesis by simp
qed

lemma show_overlay_yuv_packed_legacy_failed:
  assumes run: "gst_sunxifbsink_show_overlay_yuv_packed_legacy fs ans readback off format
                  = Some (r, fs', calls)"
    and neg: "set_layer_config_result ans < 0"
  shows "r = FALSE \<and> layer_is_visible fs' = layer_is_visible fs \<and>
         (\<forall>c \<in> set calls. \<forall>a b d e. c \<noteq> DispSetLayerEnable a b d e)"
proof -
  from run obtain cfg0 where
    "set_layer_config_and_show fs ans cfg0 [] = Some (r, fs', calls)"
    by (simp add: gst_sunxifbsink_show_overlay_yuv_packed_legacy_def split: if_splits)
  from commit_failed_result [OF this neg] show ?thesis by simp
qed

lemma show_overlay_bgrx32_disp2_failed:
  assumes run: "gst_sunxifbsink_show_overlay_bgrx32_disp2 fs ans off = Some (r, fs', calls)"
    and neg: "set_layer_config_result ans < 0"
  shows "r = FALSE \<and> layer_is_visible fs' = layer_is_visible fs \<and>
         (\<forall>c \<in> set calls. \<forall>a b d e. c \<noteq> DispSetLayerEnable a b d e)"
proof -
  from run obtain cfg0 where
    "set_layer_config_and_show fs ans cfg0 [] = Some (r, fs', calls)"
    by (simp add: gst_sunxifbsink_show_overlay_bgrx32_disp2_def Let_def)
  from commit_failed_result [OF this neg] show ?thesis by simp
qed

lemma show_overlay_bgrx32_legacy_failed:
  assumes run: "gst_sunxifbsink_show_overlay_bgrx32_legacy fs ans readback off
                  = Some (r, fs', calls)"
    and neg: "set_layer_config_result ans < 0"
  shows "r = FALSE \<and> layer_is_visible fs' = layer_is_visible fs \<and>
         (\<forall>c \<in> set calls. \<forall>a b d e. c \<noteq> DispSetLayerEnable a b d e)"
proof -
  from run obtain cfg0 where
    "set_layer_config_and_show fs ans cfg0 [] = Some (r, fs', calls)"
    by (simp add: gst_sunxifbsink_show_overlay_bgrx32_legacy_def)
  from commit_failed_result [OF this neg] show ?thesis by simp
qed

lemma FALSE_is_GST_FLOW_OK: "FALSE = GST_FLOW_OK \<and> FALSE \<noteq> GST_FLOW_ERROR"
  by (simp add: FALSE_def GST_FLOW_OK_def GST_FLOW_ERROR_def)

lemma sample_failed_commit_run:
  "gst_sunxifbsink_show_overlay_yuv_planar_disp2 False sample_sink
     (sample_answers\<lparr>set_layer_config_result := - 1\<rparr>) 8388608 GST_VIDEO_FORMAT_I420 =
   Some (FALSE, sample_sink,
     [DispSetLayerConfig 4 0 0
        (overlay_layer_info_disp2 sample_sink False
           (overlay_planes_disp2 sample_sink 8388608 GST_VIDEO_FORMAT_I420))])"
  by (simp add: gst_sunxifbsink_show_overlay_yuv_planar_disp2_def stride_divisor_def
      set_layer_config_and_show_def sample_defs Let_def)

text \<open>
  C1, as the code has it. When \<^verbatim>\<open>DispSetLayerConfig\<close> is called by a presenter and returns
  a negative result, the presenter returns \<^verbatim>\<open>FALSE\<close>, which as a \<^verbatim>\<open>GstFlowReturn\<close> is
  \<^verbatim>\<open>GST_FLOW_OK\<close> and not \<^verbatim>\<open>GST_FLOW_ERROR\<close>; \<^verbatim>\<open>layer_is_visible\<close> is what it was and no
  \<^verbatim>\<open>DispSetLayerEnable\<close> is among the calls, so \<^verbatim>\<open>gst_sunxifbsink_show_layer\<close> did not
  enable the layer. For the four presenters, in both builds.
\<close>

theorem failed_commit_returns_FALSE:
  fixes fs :: "'l::len word sunxifbsink"
    and calls :: "('l word, disp2_layer_config) hw_call list"
    and calls' :: "('l word, 'r disp_layer_config) hw_call list"
  assumes neg: "set_layer_config_result ans < 0"
  shows
    "(gst_sunxifbsink_show_memory_yuv_planar_disp2 K fs ans format mem = Some (r, fs', calls) \<and>
        DispSetLayerConfig a b n cfg \<in> set calls \<longrightarrow>
      r = FALSE \<and> r = GST_FLOW_OK \<and> r \<noteq> GST_FLOW_ERROR \<and>
      layer_is_visible fs' = layer_is_visible fs \<and>
      (\<forall>c \<in> set calls. \<forall>a b d e. c \<noteq> DispSetLayerEnable a b d e)) \<and>
     (gst_sunxifbsink_show_overlay_yuv_planar_disp2 g2d_rotate fs ans off format
          = Some (r, fs', calls) \<and>
        DispSetLayerConfig a b n cfg \<in> set calls \<longrightarrow>
      r = FALSE \<and> r = GST_FLOW_OK \<and> r \<noteq> GST_FLOW_ERROR \<and>
      layer_is_visible fs' = layer_is_visible fs \<and>
      (\<forall>c \<in> set calls. \<forall>a b d e. c \<noteq> DispSetLayerEnable a b d e)) \<and>
     (gst_sunxifbsink_show_overlay_yuv_packed_disp2 fs ans off format = Some (r, fs', calls) \<and>
        DispSetLayerConfig a b n cfg \<in> set calls \<longrightarrow>
      r = FALSE \<and> r = GST_FLOW_OK \<and> r \<noteq> GST_FLOW_ERROR \<and>
      layer_is_visible fs' = layer_is_visible fs \<and>
      (\<forall>c \<in> set calls. \<forall>a b d e. c \<noteq> DispSetLayerEnable a b d e)) \<and>
     (gst_sunxifbsink_show_overlay_bgrx32_disp2 fs ans off = Some (r, fs', calls) \<and>
        DispSetLayerConfig a b n cfg \<in> set calls \<longrightarrow>
      r = FALSE \<and> r = GST_FLOW_OK \<and> r \<noteq> GST_FLOW_ERROR \<and>
      layer_is_visible fs' = layer_is_visible fs \<and>
      (\<forall>c \<in> set calls. \<forall>a b d e. c \<noteq> DispSetLayerEnable a b d e)) \<and>
     (gst_sunxifbsink_show_memory_yuv_planar_legacy K fs ans readback format mem
          = Some (r, fs', calls') \<and>
        DispSetLayerConfig a b n cfg' \<in> set calls' \<longrightarrow>
      r = FALSE \<and> r = GST_FLOW_OK \<and> r \<noteq> GST_FLOW_ERROR \<and>
      layer_is_visible fs' = layer_is_visible fs \<and>
      (\<forall>c \<in> set calls'. \<forall>a b d e. c \<noteq> DispSetLayerEnable a b d e)) \<and>
     (gst_sunxifbsink_show_overlay_yuv_planar_legacy fs ans readback off format
          = Some (r, fs', calls') \<and>
        DispSetLayerConfig a b n cfg' \<in> set calls' \<longrightarrow>
      r = FALSE \<and> r = GST_FLOW_OK \<and> r \<noteq> GST_FLOW_ERROR \<and>
      layer_is_visible fs' = layer_is_visible fs \<and>
      (\<forall>c \<in> set calls'. \<forall>a b d e. c \<noteq> DispSetLayerEnable a b d e)) \<and>
     (gst_sunxifbsink_show_overlay_yuv_packed_legacy fs ans readback off format
          = Some (r, fs', calls') \<and>
        DispSetLayerConfig a b n cfg' \<in> set calls' \<longrightarrow>
      r = FALSE \<and> r = GST_FLOW_OK \<and> r \<noteq> GST_FLOW_ERROR \<and>
      layer_is_visible fs' = layer_is_visible fs \<and>
      (\<forall>c \<in> set calls'. \<forall>a b d e. c \<noteq> DispSetLayerEnable a b d e)) \<and>
     (gst_sunxifbsink_show_overlay_bgrx32_legacy fs ans readback off = Some (r, fs', calls') \<and>
        DispSetLayerConfig a b n cfg' \<in> set calls' \<longrightarrow>
      r = FALSE \<and> r = GST_FLOW_OK \<and> r \<noteq> GST_FLOW_ERROR \<and>
      layer_is_visible fs' = layer_is_visible fs \<and>
      (\<forall>c \<in> set calls'. \<forall>a b d e. c \<noteq> DispSetLayerEnable a b d e))"
proof -
  have ok: "x = FALSE \<Longrightarrow> x = GST_FLOW_OK \<and> x \<noteq> GST_FLOW_ERROR" for x
    using FALSE_is_GST_FLOW_OK by simp
  have 1: "gst_sunxifbsink_show_memory_yuv_planar_disp2 K fs ans format mem = Some (r, fs', calls) \<and>
        DispSetLayerConfig a b n cfg \<in> set calls \<longrightarrow>
      r = FALSE \<and> r = GST_FLOW_OK \<and> r \<noteq> GST_FLOW_ERROR \<and>
      layer_is_visible fs' = layer_is_visible fs \<and>
      (\<forall>c \<in> set calls. \<forall>a b d e. c \<noteq> DispSetLayerEnable a b d e)"
    using show_memory_disp2_failed [of K fs ans format mem r fs' calls a b n cfg, OF _ _ neg] ok
    by blast
  have 2: "gst_sunxifbsink_show_overlay_yuv_planar_disp2 g2d_rotate fs ans off format
          = Some (r, fs', calls) \<and>
        DispSetLayerConfig a b n cfg \<in> set calls \<longrightarrow>
      r = FALSE \<and> r = GST_FLOW_OK \<and> r \<noteq> GST_FLOW_ERROR \<and>
      layer_is_visible fs' = layer_is_visible fs \<and>
      (\<forall>c \<in> set calls. \<forall>a b d e. c \<noteq> DispSetLayerEnable a b d e)"
    using show_overlay_yuv_planar_disp2_failed
      [of g2d_rotate fs ans off format r fs' calls a b n cfg, OF _ _ neg] ok
    by blast
  have 3: "gst_sunxifbsink_show_overlay_yuv_packed_disp2 fs ans off format = Some (r, fs', calls) \<and>
        DispSetLayerConfig a b n cfg \<in> set calls \<longrightarrow>
      r = FALSE \<and> r = GST_FLOW_OK \<and> r \<noteq> GST_FLOW_ERROR \<and>
      layer_is_visible fs' = layer_is_visible fs \<and>
      (\<forall>c \<in> set calls. \<forall>a b d e. c \<noteq> DispSetLayerEnable a b d e)"
    using show_overlay_yuv_packed_disp2_failed [of fs ans off format r fs' calls, OF _ neg] ok
    by blast
  have 4: "gst_sunxifbsink_show_overlay_bgrx32_disp2 fs ans off = Some (r, fs', calls) \<and>
        DispSetLayerConfig a b n cfg \<in> set calls \<longrightarrow>
      r = FALSE \<and> r = GST_FLOW_OK \<and> r \<noteq> GST_FLOW_ERROR \<and>
      layer_is_visible fs' = layer_is_visible fs \<and>
      (\<forall>c \<in> set calls. \<forall>a b d e. c \<noteq> DispSetLayerEnable a b d e)"
    using show_overlay_bgrx32_disp2_failed [of fs ans off r fs' calls, OF _ neg] ok
    by blast
  have 5: "gst_sunxifbsink_show_memory_yuv_planar_legacy K fs ans readback format mem
          = Some (r, fs', calls') \<and>
        DispSetLayerConfig a b n cfg' \<in> set calls' \<longrightarrow>
      r = FALSE \<and> r = GST_FLOW_OK \<and> r \<noteq> GST_FLOW_ERROR \<and>
      layer_is_visible fs' = layer_is_visible fs \<and>
      (\<forall>c \<in> set calls'. \<forall>a b d e. c \<noteq> DispSetLayerEnable a b d e)"
    using show_memory_legacy_failed
      [of K fs ans readback format mem r fs' calls' a b n cfg', OF _ _ neg] ok
    by blast
  have 6: "gst_sunxifbsink_show_overlay_yuv_planar_legacy fs ans readback off format
          = Some (r, fs', calls') \<and>
        DispSetLayerConfig a b n cfg' \<in> set calls' \<longrightarrow>
      r = FALSE \<and> r = GST_FLOW_OK \<and> r \<noteq> GST_FLOW_ERROR \<and>
      layer_is_visible fs' = layer_is_visible fs \<and>
      (\<forall>c \<in> set calls'. \<forall>a b d e. c \<noteq> DispSetLayerEnable a b d e)"
    using show_overlay_yuv_planar_legacy_failed
      [of fs ans readback off format r fs' calls', OF _ neg] ok
    by blast
  have 7: "gst_sunxifbsink_show_overlay_yuv_packed_legacy fs ans readback off format
          = Some (r, fs', calls') \<and>
        DispSetLayerConfig a b n cfg' \<in> set calls' \<longrightarrow>
      r = FALSE \<and> r = GST_FLOW_OK \<and> r \<noteq> GST_FLOW_ERROR \<and>
      layer_is_visible fs' = layer_is_visible fs \<and>
      (\<forall>c \<in> set calls'. \<forall>a b d e. c \<noteq> DispSetLayerEnable a b d e)"
    using show_overlay_yuv_packed_legacy_failed
      [of fs ans readback off format r fs' calls', OF _ neg] ok
    by blast
  have 8: "gst_sunxifbsink_show_overlay_bgrx32_legacy fs ans readback off = Some (r, fs', calls') \<and>
        DispSetLayerConfig a b n cfg' \<in> set calls' \<longrightarrow>
      r = FALSE \<and> r = GST_FLOW_OK \<and> r \<noteq> GST_FLOW_ERROR \<and>
      layer_is_visible fs' = layer_is_visible fs \<and>
      (\<forall>c \<in> set calls'. \<forall>a b d e. c \<noteq> DispSetLayerEnable a b d e)"
    using show_overlay_bgrx32_legacy_failed [of fs ans readback off r fs' calls', OF _ neg] ok
    by blast
  from 1 2 3 4 5 6 7 8 show ?thesis by (intro conjI)
qed

theorem failed_commit_returns_FALSE_witness:
  "set_layer_config_result (sample_answers\<lparr>set_layer_config_result := - 1\<rparr>) < 0 \<and>
   (\<exists>r fs' calls a b n cfg.
      gst_sunxifbsink_show_overlay_yuv_planar_disp2 False sample_sink
        (sample_answers\<lparr>set_layer_config_result := - 1\<rparr>) 8388608 GST_VIDEO_FORMAT_I420
        = Some (r, fs', calls) \<and>
      DispSetLayerConfig a b n cfg \<in> set calls \<and>
      r = GST_FLOW_OK \<and> r \<noteq> GST_FLOW_ERROR \<and>
      layer_is_visible fs' = layer_is_visible sample_sink)"
proof -
  let ?ans = "sample_answers\<lparr>set_layer_config_result := - 1\<rparr>"
  let ?cfg = "overlay_layer_info_disp2 sample_sink False
           (overlay_planes_disp2 sample_sink 8388608 GST_VIDEO_FORMAT_I420)"
  let ?calls = "[DispSetLayerConfig 4 0 0 ?cfg] :: (32 word, disp2_layer_config) hw_call list"
  have neg: "set_layer_config_result ?ans < 0" by simp
  have mem: "DispSetLayerConfig 4 0 0 ?cfg \<in> set ?calls" by simp
  note t = failed_commit_returns_FALSE [OF neg, where fs = sample_sink
      and g2d_rotate = False and off = 8388608 and format = GST_VIDEO_FORMAT_I420
      and r = FALSE and fs' = sample_sink
      and calls = ?calls and a = 4 and b = 0 and n = 0 and cfg = ?cfg]
  from t [THEN conjunct2, THEN conjunct1, rule_format, OF conjI, OF sample_failed_commit_run mem]
  have "FALSE = GST_FLOW_OK \<and> FALSE \<noteq> GST_FLOW_ERROR \<and>
        layer_is_visible sample_sink = layer_is_visible sample_sink" by simp
  with neg sample_failed_commit_run mem show ?thesis by blast
qed

subsection \<open>Overlay alignment\<close>

text \<open>
  C3. \<^verbatim>\<open>gst_sunxifbsink_get_overlay_video_alignment\<close> returns \<^verbatim>\<open>FALSE\<close> exactly when the
  format is I420, YV12, NV12 or NV21 and the width is odd; for every other format it
  returns \<^verbatim>\<open>TRUE\<close> and sets \<^verbatim>\<open>*overlay_align\<close> to 15, whatever the width.
\<close>

theorem get_overlay_video_alignment_unsupported_iff:
  "(fst (gst_sunxifbsink_get_overlay_video_alignment set_from_scanline vi out) = FALSE \<longleftrightarrow>
      vi_format vi \<in> {GST_VIDEO_FORMAT_I420, GST_VIDEO_FORMAT_YV12,
                        GST_VIDEO_FORMAT_NV12, GST_VIDEO_FORMAT_NV21} \<and> odd (vi_width vi)) \<and>
   (vi_format vi \<notin> {GST_VIDEO_FORMAT_I420, GST_VIDEO_FORMAT_YV12,
                        GST_VIDEO_FORMAT_NV12, GST_VIDEO_FORMAT_NV21} \<longrightarrow>
      fst (gst_sunxifbsink_get_overlay_video_alignment set_from_scanline vi out) = TRUE \<and>
      overlay_align (snd (gst_sunxifbsink_get_overlay_video_alignment set_from_scanline vi out)) = 15)"
  by (auto simp: gst_sunxifbsink_get_overlay_video_alignment_def Let_def FALSE_def TRUE_def
      and_one_eq odd_iff_mod_2_eq_one split: prod.splits)

theorem get_overlay_video_alignment_witness:
  "fst (gst_sunxifbsink_get_overlay_video_alignment (\<lambda>vi a b. ((), TRUE))
          \<lparr>vi_format = GST_VIDEO_FORMAT_I420, vi_width = 641, vi_height = 480\<rparr>
          \<lparr>video_alignment = (), overlay_align = 0, video_alignment_matches = FALSE\<rparr>) = FALSE \<and>
   fst (gst_sunxifbsink_get_overlay_video_alignment (\<lambda>vi a b. ((), TRUE))
          \<lparr>vi_format = GST_VIDEO_FORMAT_BGRx, vi_width = 641, vi_height = 480\<rparr>
          \<lparr>video_alignment = (), overlay_align = 0, video_alignment_matches = FALSE\<rparr>) = TRUE \<and>
   overlay_align (snd (gst_sunxifbsink_get_overlay_video_alignment (\<lambda>vi a b. ((), TRUE))
          \<lparr>vi_format = GST_VIDEO_FORMAT_BGRx, vi_width = 641, vi_height = 480\<rparr>
          \<lparr>video_alignment = (), overlay_align = 0, video_alignment_matches = FALSE\<rparr>)) = 15"
  using
    get_overlay_video_alignment_unsupported_iff [of "\<lambda>vi a b. ((), TRUE)"
      "\<lparr>vi_format = GST_VIDEO_FORMAT_I420, vi_width = 641, vi_height = 480\<rparr>"
      "\<lparr>video_alignment = (), overlay_align = 0, video_alignment_matches = FALSE\<rparr>"]
    get_overlay_video_alignment_unsupported_iff [of "\<lambda>vi a b. ((), TRUE)"
      "\<lparr>vi_format = GST_VIDEO_FORMAT_BGRx, vi_width = 641, vi_height = 480\<rparr>"
      "\<lparr>video_alignment = (), overlay_align = 0, video_alignment_matches = FALSE\<rparr>"]
  by simp

end
